theory Spec2Isabelle
  imports Main "HOL-Library.Word"
begin

unbundle bit_operations_syntax

section \<open>Machine types and status codes\<close>

type_synonym u8 = "8 word"
type_synonym u16 = "16 word"
type_synonym u32 = "32 word"
type_synonym u64 = "64 word"

text \<open>
  The status enumerations of \<^verbatim>\<open>mbr_parser_aarch64.c\<close> and
  \<^verbatim>\<open>gpt_parser_aarch64.c\<close> use the same names with different numbers; only
  the names matter here, so one datatype carries the union of both.
\<close>

datatype status_t =
    STATUS_SUCCESS
  | STATUS_ERROR
  | STATUS_NOT_FOUND
  | STATUS_CRC_ERROR
  | STATUS_INVALID_PARAM
  | STATUS_OUT_OF_MEMORY
  | STATUS_OVERLAP
  | STATUS_OUT_OF_RANGE
  | STATUS_MEDIA_CHANGED
  | STATUS_NO_MEDIA

section \<open>Raw buffers and packed little-endian fields\<close>

text \<open>
  The C code overlays packed structs on byte buffers (aarch64, little-endian). A buffer is
  a list of bytes and a field is read at its byte offset. A byte beyond the end of the
  buffer reads as 0 and a store beyond the end is dropped: in C both are undefined, and
  the callers modelled below keep every access inside the buffer.
\<close>

definition byte_at :: "u8 list \<Rightarrow> nat \<Rightarrow> u8" where
  "byte_at buf i = (if i < length buf then buf ! i else 0)"

definition get_u16 :: "u8 list \<Rightarrow> nat \<Rightarrow> u16" where
  "get_u16 buf off =
     ucast (byte_at buf off) OR push_bit 8 (ucast (byte_at buf (off + 1)))"

definition get_u32 :: "u8 list \<Rightarrow> nat \<Rightarrow> u32" where
  "get_u32 buf off =
     ucast (byte_at buf off) OR push_bit 8 (ucast (byte_at buf (off + 1)))
       OR push_bit 16 (ucast (byte_at buf (off + 2)))
       OR push_bit 24 (ucast (byte_at buf (off + 3)))"

definition get_u64 :: "u8 list \<Rightarrow> nat \<Rightarrow> u64" where
  "get_u64 buf off =
     ucast (get_u32 buf off) OR push_bit 32 (ucast (get_u32 buf (off + 4)))"

text \<open>Stores of a 32-bit and a 64-bit field, byte by byte, and \<^verbatim>\<open>memcpy\<close>.\<close>

definition put_u32 :: "nat \<Rightarrow> u32 \<Rightarrow> u8 list \<Rightarrow> u8 list" where
  "put_u32 off v buf =
     buf[off := ucast v, off + 1 := ucast (drop_bit 8 v),
         off + 2 := ucast (drop_bit 16 v), off + 3 := ucast (drop_bit 24 v)]"

definition put_u64 :: "nat \<Rightarrow> u64 \<Rightarrow> u8 list \<Rightarrow> u8 list" where
  "put_u64 off v buf = put_u32 (off + 4) (ucast (drop_bit 32 v)) (put_u32 off (ucast v) buf)"

fun store_bytes :: "nat \<Rightarrow> u8 list \<Rightarrow> u8 list \<Rightarrow> u8 list" where
  "store_bytes off [] buf = buf"
| "store_bytes off (b # bs) buf = store_bytes (Suc off) bs (buf[off := b])"

section \<open>CRC32\<close>

definition crc32_table :: "u32 list" where
  "crc32_table = [
   0x00000000, 0x77073096, 0xEE0E612C, 0x990951BA, 0x076DC419, 0x706AF48F,
   0xE963A535, 0x9E6495A3, 0x0EDB8832, 0x79DCB8A4, 0xE0D5E91E, 0x97D2D988,
   0x09B64C2B, 0x7EB17CBD, 0xE7B82D07, 0x90BF1D91, 0x1DB71064, 0x6AB020F2,
   0xF3B97148, 0x84BE41DE, 0x1ADAD47D, 0x6DDDE4EB, 0xF4D4B551, 0x83D385C7,
   0x136C9856, 0x646BA8C0, 0xFD62F97A, 0x8A65C9EC, 0x14015C4F, 0x63066CD9,
   0xFA0F3D63, 0x8D080DF5, 0x3B6E20C8, 0x4C69105E, 0xD56041E4, 0xA2677172,
   0x3C03E4D1, 0x4B04D447, 0xD20D85FD, 0xA50AB56B, 0x35B5A8FA, 0x42B2986C,
   0xDBBBC9D6, 0xACBCF940, 0x32D86CE3, 0x45DF5C75, 0xDCD60DCF, 0xABD13D59,
   0x26D930AC, 0x51DE003A, 0xC8D75180, 0xBFD06116, 0x21B4F4B5, 0x56B3C423,
   0xCFBA9599, 0xB8BDA50F, 0x2802B89E, 0x5F058808, 0xC60CD9B2, 0xB10BE924,
   0x2F6F7C87, 0x58684C11, 0xC1611DAB, 0xB6662D3D, 0x76DC4190, 0x01DB7106,
   0x98D220BC, 0xEFD5102A, 0x71B18589, 0x06B6B51F, 0x9FBFE4A5, 0xE8B8D433,
   0x7807C9A2, 0x0F00F934, 0x9609A88E, 0xE10E9818, 0x7F6A0DBB, 0x086D3D2D,
   0x91646C97, 0xE6635C01, 0x6B6B51F4, 0x1C6C6162, 0x856530D8, 0xF262004E,
   0x6C0695ED, 0x1B01A57B, 0x8208F4C1, 0xF50FC457, 0x65B0D9C6, 0x12B7E950,
   0x8BBEB8EA, 0xFCB9887C, 0x62DD1DDF, 0x15DA2D49, 0x8CD37CF3, 0xFBD44C65,
   0x4DB26158, 0x3AB551CE, 0xA3BC0074, 0xD4BB30E2, 0x4ADFA541, 0x3DD895D7,
   0xA4D1C46D, 0xD3D6F4FB, 0x4369E96A, 0x346ED9FC, 0xAD678846, 0xDA60B8D0,
   0x44042D73, 0x33031DE5, 0xAA0A4C5F, 0xDD0D7CC9, 0x5005713C, 0x270241AA,
   0xBE0B1010, 0xC90C2086, 0x5768B525, 0x206F85B3, 0xB966D409, 0xCE61E49F,
   0x5EDEF90E, 0x29D9C998, 0xB0D09822, 0xC7D7A8B4, 0x59B33D17, 0x2EB40D81,
   0xB7BD5C3B, 0xC0BA6CAD, 0xEDB88320, 0x9ABFB3B6, 0x03B6E20C, 0x74B1D29A,
   0xEAD54739, 0x9DD277AF, 0x04DB2615, 0x73DC1683, 0xE3630B12, 0x94643B84,
   0x0D6D6A3E, 0x7A6A5AA8, 0xE40ECF0B, 0x9309FF9D, 0x0A00AE27, 0x7D079EB1,
   0xF00F9344, 0x8708A3D2, 0x1E01F268, 0x6906C2FE, 0xF762575D, 0x806567CB,
   0x196C3671, 0x6E6B06E7, 0xFED41B76, 0x89D32BE0, 0x10DA7A5A, 0x67DD4ACC,
   0xF9B9DF6F, 0x8EBEEFF9, 0x17B7BE43, 0x60B08ED5, 0xD6D6A3E8, 0xA1D1937E,
   0x38D8C2C4, 0x4FDFF252, 0xD1BB67F1, 0xA6BC5767, 0x3FB506DD, 0x48B2364B,
   0xD80D2BDA, 0xAF0A1B4C, 0x36034AF6, 0x41047A60, 0xDF60EFC3, 0xA867DF55,
   0x316E8EEF, 0x4669BE79, 0xCB61B38C, 0xBC66831A, 0x256FD2A0, 0x5268E236,
   0xCC0C7795, 0xBB0B4703, 0x220216B9, 0x5505262F, 0xC5BA3BBE, 0xB2BD0B28,
   0x2BB45A92, 0x5CB36A04, 0xC2D7FFA7, 0xB5D0CF31, 0x2CD99E8B, 0x5BDEAE1D,
   0x9B64C2B0, 0xEC63F226, 0x756AA39C, 0x026D930A, 0x9C0906A9, 0xEB0E363F,
   0x72076785, 0x05005713, 0x95BF4A82, 0xE2B87A14, 0x7BB12BAE, 0x0CB61B38,
   0x92D28E9B, 0xE5D5BE0D, 0x7CDCEFB7, 0x0BDBDF21, 0x86D3D2D4, 0xF1D4E242,
   0x68DDB3F8, 0x1FDA836E, 0x81BE16CD, 0xF6B9265B, 0x6FB077E1, 0x18B74777,
   0x88085AE6, 0xFF0F6A70, 0x66063BCA, 0x11010B5C, 0x8F659EFF, 0xF862AE69,
   0x616BFFD3, 0x166CCF45, 0xA00AE278, 0xD70DD2EE, 0x4E048354, 0x3903B3C2,
   0xA7672661, 0xD06016F7, 0x4969474D, 0x3E6E77DB, 0xAED16A4A, 0xD9D65ADC,
   0x40DF0B66, 0x37D83BF0, 0xA9BCAE53, 0xDEBB9EC5, 0x47B2CF7F, 0x30B5FFE9,
   0xBDBDF21C, 0xCABAC28A, 0x53B39330, 0x24B4A3A6, 0xBAD03605, 0xCDD70693,
   0x54DE5729, 0x23D967BF, 0xB3667A2E, 0xC4614AB8, 0x5D681B02, 0x2A6F2B94,
   0xB40BBE37, 0xC30C8EA1, 0x5A05DF1B, 0x2D02EF8D]"

fun crc32_loop :: "u32 \<Rightarrow> u8 list \<Rightarrow> u32" where
  "crc32_loop crc [] = crc"
| "crc32_loop crc (b # bs) =
     crc32_loop (crc32_table ! unat ((crc XOR ucast b) AND 0xFF) XOR drop_bit 8 crc) bs"

text \<open>\<^verbatim>\<open>calculate_crc32(data, length)\<close>: the first \<open>length\<close> bytes of the buffer.\<close>

definition calculate_crc32 :: "u8 list \<Rightarrow> nat \<Rightarrow> u32" where
  "calculate_crc32 data len = crc32_loop 0xFFFFFFFF (take len data) XOR 0xFFFFFFFF"

section \<open>Block device and platform allocator\<close>

text \<open>
  \<^verbatim>\<open>block_device_t\<close> carries two function pointers, \<^verbatim>\<open>read_disk\<close> and
  \<^verbatim>\<open>write_disk\<close>, that the platform supplies, and \<^verbatim>\<open>alloc_pool\<close> is a
  placeholder to be filled in by the platform (the placeholder in the tree returns NULL for
  every size). Both are parameters of the model: the medium is a byte store
  \<open>contents\<close>; \<open>read_status\<close> and \<open>write_status\<close> give the status the
  driver answers to a request at a byte offset and size; \<open>pool\<close> tells whether
  \<^verbatim>\<open>alloc_pool\<close> of a size returns a buffer. Every call of a function pointer is
  appended to \<open>io_log\<close>, whatever its status.
\<close>

datatype io_event = IO_Read u64 u32 | IO_Write u64 u32 "u8 list"

record block_device =
  total_sectors :: u64
  block_size :: u32
  media_id :: u32
  contents :: "nat \<Rightarrow> u8"
  read_status :: "u64 \<Rightarrow> u32 \<Rightarrow> status_t"
  write_status :: "u64 \<Rightarrow> u32 \<Rightarrow> status_t"
  pool :: "nat \<Rightarrow> bool"
  io_log :: "io_event list"

definition read_disk :: "block_device \<Rightarrow> u64 \<Rightarrow> u32 \<Rightarrow> status_t \<times> u8 list \<times> block_device" where
  "read_disk dev off sz =
     (let st = read_status dev off sz;
          dev' = dev\<lparr>io_log := io_log dev @ [IO_Read off sz]\<rparr>
      in if st = STATUS_SUCCESS
         then (st, map (contents dev) [unat off ..< unat off + unat sz], dev')
         else (st, [], dev'))"

definition write_disk :: "block_device \<Rightarrow> u64 \<Rightarrow> u32 \<Rightarrow> u8 list \<Rightarrow> status_t \<times> block_device" where
  "write_disk dev off sz data =
     (let st = write_status dev off sz;
          dev' = dev\<lparr>io_log := io_log dev @ [IO_Write off sz (take (unat sz) data)]\<rparr>
      in if st = STATUS_SUCCESS
         then (st, dev'\<lparr>contents := (\<lambda>a. if unat off \<le> a \<and> a < unat off + unat sz
                                         then byte_at data (a - unat off) else contents dev a)\<rparr>)
         else (st, dev'))"

fun is_write :: "io_event \<Rightarrow> bool" where
  "is_write (IO_Write off sz data) = True"
| "is_write (IO_Read off sz) = False"

section \<open>GPT structures\<close>

text \<open>
  The packed \<^verbatim>\<open>gpt_header_t\<close> (92 bytes) and \<^verbatim>\<open>gpt_partition_entry_t\<close>
  (128 bytes) are kept as the bytes they overlay; each field is an accessor at the byte
  offset the packed layout gives it.
\<close>

type_synonym gpt_header_t = "u8 list"

definition SIZEOF_gpt_header_t :: nat where
  "SIZEOF_gpt_header_t = 92"

definition SIZEOF_gpt_partition_entry_t :: nat where
  "SIZEOF_gpt_partition_entry_t = 128"

definition SIZEOF_master_boot_record_t :: nat where
  "SIZEOF_master_boot_record_t = 512"

definition GPT_HEADER_SIGNATURE :: u64 where
  "GPT_HEADER_SIGNATURE = 0x5452415020494645"

definition PRIMARY_PART_HEADER_LBA :: u64 where
  "PRIMARY_PART_HEADER_LBA = 1"

definition PMBR_GPT_PARTITION :: u8 where
  "PMBR_GPT_PARTITION = 0xEE"

definition MBR_SIGNATURE :: u16 where
  "MBR_SIGNATURE = 0xAA55"

definition signature :: "gpt_header_t \<Rightarrow> u64" where
  "signature h = get_u64 h 0"

definition revision :: "gpt_header_t \<Rightarrow> u32" where
  "revision h = get_u32 h 8"

definition header_size :: "gpt_header_t \<Rightarrow> u32" where
  "header_size h = get_u32 h 12"

definition header_crc32 :: "gpt_header_t \<Rightarrow> u32" where
  "header_crc32 h = get_u32 h 16"

definition my_lba :: "gpt_header_t \<Rightarrow> u64" where
  "my_lba h = get_u64 h 24"

definition alternate_lba :: "gpt_header_t \<Rightarrow> u64" where
  "alternate_lba h = get_u64 h 32"

definition first_usable_lba :: "gpt_header_t \<Rightarrow> u64" where
  "first_usable_lba h = get_u64 h 40"

definition last_usable_lba :: "gpt_header_t \<Rightarrow> u64" where
  "last_usable_lba h = get_u64 h 48"

definition disk_guid :: "gpt_header_t \<Rightarrow> u8 list" where
  "disk_guid h = map (byte_at h) [56 ..< 72]"

definition partition_entry_lba :: "gpt_header_t \<Rightarrow> u64" where
  "partition_entry_lba h = get_u64 h 72"

definition num_partition_entries :: "gpt_header_t \<Rightarrow> u32" where
  "num_partition_entries h = get_u32 h 80"

definition partition_entry_size :: "gpt_header_t \<Rightarrow> u32" where
  "partition_entry_size h = get_u32 h 84"

definition partition_array_crc32 :: "gpt_header_t \<Rightarrow> u32" where
  "partition_array_crc32 h = get_u32 h 88"

text \<open>Stores to the fields the code assigns.\<close>

definition set_header_crc32 :: "u32 \<Rightarrow> gpt_header_t \<Rightarrow> gpt_header_t" where
  "set_header_crc32 v h = put_u32 16 v h"

definition set_my_lba :: "u64 \<Rightarrow> gpt_header_t \<Rightarrow> gpt_header_t" where
  "set_my_lba v h = put_u64 24 v h"

definition set_alternate_lba :: "u64 \<Rightarrow> gpt_header_t \<Rightarrow> gpt_header_t" where
  "set_alternate_lba v h = put_u64 32 v h"

definition set_partition_entry_lba :: "u64 \<Rightarrow> gpt_header_t \<Rightarrow> gpt_header_t" where
  "set_partition_entry_lba v h = put_u64 72 v h"

section \<open>Header checksum\<close>

text \<open>
  \<^verbatim>\<open>check_header_crc(max_size, size, header)\<close>. The header pointer is the start of
  a buffer; the result is the verdict and the buffer as the routine leaves it.
\<close>

definition check_header_crc :: "u32 \<Rightarrow> u32 \<Rightarrow> gpt_header_t \<Rightarrow> bool \<times> gpt_header_t" where
  "check_header_crc max_size sz header =
     (if sz = 0 then (False, header)
      else if max_size \<noteq> 0 \<and> sz > max_size then (False, header)
      else
        let original_crc = header_crc32 header;
            header1 = set_header_crc32 0 header;
            calculated_crc = calculate_crc32 header1 (unat sz);
            header2 = set_header_crc32 calculated_crc header1
        in (original_crc = calculated_crc, header2))"

definition set_header_crc :: "u32 \<Rightarrow> gpt_header_t \<Rightarrow> gpt_header_t" where
  "set_header_crc sz header =
     (let header1 = set_header_crc32 0 header;
          crc = calculate_crc32 header1 (unat sz)
      in set_header_crc32 crc header1)"

section \<open>GPT validation\<close>

definition validate_gpt_entry_array_crc :: "block_device \<Rightarrow> gpt_header_t \<Rightarrow> bool \<times> block_device" where
  "validate_gpt_entry_array_crc dev header =
     (let entries_size = num_partition_entries header * partition_entry_size header
      in if \<not> pool dev (unat entries_size) then (False, dev)
         else
           case read_disk dev (partition_entry_lba header * ucast (block_size dev)) entries_size of
             (status, entries, dev1) \<Rightarrow>
               if status \<noteq> STATUS_SUCCESS then (False, dev1)
               else (partition_array_crc32 header = calculate_crc32 entries (unat entries_size), dev1))"

text \<open>
  \<^verbatim>\<open>validate_gpt_table(dev, lba, header_out)\<close>. \<open>header_out\<close> is the caller's
  struct: it is overwritten by the \<^verbatim>\<open>memcpy\<close> before the entry array is checked,
  so it is returned also when the verdict is false.
\<close>

definition validate_gpt_table ::
  "block_device \<Rightarrow> u64 \<Rightarrow> gpt_header_t \<Rightarrow> bool \<times> gpt_header_t \<times> block_device" where
  "validate_gpt_table dev lba header_out =
     (let bs = block_size dev
      in if \<not> pool dev (unat bs) then (False, header_out, dev)
         else
           case read_disk dev (lba * ucast bs) bs of
             (status, header, dev1) \<Rightarrow>
               if status \<noteq> STATUS_SUCCESS then (False, header_out, dev1)
               else if signature header \<noteq> GPT_HEADER_SIGNATURE then (False, header_out, dev1)
               else
                 case check_header_crc bs (header_size header) header of
                   (crc_ok, header') \<Rightarrow>
                     if \<not> crc_ok then (False, header_out, dev1)
                     else if my_lba header' \<noteq> lba then (False, header_out, dev1)
                     else if unat (partition_entry_size header') < SIZEOF_gpt_partition_entry_t
                       then (False, header_out, dev1)
                     else if (ucast (num_partition_entries header') :: u64)
                               > 0xFFFFFFFFFFFFFFFF div ucast (partition_entry_size header')
                       then (False, header_out, dev1)
                     else
                       let header_out' = take SIZEOF_gpt_header_t header'
                       in case validate_gpt_entry_array_crc dev1 header_out' of
                            (arr_ok, dev2) \<Rightarrow> (arr_ok, header_out', dev2))"

section \<open>GPT restoration\<close>

text \<open>
  The first half of \<^verbatim>\<open>restore_gpt_table\<close>: the location of the new entry array and
  the block-sized buffer \<^verbatim>\<open>new_header\<close> (zeroed, the source struct copied in, three
  fields assigned, the checksum set). \<open>bs\<close> is the block size in bytes.
\<close>

definition new_entry_lba :: "gpt_header_t \<Rightarrow> u64" where
  "new_entry_lba header =
     (if my_lba header = PRIMARY_PART_HEADER_LBA then last_usable_lba header + 1
      else PRIMARY_PART_HEADER_LBA + 1)"

definition new_header :: "nat \<Rightarrow> gpt_header_t \<Rightarrow> gpt_header_t" where
  "new_header bs header =
     (let new_header0 = store_bytes 0 (take SIZEOF_gpt_header_t header) (replicate bs 0);
          new_header1 = set_my_lba (alternate_lba header) new_header0;
          new_header2 = set_alternate_lba (my_lba header) new_header1;
          new_header3 = set_partition_entry_lba (new_entry_lba header) new_header2
      in set_header_crc (header_size new_header3) new_header3)"

definition restore_gpt_table :: "block_device \<Rightarrow> gpt_header_t \<Rightarrow> bool \<times> block_device" where
  "restore_gpt_table dev header =
     (let bs = block_size dev
      in if \<not> pool dev (unat bs) then (False, dev)
         else
           let nh = new_header (unat bs) header
           in case write_disk dev (my_lba nh * ucast bs) bs nh of
                (status, dev1) \<Rightarrow>
                  if status \<noteq> STATUS_SUCCESS then (False, dev1)
                  else
                    let entries_size = num_partition_entries header * partition_entry_size header
                    in if \<not> pool dev1 (unat entries_size) then (False, dev1)
                       else
                         case read_disk dev1 (partition_entry_lba header * ucast bs) entries_size of
                           (status1, entries, dev2) \<Rightarrow>
                             if status1 \<noteq> STATUS_SUCCESS then (False, dev2)
                             else
                               case write_disk dev2 (new_entry_lba header * ucast bs) entries_size
                                      entries of
                                 (status2, dev3) \<Rightarrow> (status2 = STATUS_SUCCESS, dev3))"

section \<open>MBR structures\<close>

text \<open>
  \<^verbatim>\<open>master_boot_record_t\<close> is overlaid on a block: four 16-byte slots from byte
  446, the 2-byte signature at byte 510. The code reads four fields of a slot.
\<close>

record mbr_partition_entry_t =
  boot_indicator :: u8
  os_indicator :: u8
  starting_lba :: u32
  size_in_lba :: u32

definition mbr_partition :: "u8 list \<Rightarrow> nat \<Rightarrow> mbr_partition_entry_t" where
  "mbr_partition mbr i =
     (let off = 446 + 16 * i
      in \<lparr>boot_indicator = byte_at mbr off,
          os_indicator = byte_at mbr (off + 4),
          starting_lba = get_u32 mbr (off + 8),
          size_in_lba = get_u32 mbr (off + 12)\<rparr>)"

definition mbr_signature :: "u8 list \<Rightarrow> u16" where
  "mbr_signature mbr = get_u16 mbr 510"

definition MAX_MBR_PARTITIONS :: nat where
  "MAX_MBR_PARTITIONS = 4"

section \<open>GPT entry checks\<close>

definition GUID_UNUSED :: "u8 list" where
  "GUID_UNUSED = replicate 16 0"

definition GUID_EFI_SYSTEM :: "u8 list" where
  "GUID_EFI_SYSTEM =
     [0x28, 0x73, 0x2A, 0xC1, 0x1F, 0xF8, 0xD2, 0x11, 0xBA, 0x4B, 0x00, 0xA0, 0xC9, 0x3E, 0xC9, 0x3B]"

text \<open>\<^verbatim>\<open>memcmp\<close> over the 16 bytes of two GUIDs.\<close>

definition compare_guid :: "u8 list \<Rightarrow> u8 list \<Rightarrow> bool" where
  "compare_guid g1 g2 = (g1 = g2)"

text \<open>
  Entry \<open>i\<close> of the array lies at byte \<^verbatim>\<open>i * header->partition_entry_size\<close>, a
  32-bit product. The fields of the entry at a byte offset of the entry buffer:
\<close>

definition entry_offset :: "gpt_header_t \<Rightarrow> nat \<Rightarrow> nat" where
  "entry_offset header i = unat ((of_nat i :: u32) * partition_entry_size header)"

definition entry_partition_type_guid :: "u8 list \<Rightarrow> nat \<Rightarrow> u8 list" where
  "entry_partition_type_guid entries off = map (byte_at entries) [off ..< off + 16]"

definition entry_unique_guid :: "u8 list \<Rightarrow> nat \<Rightarrow> u8 list" where
  "entry_unique_guid entries off = map (byte_at entries) [off + 16 ..< off + 32]"

definition entry_starting_lba :: "u8 list \<Rightarrow> nat \<Rightarrow> u64" where
  "entry_starting_lba entries off = get_u64 entries (off + 32)"

definition entry_ending_lba :: "u8 list \<Rightarrow> nat \<Rightarrow> u64" where
  "entry_ending_lba entries off = get_u64 entries (off + 40)"

definition entry_attributes :: "u8 list \<Rightarrow> nat \<Rightarrow> u64" where
  "entry_attributes entries off = get_u64 entries (off + 48)"

record partition_entry_status_t =
  out_of_range :: bool
  overlap :: bool
  os_specific :: bool

definition status_clear :: partition_entry_status_t where
  "status_clear = \<lparr>out_of_range = False, overlap = False, os_specific = False\<rparr>"

text \<open>The inner loop of \<^verbatim>\<open>check_gpt_entries\<close>, over \<open>j = i + 1, ...\<close>.\<close>

fun check_overlaps ::
  "gpt_header_t \<Rightarrow> u8 list \<Rightarrow> nat \<Rightarrow> u64 \<Rightarrow> u64 \<Rightarrow> nat list
     \<Rightarrow> partition_entry_status_t list \<Rightarrow> partition_entry_status_t list" where
  "check_overlaps header entries i start_lba end_lba [] entry_status = entry_status"
| "check_overlaps header entries i start_lba end_lba (j # js) entry_status =
     (let other_entry = entry_offset header j
      in if compare_guid (entry_partition_type_guid entries other_entry) GUID_UNUSED
         then check_overlaps header entries i start_lba end_lba js entry_status
         else if entry_ending_lba entries other_entry \<ge> start_lba
                 \<and> entry_starting_lba entries other_entry \<le> end_lba
         then
           let st1 = entry_status[i := (entry_status ! i)\<lparr>overlap := True\<rparr>];
               st2 = st1[j := (st1 ! j)\<lparr>overlap := True\<rparr>]
           in check_overlaps header entries i start_lba end_lba js st2
         else check_overlaps header entries i start_lba end_lba js entry_status)"

text \<open>The outer loop, over \<open>i\<close>; \<open>n\<close> is \<^verbatim>\<open>header->num_partition_entries\<close>.\<close>

fun check_entries_loop ::
  "gpt_header_t \<Rightarrow> u8 list \<Rightarrow> nat \<Rightarrow> nat list
     \<Rightarrow> partition_entry_status_t list \<Rightarrow> partition_entry_status_t list" where
  "check_entries_loop header entries n [] entry_status = entry_status"
| "check_entries_loop header entries n (i # is) entry_status =
     (let entry = entry_offset header i
      in if compare_guid (entry_partition_type_guid entries entry) GUID_UNUSED
         then check_entries_loop header entries n is entry_status
         else
           let start_lba = entry_starting_lba entries entry;
               end_lba = entry_ending_lba entries entry
           in if start_lba > end_lba
                 \<or> start_lba < first_usable_lba header
                 \<or> start_lba > last_usable_lba header
                 \<or> end_lba < first_usable_lba header
                 \<or> end_lba > last_usable_lba header
              then check_entries_loop header entries n is
                     (entry_status[i := (entry_status ! i)\<lparr>out_of_range := True\<rparr>])
              else
                let st1 = (if entry_attributes entries entry AND push_bit 1 1 \<noteq> 0
                           then entry_status[i := (entry_status ! i)\<lparr>os_specific := True\<rparr>]
                           else entry_status);
                    st2 = check_overlaps header entries i start_lba end_lba [Suc i ..< n] st1
                in check_entries_loop header entries n is st2)"

definition check_gpt_entries ::
  "gpt_header_t \<Rightarrow> u8 list \<Rightarrow> partition_entry_status_t list \<Rightarrow> partition_entry_status_t list" where
  "check_gpt_entries header entries entry_status =
     (let n = unat (num_partition_entries header)
      in check_entries_loop header entries n [0 ..< n] entry_status)"

section \<open>GPT discovery\<close>

record gpt_partition_info_t =
  gpt_type_guid :: "u8 list"
  gpt_unique_guid :: "u8 list"
  gpt_start_lba :: u64
  gpt_end_lba :: u64
  gpt_size_sectors :: u64
  gpt_attributes :: u64
  gpt_name :: "u8 list"
  gpt_partition_number :: u32
  is_system :: bool
  is_bootable :: bool

text \<open>
  \<^verbatim>\<open>utf16_to_ascii(dest, src, max_len)\<close> from the name field on, at most
  \<open>max_len - 1\<close> characters (the first argument counts them down); the result is the
  string without its terminating NUL.
\<close>

fun utf16_to_ascii :: "nat \<Rightarrow> u8 list \<Rightarrow> nat \<Rightarrow> u8 list" where
  "utf16_to_ascii 0 src off = []"
| "utf16_to_ascii (Suc k) src off =
     (let c = get_u16 src off
      in if c = 0 then []
         else (if c < 128 then ucast c else 0x3F) # utf16_to_ascii k src (off + 2))"

text \<open>The protective-MBR test (the loop setting \<^verbatim>\<open>has_gpt_partition\<close>).\<close>

definition has_gpt_partition :: "u8 list \<Rightarrow> bool" where
  "has_gpt_partition mbr =
     list_ex (\<lambda>i. boot_indicator (mbr_partition mbr i) = 0x00
                 \<and> os_indicator (mbr_partition mbr i) = PMBR_GPT_PARTITION
                 \<and> starting_lba (mbr_partition mbr i) = 1) [0 ..< MAX_MBR_PARTITIONS]"

text \<open>
  Validation of the two copies and restoration of the invalid one: the block that sets
  \<^verbatim>\<open>primary_valid\<close> and \<^verbatim>\<open>backup_valid\<close>. The result is both verdicts, both header
  structs and the device.
\<close>

definition validate_primary_and_backup ::
  "block_device \<Rightarrow> u64
     \<Rightarrow> bool \<times> bool \<times> gpt_header_t \<times> gpt_header_t \<times> block_device" where
  "validate_primary_and_backup dev last_block =
     (let primary_header0 = replicate SIZEOF_gpt_header_t 0;
          backup_header0 = replicate SIZEOF_gpt_header_t 0
      in case validate_gpt_table dev PRIMARY_PART_HEADER_LBA primary_header0 of
           (primary_valid, primary_header, dev1) \<Rightarrow>
             if \<not> primary_valid then
               (case validate_gpt_table dev1 last_block backup_header0 of
                  (backup_valid, backup_header, dev2) \<Rightarrow>
                    if backup_valid then
                      (case restore_gpt_table dev2 backup_header of
                         (restored, dev3) \<Rightarrow>
                           (case validate_gpt_table dev3 (alternate_lba backup_header) primary_header of
                              (primary_valid', primary_header', dev4) \<Rightarrow>
                                (primary_valid', backup_valid, primary_header', backup_header, dev4)))
                    else (primary_valid, backup_valid, primary_header, backup_header, dev2))
             else
               (case validate_gpt_table dev1 (alternate_lba primary_header) backup_header0 of
                  (backup_valid, backup_header, dev2) \<Rightarrow>
                    if \<not> backup_valid then
                      (case restore_gpt_table dev2 primary_header of
                         (restored, dev3) \<Rightarrow>
                           (case validate_gpt_table dev3 (alternate_lba primary_header) backup_header of
                              (backup_valid', backup_header', dev4) \<Rightarrow>
                                (primary_valid, backup_valid', primary_header, backup_header', dev4)))
                    else (primary_valid, backup_valid, primary_header, backup_header, dev2)))"

text \<open>The loop that fills the caller's array; the array filled so far is \<open>partitions\<close>.\<close>

fun process_gpt_entries ::
  "gpt_header_t \<Rightarrow> u8 list \<Rightarrow> partition_entry_status_t list \<Rightarrow> nat \<Rightarrow> nat list
     \<Rightarrow> gpt_partition_info_t list \<Rightarrow> gpt_partition_info_t list" where
  "process_gpt_entries header entries entry_status max_partitions [] partitions = partitions"
| "process_gpt_entries header entries entry_status max_partitions (i # is) partitions =
     (if length partitions < max_partitions then
        let entry = entry_offset header i
        in if compare_guid (entry_partition_type_guid entries entry) GUID_UNUSED
              \<or> out_of_range (entry_status ! i)
              \<or> overlap (entry_status ! i)
              \<or> os_specific (entry_status ! i)
           then process_gpt_entries header entries entry_status max_partitions is partitions
           else
             let part = \<lparr>gpt_type_guid = entry_partition_type_guid entries entry,
                         gpt_unique_guid = entry_unique_guid entries entry,
                         gpt_start_lba = entry_starting_lba entries entry,
                         gpt_end_lba = entry_ending_lba entries entry,
                         gpt_size_sectors =
                           entry_ending_lba entries entry - entry_starting_lba entries entry + 1,
                         gpt_attributes = entry_attributes entries entry,
                         gpt_name = utf16_to_ascii 127 entries (entry + 56),
                         gpt_partition_number = of_nat i + 1,
                         is_system =
                           compare_guid (entry_partition_type_guid entries entry) GUID_EFI_SYSTEM,
                         is_bootable = (entry_attributes entries entry AND push_bit 2 1 \<noteq> 0)\<rparr>
             in process_gpt_entries header entries entry_status max_partitions is (partitions @ [part])
      else partitions)"

text \<open>
  \<^verbatim>\<open>discover_gpt_partitions\<close>: the status, the descriptors written to the caller's
  array (their number is \<^verbatim>\<open>*num_partitions\<close> on success) and the device.
\<close>

definition discover_gpt_partitions ::
  "block_device \<Rightarrow> u32 \<Rightarrow> status_t \<times> gpt_partition_info_t list \<times> block_device" where
  "discover_gpt_partitions dev max_partitions =
     (let bs = block_size dev;
          last_block = total_sectors dev - 1
      in if unat bs < SIZEOF_master_boot_record_t then (STATUS_INVALID_PARAM, [], dev)
         else if \<not> pool dev (unat bs) then (STATUS_OUT_OF_MEMORY, [], dev)
         else
           case read_disk dev 0 bs of
             (status, mbr, dev1) \<Rightarrow>
               if status \<noteq> STATUS_SUCCESS then (STATUS_ERROR, [], dev1)
               else if \<not> has_gpt_partition mbr then (STATUS_NOT_FOUND, [], dev1)
               else if \<not> pool dev1 SIZEOF_gpt_header_t then (STATUS_OUT_OF_MEMORY, [], dev1)
               else
                 case validate_primary_and_backup dev1 last_block of
                   (primary_valid, backup_valid, primary_header, backup_header, dev2) \<Rightarrow>
                     if \<not> primary_valid \<and> \<not> backup_valid then (STATUS_NOT_FOUND, [], dev2)
                     else
                       let header = (if primary_valid then primary_header else backup_header);
                           entries_size = num_partition_entries header * partition_entry_size header
                       in if \<not> pool dev2 (unat entries_size) then (STATUS_OUT_OF_MEMORY, [], dev2)
                          else
                            case read_disk dev2 (partition_entry_lba header * ucast bs) entries_size of
                              (status1, entries, dev3) \<Rightarrow>
                                if status1 \<noteq> STATUS_SUCCESS then (STATUS_ERROR, [], dev3)
                                else if \<not> pool dev3 (unat (num_partition_entries header) * 3)
                                  then (STATUS_OUT_OF_MEMORY, [], dev3)
                                else
                                  let n = unat (num_partition_entries header);
                                      entry_status =
                                        check_gpt_entries header entries (replicate n status_clear);
                                      partitions =
                                        process_gpt_entries header entries entry_status
                                          (unat max_partitions) [0 ..< n] []
                                  in (STATUS_SUCCESS, partitions, dev3))"

section \<open>MBR parser\<close>

definition PARTITION_TYPE_EMPTY :: u8 where
  "PARTITION_TYPE_EMPTY = 0x00"

definition PARTITION_TYPE_EXTENDED :: u8 where
  "PARTITION_TYPE_EXTENDED = 0x05"

definition PARTITION_TYPE_EXTENDED_LBA :: u8 where
  "PARTITION_TYPE_EXTENDED_LBA = 0x0F"

definition PARTITION_TYPE_LINUX_EXTENDED :: u8 where
  "PARTITION_TYPE_LINUX_EXTENDED = 0x85"

definition get_partition_type_name :: "u8 \<Rightarrow> string" where
  "get_partition_type_name t =
     (if t = 0x00 then ''Empty''
      else if t = 0x01 then ''FAT12''
      else if t = 0x04 \<or> t = 0x06 \<or> t = 0x0E then ''FAT16''
      else if t = 0x05 \<or> t = 0x0F \<or> t = 0x85 then ''Extended''
      else if t = 0x07 then ''NTFS''
      else if t = 0x0B \<or> t = 0x0C then ''FAT32''
      else if t = 0x82 then ''Linux Swap''
      else if t = 0x83 then ''Linux''
      else if t = 0x8E then ''Linux LVM''
      else if t = 0xEE then ''GPT Protective''
      else if t = 0xEF then ''EFI System''
      else ''Unknown'')"

definition is_extended_partition :: "u8 \<Rightarrow> bool" where
  "is_extended_partition t =
     (t = PARTITION_TYPE_EXTENDED \<or> t = PARTITION_TYPE_EXTENDED_LBA
        \<or> t = PARTITION_TYPE_LINUX_EXTENDED)"

fun validate_mbr_slots :: "u8 list \<Rightarrow> nat list \<Rightarrow> bool" where
  "validate_mbr_slots mbr [] = True"
| "validate_mbr_slots mbr (i # is) =
     (let entry = mbr_partition mbr i
      in if os_indicator entry = PARTITION_TYPE_EMPTY then validate_mbr_slots mbr is
         else if boot_indicator entry \<noteq> 0x00 \<and> boot_indicator entry \<noteq> 0x80 then False
         else if size_in_lba entry = 0 then False
         else validate_mbr_slots mbr is)"

definition validate_mbr :: "u8 list \<Rightarrow> bool" where
  "validate_mbr mbr =
     (if mbr_signature mbr \<noteq> MBR_SIGNATURE then False
      else validate_mbr_slots mbr [0 ..< MAX_MBR_PARTITIONS])"

definition is_protective_mbr :: "u8 list \<Rightarrow> bool" where
  "is_protective_mbr mbr =
     list_ex (\<lambda>i. boot_indicator (mbr_partition mbr i) = 0x00
                 \<and> os_indicator (mbr_partition mbr i) = PMBR_GPT_PARTITION
                 \<and> starting_lba (mbr_partition mbr i) = 1) [0 ..< MAX_MBR_PARTITIONS]"

record mbr_partition_info_t =
  start_lba :: u64
  end_lba :: u64
  size_sectors :: u64
  info_block_size :: u32
  partition_type :: u8
  bootable :: bool
  is_extended :: bool
  partition_number :: u32
  type_name :: string

text \<open>
  The descriptor both loops fill in from a slot: \<open>base\<close> is what the slot's start is
  added to (the current EBR for a logical partition, 0 for a primary one) and \<open>num\<close>
  the partition number. \<^verbatim>\<open>strcpy_s\<close> into the 32-byte \<^verbatim>\<open>type_name\<close> keeps at
  most 31 characters.
\<close>

definition partition_info ::
  "block_device \<Rightarrow> u64 \<Rightarrow> mbr_partition_entry_t \<Rightarrow> u32 \<Rightarrow> mbr_partition_info_t" where
  "partition_info dev base entry num =
     \<lparr>start_lba = base + ucast (starting_lba entry),
      end_lba = base + ucast (starting_lba entry) + ucast (size_in_lba entry) - 1,
      size_sectors = ucast (size_in_lba entry),
      info_block_size = block_size dev,
      partition_type = os_indicator entry,
      bootable = (boot_indicator entry = 0x80),
      is_extended = False,
      partition_number = num,
      type_name = take 31 (get_partition_type_name (os_indicator entry))\<rparr>"

text \<open>
  The \<^verbatim>\<open>while\<close> loop of \<^verbatim>\<open>process_extended_partition\<close>. Nothing in it bounds the
  number of iterations, so the loop is a partial function: \<open>None\<close> is a walk that never
  returns. \<^verbatim>\<open>*partition_count\<close> is the length of the array filled so far.
\<close>

partial_function (option) ebr_chain_loop ::
  "u64 \<Rightarrow> nat \<Rightarrow> block_device \<Rightarrow> u64 \<Rightarrow> u32 \<Rightarrow> mbr_partition_info_t list
     \<Rightarrow> (status_t \<times> mbr_partition_info_t list \<times> block_device) option" where
  "ebr_chain_loop extended_base_lba max_partitions dev current_ebr_lba logical_partition_num partitions =
     (if current_ebr_lba \<noteq> 0 \<and> length partitions < max_partitions then
        (case read_disk dev (current_ebr_lba * ucast (block_size dev)) (block_size dev) of
           (status, ebr, dev1) \<Rightarrow>
             if status \<noteq> STATUS_SUCCESS then Some (status, partitions, dev1)
             else if mbr_signature ebr \<noteq> MBR_SIGNATURE then Some (STATUS_SUCCESS, partitions, dev1)
             else
               let logical = mbr_partition ebr 0;
                   found = (os_indicator logical \<noteq> PARTITION_TYPE_EMPTY \<and> size_in_lba logical > 0);
                   partitions1 =
                     (if found
                      then partitions @ [partition_info dev current_ebr_lba logical logical_partition_num]
                      else partitions);
                   logical_partition_num1 =
                     (if found then logical_partition_num + 1 else logical_partition_num);
                   next = mbr_partition ebr 1;
                   current_ebr_lba1 =
                     (if os_indicator next \<noteq> PARTITION_TYPE_EMPTY
                         \<and> is_extended_partition (os_indicator next)
                         \<and> size_in_lba next > 0
                      then extended_base_lba + ucast (starting_lba next)
                      else 0)
               in ebr_chain_loop extended_base_lba max_partitions dev1 current_ebr_lba1
                    logical_partition_num1 partitions1)
      else Some (STATUS_SUCCESS, partitions, dev))"

definition process_extended_partition ::
  "block_device \<Rightarrow> u64 \<Rightarrow> u64 \<Rightarrow> mbr_partition_info_t list \<Rightarrow> nat
     \<Rightarrow> (status_t \<times> mbr_partition_info_t list \<times> block_device) option" where
  "process_extended_partition dev extended_base_lba ebr_lba partitions max_partitions =
     (if \<not> pool dev (unat (block_size dev)) then Some (STATUS_OUT_OF_MEMORY, partitions, dev)
      else ebr_chain_loop extended_base_lba max_partitions dev ebr_lba 5 partitions)"

text \<open>The loop over the four primary slots.\<close>

fun process_primary_partitions ::
  "block_device \<Rightarrow> u8 list \<Rightarrow> nat \<Rightarrow> nat list \<Rightarrow> mbr_partition_info_t list
     \<Rightarrow> (mbr_partition_info_t list \<times> block_device) option" where
  "process_primary_partitions dev mbr max_partitions [] partitions = Some (partitions, dev)"
| "process_primary_partitions dev mbr max_partitions (i # is) partitions =
     (if length partitions < max_partitions then
        let entry = mbr_partition mbr i
        in if os_indicator entry = PARTITION_TYPE_EMPTY \<or> size_in_lba entry = 0
           then process_primary_partitions dev mbr max_partitions is partitions
           else if is_extended_partition (os_indicator entry) then
             (case process_extended_partition dev (ucast (starting_lba entry))
                     (ucast (starting_lba entry)) partitions max_partitions of
                None \<Rightarrow> None
              | Some (status, partitions1, dev1) \<Rightarrow>
                  process_primary_partitions dev1 mbr max_partitions is partitions1)
           else
             process_primary_partitions dev mbr max_partitions is
               (partitions @ [partition_info dev 0 entry (of_nat i + 1)])
      else Some (partitions, dev))"

text \<open>
  \<^verbatim>\<open>discover_mbr_partitions\<close>. The NULL tests on the three pointer arguments have no
  counterpart: the model's arguments are always present.
\<close>

definition discover_mbr_partitions ::
  "block_device \<Rightarrow> u32 \<Rightarrow> (status_t \<times> mbr_partition_info_t list \<times> block_device) option" where
  "discover_mbr_partitions dev max_partitions =
     (if max_partitions = 0 then Some (STATUS_INVALID_PARAM, [], dev)
      else if unat (block_size dev) < SIZEOF_master_boot_record_t
        then Some (STATUS_INVALID_PARAM, [], dev)
      else if \<not> pool dev (unat (block_size dev)) then Some (STATUS_OUT_OF_MEMORY, [], dev)
      else
        case read_disk dev 0 (block_size dev) of
          (status, mbr, dev1) \<Rightarrow>
            if status \<noteq> STATUS_SUCCESS then Some (status, [], dev1)
            else if \<not> validate_mbr mbr then Some (STATUS_NOT_FOUND, [], dev1)
            else if is_protective_mbr mbr then Some (STATUS_NOT_FOUND, [], dev1)
            else
              case process_primary_partitions dev1 mbr (unat max_partitions)
                     [0 ..< MAX_MBR_PARTITIONS] [] of
                None \<Rightarrow> None
              | Some (partitions, dev2) \<Rightarrow>
                  if length partitions > 0 then Some (STATUS_SUCCESS, partitions, dev2)
                  else Some (STATUS_NOT_FOUND, partitions, dev2))"

section \<open>Concrete devices and buffers\<close>

text \<open>
  A 92-byte header with the signature, revision 1.0, a declared header size of 0 and the
  stored checksum 0x12345678.
\<close>

definition stale_header :: gpt_header_t where
  "stale_header =
     [0x45, 0x46, 0x49, 0x20, 0x50, 0x41, 0x52, 0x54, 0x00, 0x00, 0x01, 0x00,
      0x00, 0x00, 0x00, 0x00, 0x78, 0x56, 0x34, 0x12] @ replicate 72 0"

text \<open>
  A zeroed medium whose driver and allocator never fail: no block count (0 sectors), 512-byte
  blocks.
\<close>

definition blank_device :: block_device where
  "blank_device =
     \<lparr>total_sectors = 0, block_size = 512, media_id = 0,
      contents = (\<lambda>a. 0),
      read_status = (\<lambda>off sz. STATUS_SUCCESS),
      write_status = (\<lambda>off sz. STATUS_SUCCESS),
      pool = (\<lambda>n. True),
      io_log = []\<rparr>"

text \<open>The same with 256-byte blocks and 8 sectors.\<close>

definition small_block_device :: block_device where
  "small_block_device = blank_device\<lparr>total_sectors := 8, block_size := 256\<rparr>"

text \<open>
  Eight 512-byte blocks whose block 0 is a protective MBR: slot 0 has boot flag 0, type
  0xEE and start 1, and the block ends with 55 AA.
\<close>

definition protective_mbr_contents :: "nat \<Rightarrow> u8" where
  "protective_mbr_contents a =
     (if a = 450 then 0xEE
      else if a = 454 then 0x01
      else if a = 458 then 0x07
      else if a = 510 then 0x55
      else if a = 511 then 0xAA
      else 0)"

definition protective_mbr_device :: block_device where
  "protective_mbr_device =
     blank_device\<lparr>total_sectors := 8, contents := protective_mbr_contents\<rparr>"

text \<open>
  Byte \<open>i\<close> of a boot record whose first two slots hold the given boot flag, type, start
  and count (each below 256) and which ends with 55 AA.
\<close>

definition boot_record_byte :: "u8 \<times> u8 \<times> u8 \<times> u8 \<Rightarrow> u8 \<times> u8 \<times> u8 \<times> u8 \<Rightarrow> nat \<Rightarrow> u8" where
  "boot_record_byte s0 s1 i =
     (case s0 of (b0, t0, st0, sz0) \<Rightarrow>
      case s1 of (b1, t1, st1, sz1) \<Rightarrow>
        if i = 446 then b0 else if i = 450 then t0 else if i = 454 then st0
        else if i = 458 then sz0
        else if i = 462 then b1 else if i = 466 then t1 else if i = 470 then st1
        else if i = 474 then sz1
        else if i = 510 then 0x55 else if i = 511 then 0xAA else 0)"

text \<open>
  An MBR disk of 64 blocks: a bootable Linux primary partition at block 1 (9 blocks) in slot
  0 and an extended partition at block 10 in slot 1, whose chain has three EBRs, at blocks
  10, 20 and 30, each with one logical partition one block after it.
\<close>

definition chain_contents :: "nat \<Rightarrow> u8" where
  "chain_contents a =
     (if a < 512 then boot_record_byte (0x80, 0x83, 1, 9) (0x00, 0x05, 10, 30) a
      else if 5120 \<le> a \<and> a < 5632
        then boot_record_byte (0x00, 0x83, 1, 5) (0x00, 0x05, 10, 10) (a - 5120)
      else if 10240 \<le> a \<and> a < 10752
        then boot_record_byte (0x00, 0x82, 1, 5) (0x00, 0x05, 20, 10) (a - 10240)
      else if 15360 \<le> a \<and> a < 15872
        then boot_record_byte (0x00, 0x0C, 1, 5) (0x00, 0x00, 0, 0) (a - 15360)
      else 0)"

definition chain_device :: block_device where
  "chain_device = blank_device\<lparr>total_sectors := 64, contents := chain_contents\<rparr>"

text \<open>
  An MBR disk whose slot 0 is an extended partition at block 1; the EBR in block 1 has an
  empty first slot and a second slot of extended type with start 0, that is, block 1 again.
\<close>

definition cyclic_contents :: "nat \<Rightarrow> u8" where
  "cyclic_contents a =
     (if a < 512 then boot_record_byte (0x00, 0x05, 1, 8) (0x00, 0x00, 0, 0) a
      else if a < 1024 then boot_record_byte (0x00, 0x00, 0, 0) (0x00, 0x05, 0, 1) (a - 512)
      else 0)"

definition cyclic_device :: block_device where
  "cyclic_device = blank_device\<lparr>total_sectors := 64, contents := cyclic_contents\<rparr>"

text \<open>
  An MBR disk with two extended partitions: slot 0 at block 10, whose chain has the EBRs
  at blocks 10 and 20, and slot 1 at block 40, whose chain is the one EBR at block 40. The
  logical partitions lie two blocks after the first EBR, three blocks after the second and
  one block after the third.
\<close>

definition twin_contents :: "nat \<Rightarrow> u8" where
  "twin_contents a =
     (if a < 512 then boot_record_byte (0x00, 0x05, 10, 30) (0x00, 0x05, 40, 20) a
      else if 5120 \<le> a \<and> a < 5632
        then boot_record_byte (0x00, 0x83, 2, 5) (0x00, 0x05, 10, 10) (a - 5120)
      else if 10240 \<le> a \<and> a < 10752
        then boot_record_byte (0x00, 0x82, 3, 4) (0x00, 0x00, 0, 0) (a - 10240)
      else if 20480 \<le> a \<and> a < 20992
        then boot_record_byte (0x00, 0x83, 1, 5) (0x00, 0x00, 0, 0) (a - 20480)
      else 0)"

definition twin_device :: block_device where
  "twin_device = blank_device\<lparr>total_sectors := 64, contents := twin_contents\<rparr>"

text \<open>
  An MBR disk whose slot 0 is an extended partition at block 1; the EBR in block 1 has a
  logical partition in its first slot and a second slot of extended type with start 0, that
  is, block 1 again.
\<close>

definition ring_contents :: "nat \<Rightarrow> u8" where
  "ring_contents a =
     (if a < 512 then boot_record_byte (0x00, 0x05, 1, 8) (0x00, 0x00, 0, 0) a
      else if a < 1024 then boot_record_byte (0x00, 0x83, 1, 5) (0x00, 0x05, 0, 1) (a - 512)
      else 0)"

definition ring_device :: block_device where
  "ring_device = blank_device\<lparr>total_sectors := 64, contents := ring_contents\<rparr>"

section \<open>Notions of the specification\<close>

text \<open>
  The specification's words for the entry checks, stated on entry \<open>i\<close> of an entry
  buffer: a non-empty entry has a type GUID other than all zeros; it is in range when
  \<open>start \<le> end\<close> and both addresses lie in \<open>[first_usable_lba, last_usable_lba]\<close>;
  two entries overlap when \<open>a.end \<ge> b.start\<close> and \<open>a.start \<le> b.end\<close>.
\<close>

definition entry_used :: "gpt_header_t \<Rightarrow> u8 list \<Rightarrow> nat \<Rightarrow> bool" where
  "entry_used header entries i =
     (entry_partition_type_guid entries (entry_offset header i) \<noteq> replicate 16 0)"

definition entry_in_range :: "gpt_header_t \<Rightarrow> u8 list \<Rightarrow> nat \<Rightarrow> bool" where
  "entry_in_range header entries i =
     (let s = entry_starting_lba entries (entry_offset header i);
          e = entry_ending_lba entries (entry_offset header i)
      in s \<le> e \<and> first_usable_lba header \<le> s \<and> s \<le> last_usable_lba header
           \<and> first_usable_lba header \<le> e \<and> e \<le> last_usable_lba header)"

definition entries_overlap :: "gpt_header_t \<Rightarrow> u8 list \<Rightarrow> nat \<Rightarrow> nat \<Rightarrow> bool" where
  "entries_overlap header entries a b =
     (entry_ending_lba entries (entry_offset header a)
        \<ge> entry_starting_lba entries (entry_offset header b)
      \<and> entry_starting_lba entries (entry_offset header a)
        \<le> entry_ending_lba entries (entry_offset header b))"

text \<open>
  A device as discovery leaves it when it has only read: the same device with further
  events in its log, none of them a write.
\<close>

definition only_reads :: "block_device \<Rightarrow> block_device \<Rightarrow> bool" where
  "only_reads dev dev' =
     (\<exists>evs. dev' = dev\<lparr>io_log := io_log dev @ evs\<rparr> \<and> list_all (\<lambda>e. \<not> is_write e) evs)"

text \<open>
  The specification's words for the EBR chain. The EBR at block \<open>cur\<close> is the block the
  device holds there; it counts when it can be read and carries the signature. A slot is
  used when neither its type code nor its count is zero. The next EBR is named by the second
  slot, if that slot is used and of an extended type, relative to the base of the extended
  partition; otherwise the chain ends, which is written 0.
\<close>

definition ebr_block :: "block_device \<Rightarrow> u64 \<Rightarrow> u8 list" where
  "ebr_block dev cur =
     map (contents dev)
       [unat (cur * ucast (block_size dev)) ..<
        unat (cur * ucast (block_size dev)) + unat (block_size dev)]"

definition ebr_valid :: "block_device \<Rightarrow> u64 \<Rightarrow> bool" where
  "ebr_valid dev cur =
     (cur \<noteq> 0
      \<and> read_status dev (cur * ucast (block_size dev)) (block_size dev) = STATUS_SUCCESS
      \<and> mbr_signature (ebr_block dev cur) = 0xAA55)"

definition slot_used :: "mbr_partition_entry_t \<Rightarrow> bool" where
  "slot_used e = (os_indicator e \<noteq> 0 \<and> size_in_lba e \<noteq> 0)"

definition ebr_link :: "block_device \<Rightarrow> u64 \<Rightarrow> u64 \<Rightarrow> u64" where
  "ebr_link dev base cur =
     (if ebr_valid dev cur
         \<and> slot_used (mbr_partition (ebr_block dev cur) 1)
         \<and> is_extended_partition (os_indicator (mbr_partition (ebr_block dev cur) 1))
      then base + ucast (starting_lba (mbr_partition (ebr_block dev cur) 1))
      else 0)"

text \<open>
  The number of logical partitions that the first \<open>n\<close> EBRs of the chain from \<open>cur\<close>
  hold: one for each EBR whose first slot is used.
\<close>

fun logical_count :: "block_device \<Rightarrow> u64 \<Rightarrow> nat \<Rightarrow> u64 \<Rightarrow> nat" where
  "logical_count dev base 0 cur = 0"
| "logical_count dev base (Suc n) cur =
     (if \<not> ebr_valid dev cur then 0
      else (if slot_used (mbr_partition (ebr_block dev cur) 0) then 1 else 0)
             + logical_count dev base n (ebr_link dev base cur))"









text \<open>
  Entry tables for the entry checker. The headers declare the usable range \<open>[2, 100]\<close>
  and 128-byte entries, two and three of them; the checker reads no other field. An entry
  is the EFI system type GUID, a zero unique GUID, the two addresses and zeros.
\<close>

definition two_entry_header :: gpt_header_t where
  "two_entry_header = [
     0x45, 0x46, 0x49, 0x20, 0x50, 0x41, 0x52, 0x54, 0x00, 0x00, 0x01, 0x00,
     0x5C, 0x00, 0x00, 0x00, 0x00, 0x00, 0x00, 0x00, 0x00, 0x00, 0x00, 0x00,
     0x01, 0x00, 0x00, 0x00, 0x00, 0x00, 0x00, 0x00, 0xC7, 0x00, 0x00, 0x00,
     0x00, 0x00, 0x00, 0x00, 0x02, 0x00, 0x00, 0x00, 0x00, 0x00, 0x00, 0x00,
     0x64, 0x00, 0x00, 0x00, 0x00, 0x00, 0x00, 0x00, 0x00, 0x00, 0x00, 0x00,
     0x00, 0x00, 0x00, 0x00, 0x00, 0x00, 0x00, 0x00, 0x00, 0x00, 0x00, 0x00,
     0x02, 0x00, 0x00, 0x00, 0x00, 0x00, 0x00, 0x00, 0x02, 0x00, 0x00, 0x00,
     0x80, 0x00, 0x00, 0x00, 0x00, 0x00, 0x00, 0x00]"

definition three_entry_header :: gpt_header_t where
  "three_entry_header = [
     0x45, 0x46, 0x49, 0x20, 0x50, 0x41, 0x52, 0x54, 0x00, 0x00, 0x01, 0x00,
     0x5C, 0x00, 0x00, 0x00, 0x00, 0x00, 0x00, 0x00, 0x00, 0x00, 0x00, 0x00,
     0x01, 0x00, 0x00, 0x00, 0x00, 0x00, 0x00, 0x00, 0xC7, 0x00, 0x00, 0x00,
     0x00, 0x00, 0x00, 0x00, 0x02, 0x00, 0x00, 0x00, 0x00, 0x00, 0x00, 0x00,
     0x64, 0x00, 0x00, 0x00, 0x00, 0x00, 0x00, 0x00, 0x00, 0x00, 0x00, 0x00,
     0x00, 0x00, 0x00, 0x00, 0x00, 0x00, 0x00, 0x00, 0x00, 0x00, 0x00, 0x00,
     0x02, 0x00, 0x00, 0x00, 0x00, 0x00, 0x00, 0x00, 0x03, 0x00, 0x00, 0x00,
     0x80, 0x00, 0x00, 0x00, 0x00, 0x00, 0x00, 0x00]"

definition entry_bytes :: "u8 \<Rightarrow> u8 \<Rightarrow> u8 list" where
  "entry_bytes s e =
     [0x28, 0x73, 0x2A, 0xC1, 0x1F, 0xF8, 0xD2, 0x11, 0xBA, 0x4B, 0x00, 0xA0, 0xC9, 0x3E, 0xC9, 0x3B]
       @ replicate 16 0
       @ [s, 0, 0, 0, 0, 0, 0, 0]
       @ [e, 0, 0, 0, 0, 0, 0, 0]
       @ replicate 80 0"

definition touching_entries :: "u8 list" where
  "touching_entries = entry_bytes 10 20 @ entry_bytes 20 30"

definition adjacent_entries :: "u8 list" where
  "adjacent_entries = entry_bytes 10 19 @ entry_bytes 20 30"

definition bridged_entries :: "u8 list" where
  "bridged_entries = entry_bytes 10 19 @ entry_bytes 20 30 @ entry_bytes 15 25"


text \<open>
  A GPT disk of eight 512-byte blocks: the protective MBR in block 0, the primary header in
  block 1 and its entry array in block 2, the backup entry array in block 6 and the backup
  header in block 7. The usable range is \<open>[3, 5]\<close>. The array has one 128-byte entry:
  an EFI system partition named boot over blocks 3 to 5 whose attribute bit 1 is set. The
  header checksums and the entry-array checksum 0x1F604B4F are the right ones.
\<close>

definition gpt_entry_array :: "u8 list" where
  "gpt_entry_array = [
     0x28, 0x73, 0x2A, 0xC1, 0x1F, 0xF8, 0xD2, 0x11, 0xBA, 0x4B, 0x00, 0xA0,
     0xC9, 0x3E, 0xC9, 0x3B, 0xA0, 0xA1, 0xA2, 0xA3, 0xA4, 0xA5, 0xA6, 0xA7,
     0xA8, 0xA9, 0xAA, 0xAB, 0xAC, 0xAD, 0xAE, 0xAF, 0x03, 0x00, 0x00, 0x00,
     0x00, 0x00, 0x00, 0x00, 0x05, 0x00, 0x00, 0x00, 0x00, 0x00, 0x00, 0x00,
     0x02, 0x00, 0x00, 0x00, 0x00, 0x00, 0x00, 0x00, 0x62, 0x00, 0x6F, 0x00,
     0x6F, 0x00, 0x74, 0x00, 0x00, 0x00, 0x00, 0x00, 0x00, 0x00, 0x00, 0x00,
     0x00, 0x00, 0x00, 0x00, 0x00, 0x00, 0x00, 0x00, 0x00, 0x00, 0x00, 0x00,
     0x00, 0x00, 0x00, 0x00, 0x00, 0x00, 0x00, 0x00, 0x00, 0x00, 0x00, 0x00,
     0x00, 0x00, 0x00, 0x00, 0x00, 0x00, 0x00, 0x00, 0x00, 0x00, 0x00, 0x00,
     0x00, 0x00, 0x00, 0x00, 0x00, 0x00, 0x00, 0x00, 0x00, 0x00, 0x00, 0x00,
     0x00, 0x00, 0x00, 0x00, 0x00, 0x00, 0x00, 0x00]"

definition gpt_primary_header :: gpt_header_t where
  "gpt_primary_header = [
     0x45, 0x46, 0x49, 0x20, 0x50, 0x41, 0x52, 0x54, 0x00, 0x00, 0x01, 0x00,
     0x5C, 0x00, 0x00, 0x00, 0xE8, 0x43, 0x16, 0x27, 0x00, 0x00, 0x00, 0x00,
     0x01, 0x00, 0x00, 0x00, 0x00, 0x00, 0x00, 0x00, 0x07, 0x00, 0x00, 0x00,
     0x00, 0x00, 0x00, 0x00, 0x03, 0x00, 0x00, 0x00, 0x00, 0x00, 0x00, 0x00,
     0x05, 0x00, 0x00, 0x00, 0x00, 0x00, 0x00, 0x00, 0x00, 0x00, 0x00, 0x00,
     0x00, 0x00, 0x00, 0x00, 0x00, 0x00, 0x00, 0x00, 0x00, 0x00, 0x00, 0x00,
     0x02, 0x00, 0x00, 0x00, 0x00, 0x00, 0x00, 0x00, 0x01, 0x00, 0x00, 0x00,
     0x80, 0x00, 0x00, 0x00, 0x4F, 0x4B, 0x60, 0x1F]"

definition gpt_backup_header :: gpt_header_t where
  "gpt_backup_header = [
     0x45, 0x46, 0x49, 0x20, 0x50, 0x41, 0x52, 0x54, 0x00, 0x00, 0x01, 0x00,
     0x5C, 0x00, 0x00, 0x00, 0xDD, 0xD3, 0x7D, 0x3F, 0x00, 0x00, 0x00, 0x00,
     0x07, 0x00, 0x00, 0x00, 0x00, 0x00, 0x00, 0x00, 0x01, 0x00, 0x00, 0x00,
     0x00, 0x00, 0x00, 0x00, 0x03, 0x00, 0x00, 0x00, 0x00, 0x00, 0x00, 0x00,
     0x05, 0x00, 0x00, 0x00, 0x00, 0x00, 0x00, 0x00, 0x00, 0x00, 0x00, 0x00,
     0x00, 0x00, 0x00, 0x00, 0x00, 0x00, 0x00, 0x00, 0x00, 0x00, 0x00, 0x00,
     0x06, 0x00, 0x00, 0x00, 0x00, 0x00, 0x00, 0x00, 0x01, 0x00, 0x00, 0x00,
     0x80, 0x00, 0x00, 0x00, 0x4F, 0x4B, 0x60, 0x1F]"

definition gpt_contents :: "nat \<Rightarrow> u8" where
  "gpt_contents a =
     (if a < 512 then protective_mbr_contents a
      else if a < 1024 then byte_at gpt_primary_header (a - 512)
      else if a < 1536 then byte_at gpt_entry_array (a - 1024)
      else if a < 3072 then 0
      else if a < 3584 then byte_at gpt_entry_array (a - 3072)
      else byte_at gpt_backup_header (a - 3584))"

definition gpt_device :: block_device where
  "gpt_device = blank_device\<lparr>total_sectors := 8, contents := gpt_contents\<rparr>"

text \<open>
  The same disk with a primary header that declares 0x02000001 entries of 128 bytes: the
  product is \<open>2 ^ 32 + 128\<close>. Its header checksum is right, and its entry-array
  checksum is that of the first 128 bytes of the array.
\<close>

definition overflow_header :: gpt_header_t where
  "overflow_header = [
     0x45, 0x46, 0x49, 0x20, 0x50, 0x41, 0x52, 0x54, 0x00, 0x00, 0x01, 0x00,
     0x5C, 0x00, 0x00, 0x00, 0x6E, 0x6B, 0xE0, 0x09, 0x00, 0x00, 0x00, 0x00,
     0x01, 0x00, 0x00, 0x00, 0x00, 0x00, 0x00, 0x00, 0x07, 0x00, 0x00, 0x00,
     0x00, 0x00, 0x00, 0x00, 0x03, 0x00, 0x00, 0x00, 0x00, 0x00, 0x00, 0x00,
     0x05, 0x00, 0x00, 0x00, 0x00, 0x00, 0x00, 0x00, 0x00, 0x00, 0x00, 0x00,
     0x00, 0x00, 0x00, 0x00, 0x00, 0x00, 0x00, 0x00, 0x00, 0x00, 0x00, 0x00,
     0x02, 0x00, 0x00, 0x00, 0x00, 0x00, 0x00, 0x00, 0x01, 0x00, 0x00, 0x02,
     0x80, 0x00, 0x00, 0x00, 0x4F, 0x4B, 0x60, 0x1F]"

definition overflow_contents :: "nat \<Rightarrow> u8" where
  "overflow_contents a =
     (if 512 \<le> a \<and> a < 1024 then byte_at overflow_header (a - 512) else gpt_contents a)"

definition overflow_device :: block_device where
  "overflow_device = blank_device\<lparr>total_sectors := 8, contents := overflow_contents\<rparr>"

section \<open>Loads and stores on buffers\<close>

lemma length_store_bytes [simp]: "length (store_bytes off bs buf) = length buf"
  by (induction bs arbitrary: off buf) simp_all

lemma nth_store_bytes:
  "i < length buf \<Longrightarrow> store_bytes off bs buf ! i =
     (if off \<le> i \<and> i < off + length bs then bs ! (i - off) else buf ! i)"
proof (induction bs arbitrary: off buf)
  case Nil
  then show ?case by auto
next
  case (Cons b bs)
  then show ?case
    by (auto simp add: nth_list_update nth_Cons' Suc_diff_le)
qed

lemma byte_at_store_bytes:
  "byte_at (store_bytes off bs buf) i =
     (if off \<le> i \<and> i < off + length bs \<and> i < length buf then bs ! (i - off) else byte_at buf i)"
  by (simp add: byte_at_def nth_store_bytes)

lemma u32_recompose:
  "(ucast (ucast v :: u8) :: u32) OR push_bit 8 (ucast (ucast (drop_bit 8 v) :: u8))
     OR push_bit 16 (ucast (ucast (drop_bit 16 v) :: u8))
     OR push_bit 24 (ucast (ucast (drop_bit 24 v) :: u8)) = v"
proof (rule bit_word_eqI)
  fix n :: nat
  assume "n < LENGTH(32)"
  then have n: "n < 32" by simp
  consider "n < 8" | "8 \<le> n" "n < 16" | "16 \<le> n" "n < 24" | "24 \<le> n" "n < 32"
    using n by linarith
  then show "bit ((ucast (ucast v :: u8) :: u32) OR push_bit 8 (ucast (ucast (drop_bit 8 v) :: u8))
     OR push_bit 16 (ucast (ucast (drop_bit 16 v) :: u8))
     OR push_bit 24 (ucast (ucast (drop_bit 24 v) :: u8))) n = bit v n"
    by cases (auto simp add: bit_simps)
qed

lemma u64_recompose:
  "(ucast (ucast v :: u32) :: u64) OR push_bit 32 (ucast (ucast (drop_bit 32 v) :: u32)) = v"
proof (rule bit_word_eqI)
  fix n :: nat
  assume "n < LENGTH(64)"
  then have n: "n < 64" by simp
  consider "n < 32" | "32 \<le> n" "n < 64"
    using n by linarith
  then show "bit ((ucast (ucast v :: u32) :: u64) OR push_bit 32 (ucast (ucast (drop_bit 32 v) :: u32))) n = bit v n"
    by cases (auto simp add: bit_simps)
qed

lemma length_put_u32 [simp]: "length (put_u32 off v buf) = length buf"
  by (simp add: put_u32_def)

lemma length_put_u64 [simp]: "length (put_u64 off v buf) = length buf"
  by (simp add: put_u64_def)

lemma byte_at_put_u32:
  "byte_at (put_u32 off v buf) i =
     (if i < length buf \<and> off \<le> i \<and> i < off + 4
      then (ucast (drop_bit (8 * (i - off)) v) :: u8) else byte_at buf i)"
proof -
  have "i < off \<or> i = off \<or> i = off + 1 \<or> i = off + 2 \<or> i = off + 3 \<or> off + 4 \<le> i"
    by arith
  then show ?thesis
    by (elim disjE) (auto simp add: put_u32_def byte_at_def nth_list_update)
qed

lemma get_u32_put_u32_same:
  "off + 4 \<le> length buf \<Longrightarrow> get_u32 (put_u32 off v buf) off = v"
  by (simp add: get_u32_def byte_at_put_u32 u32_recompose)

lemma get_u32_put_u32_other:
  "off' + 4 \<le> off \<or> off + 4 \<le> off' \<Longrightarrow> get_u32 (put_u32 off v buf) off' = get_u32 buf off'"
  by (auto simp add: get_u32_def byte_at_put_u32)

lemma get_u64_put_u32_other:
  "off' + 8 \<le> off \<or> off + 4 \<le> off' \<Longrightarrow> get_u64 (put_u32 off v buf) off' = get_u64 buf off'"
  by (auto simp add: get_u64_def get_u32_put_u32_other)

lemma get_u64_put_u64_same:
  "off + 8 \<le> length buf \<Longrightarrow> get_u64 (put_u64 off v buf) off = v"
  by (simp add: get_u64_def put_u64_def get_u32_put_u32_same get_u32_put_u32_other u64_recompose)

lemma get_u64_put_u64_other:
  "off' + 8 \<le> off \<or> off + 8 \<le> off' \<Longrightarrow> get_u64 (put_u64 off v buf) off' = get_u64 buf off'"
  by (auto simp add: put_u64_def get_u64_put_u32_other)

lemma get_u32_put_u64_other:
  "off' + 4 \<le> off \<or> off + 8 \<le> off' \<Longrightarrow> get_u32 (put_u64 off v buf) off' = get_u32 buf off'"
  by (auto simp add: put_u64_def get_u32_put_u32_other)

lemma byte_at_put_u64_other:
  "i < off \<or> off + 8 \<le> i \<Longrightarrow> byte_at (put_u64 off v buf) i = byte_at buf i"
  by (auto simp add: put_u64_def byte_at_put_u32)

lemma put_u32_put_u32: "put_u32 off v (put_u32 off w buf) = put_u32 off v buf"
  by (simp add: put_u32_def list_update_swap)

section \<open>Word facts and accepted headers\<close>

lemma unat_ucast_u32_u64: "unat (ucast (x :: u32) :: u64) = unat x"
proof -
  have "unat x < 2 ^ 32"
    using unsigned_less [of x, where ?'a = nat] by simp
  then have "unat x < 2 ^ 64"
    by simp
  then show ?thesis
    by (simp add: unsigned_ucast_eq take_bit_nat_eq_self)
qed

lemma overflow_check_never:
  fixes n s :: u32
  assumes "s \<noteq> 0"
  shows "\<not> (ucast n :: u64) > 0xFFFFFFFFFFFFFFFF div ucast s"
proof -
  have n: "unat n < 2 ^ 32" using unsigned_less [of n] by simp
  have s: "unat s < 2 ^ 32" "0 < unat s"
    using unsigned_less [of s] assms by (simp_all add: unat_gt_0)
  have "unat n * unat s \<le> (2 ^ 32 - 1) * (2 ^ 32 - 1)"
    using n s by (intro mult_mono) simp_all
  also have "\<dots> \<le> (18446744073709551615 :: nat)" by simp
  finally have "unat n \<le> 18446744073709551615 div unat s"
    using s by (simp add: less_eq_div_iff_mult_less_eq)
  moreover have "unat ((0xFFFFFFFFFFFFFFFF :: u64) div ucast s) = 18446744073709551615 div unat s"
    by (simp add: unat_div unat_ucast_u32_u64)
  ultimately show ?thesis
    by (simp add: word_less_nat_alt not_less unat_ucast_u32_u64)
qed

lemma get_u32_bytes:
  "(ucast (get_u32 buf off) :: u8) = byte_at buf off"
  "(ucast (drop_bit 8 (get_u32 buf off)) :: u8) = byte_at buf (off + 1)"
  "(ucast (drop_bit 16 (get_u32 buf off)) :: u8) = byte_at buf (off + 2)"
  "(ucast (drop_bit 24 (get_u32 buf off)) :: u8) = byte_at buf (off + 3)"
  unfolding get_u32_def
  by (rule bit_word_eqI; auto simp add: bit_simps dest: bit_imp_le_length)+

lemma put_u32_get_u32:
  assumes "off + 4 \<le> length buf"
  shows "put_u32 off (get_u32 buf off) buf = buf"
  using assms by (simp add: put_u32_def get_u32_bytes byte_at_def)

lemma byte_at_take: "byte_at (take n xs) i = (if i < n then byte_at xs i else 0)"
  by (simp add: byte_at_def)

lemma header_fields_take:
  assumes "SIZEOF_gpt_header_t \<le> n"
  shows "signature (take n h) = signature h" and "header_size (take n h) = header_size h"
    and "header_crc32 (take n h) = header_crc32 h" and "my_lba (take n h) = my_lba h"
    and "alternate_lba (take n h) = alternate_lba h"
    and "first_usable_lba (take n h) = first_usable_lba h"
    and "last_usable_lba (take n h) = last_usable_lba h"
    and "partition_entry_lba (take n h) = partition_entry_lba h"
    and "num_partition_entries (take n h) = num_partition_entries h"
    and "partition_entry_size (take n h) = partition_entry_size h"
    and "partition_array_crc32 (take n h) = partition_array_crc32 h"
  using assms
  by (simp_all add: SIZEOF_gpt_header_t_def signature_def header_size_def header_crc32_def
        my_lba_def alternate_lba_def first_usable_lba_def last_usable_lba_def
        partition_entry_lba_def num_partition_entries_def partition_entry_size_def
        partition_array_crc32_def get_u64_def get_u32_def byte_at_take)

lemma check_header_crc_accepts:
  assumes "20 \<le> length header" and "sz \<noteq> 0" and "max_size = 0 \<or> sz \<le> max_size"
    and "header_crc32 header = calculate_crc32 (set_header_crc32 0 header) (unat sz)"
  shows "check_header_crc max_size sz header = (True, header)"
proof -
  have "set_header_crc32 (header_crc32 header) (set_header_crc32 0 header) = header"
    using assms(1) by (simp add: set_header_crc32_def header_crc32_def put_u32_put_u32 put_u32_get_u32)
  with assms show ?thesis
    by (auto simp add: check_header_crc_def Let_def)
qed

lemma validate_gpt_entry_array_crc_accepts:
  assumes "pool dev (unat (num_partition_entries header * partition_entry_size header))"
    and "read_status dev (partition_entry_lba header * ucast (block_size dev))
           (num_partition_entries header * partition_entry_size header) = STATUS_SUCCESS"
    and "partition_array_crc32 header =
           calculate_crc32
             (map (contents dev)
                [unat (partition_entry_lba header * ucast (block_size dev)) ..<
                 unat (partition_entry_lba header * ucast (block_size dev))
                   + unat (num_partition_entries header * partition_entry_size header)])
             (unat (num_partition_entries header * partition_entry_size header))"
  shows "validate_gpt_entry_array_crc dev header =
           (True, dev\<lparr>io_log := io_log dev @
              [IO_Read (partition_entry_lba header * ucast (block_size dev))
                 (num_partition_entries header * partition_entry_size header)]\<rparr>)"
  using assms by (simp add: validate_gpt_entry_array_crc_def Let_def read_disk_def)

lemma validate_gpt_table_accepts:
  assumes blk: "blk = map (contents dev)
                  [unat (lba * ucast (block_size dev)) ..<
                   unat (lba * ucast (block_size dev)) + unat (block_size dev)]"
    and esz: "esz = num_partition_entries blk * partition_entry_size blk"
    and eoff: "eoff = partition_entry_lba blk * ucast (block_size dev)"
    and "pool dev (unat (block_size dev))"
    and "read_status dev (lba * ucast (block_size dev)) (block_size dev) = STATUS_SUCCESS"
    and bs: "SIZEOF_gpt_header_t \<le> unat (block_size dev)"
    and "signature blk = GPT_HEADER_SIGNATURE"
    and "header_size blk \<noteq> 0" and "header_size blk \<le> block_size dev"
    and "header_crc32 blk = calculate_crc32 (set_header_crc32 0 blk) (unat (header_size blk))"
    and "my_lba blk = lba"
    and "SIZEOF_gpt_partition_entry_t \<le> unat (partition_entry_size blk)"
    and "pool dev (unat esz)"
    and "read_status dev eoff esz = STATUS_SUCCESS"
    and "partition_array_crc32 blk =
           calculate_crc32 (map (contents dev) [unat eoff ..< unat eoff + unat esz]) (unat esz)"
  shows "validate_gpt_table dev lba header_out =
           (True, take SIZEOF_gpt_header_t blk,
            dev\<lparr>io_log := io_log dev @ [IO_Read (lba * ucast (block_size dev)) (block_size dev),
                                         IO_Read eoff esz]\<rparr>)"
proof -
  let ?bs = "block_size dev"
  let ?dev1 = "dev\<lparr>io_log := io_log dev @ [IO_Read (lba * ucast ?bs) ?bs]\<rparr>"
  have len: "length blk = unat ?bs"
    using blk by simp
  have rd: "read_disk dev (lba * ucast ?bs) ?bs = (STATUS_SUCCESS, blk, ?dev1)"
    using assms(5) blk by (simp add: read_disk_def Let_def)
  have ck: "check_header_crc ?bs (header_size blk) blk = (True, blk)"
    using assms(8-10) len bs
    by (intro check_header_crc_accepts) (simp_all add: SIZEOF_gpt_header_t_def)
  have sz: "partition_entry_size blk \<noteq> 0"
    using assms(12) by (auto simp add: SIZEOF_gpt_partition_entry_t_def)
  have ov: "\<not> (ucast (num_partition_entries blk) :: u64)
              > 0xFFFFFFFFFFFFFFFF div ucast (partition_entry_size blk)"
    using sz by (rule overflow_check_never)
  have tk: "num_partition_entries (take SIZEOF_gpt_header_t blk) = num_partition_entries blk"
    "partition_entry_size (take SIZEOF_gpt_header_t blk) = partition_entry_size blk"
    "partition_entry_lba (take SIZEOF_gpt_header_t blk) = partition_entry_lba blk"
    "partition_array_crc32 (take SIZEOF_gpt_header_t blk) = partition_array_crc32 blk"
    by (simp_all add: header_fields_take)
  have ar: "validate_gpt_entry_array_crc ?dev1 (take SIZEOF_gpt_header_t blk) =
              (True, ?dev1\<lparr>io_log := io_log ?dev1 @ [IO_Read eoff esz]\<rparr>)"
    using assms(13-15) esz eoff
    by (simp add: validate_gpt_entry_array_crc_def Let_def read_disk_def tk)
  show ?thesis
    using assms(4,7,11,12) rd ck ov ar
    by (simp add: validate_gpt_table_def Let_def not_less)
qed

section \<open>Reads from the device\<close>

lemma byte_at_map_upt:
  "byte_at (map f [a ..< b]) i = (if i < b - a then f (a + i) else 0)"
  by (simp add: byte_at_def)

lemma read_disk_result:
  "read_disk dev off sz =
     (read_status dev off sz,
      (if read_status dev off sz = STATUS_SUCCESS
       then map (contents dev) [unat off ..< unat off + unat sz] else []),
      dev\<lparr>io_log := io_log dev @ [IO_Read off sz]\<rparr>)"
  by (simp add: read_disk_def Let_def)

lemma mbr_partition_map_upt:
  "mbr_partition (map f [a ..< b]) i =
     \<lparr>boot_indicator = byte_at (map f [a ..< b]) (446 + 16 * i),
      os_indicator = byte_at (map f [a ..< b]) (446 + 16 * i + 4),
      starting_lba = get_u32 (map f [a ..< b]) (446 + 16 * i + 8),
      size_in_lba = get_u32 (map f [a ..< b]) (446 + 16 * i + 12)\<rparr>"
  by (simp add: mbr_partition_def Let_def)

lemma list_ex_slots:
  "list_ex P [0 ..< MAX_MBR_PARTITIONS] = (P 0 \<or> P 1 \<or> P 2 \<or> P 3)"
  by (simp add: MAX_MBR_PARTITIONS_def upt_rec numeral_eq_Suc)

section \<open>Evaluating concrete buffers\<close>

lemma byte_at_append:
  "byte_at (xs @ ys) i = (if i < length xs then byte_at xs i else byte_at ys (i - length xs))"
  by (auto simp add: byte_at_def nth_append)

lemma byte_at_Cons:
  "byte_at (x # xs) i = (if i = 0 then x else byte_at xs (i - 1))"
  by (auto simp add: byte_at_def nth_Cons')

lemma byte_at_Nil: "byte_at [] i = 0"
  by (simp add: byte_at_def)

lemma byte_at_replicate: "byte_at (replicate n x) i = (if i < n then x else 0)"
  by (simp add: byte_at_def)

lemmas byte_eval = byte_at_append byte_at_Cons byte_at_Nil byte_at_replicate

lemma length_entry_bytes: "length (entry_bytes s e) = 128"
  by (simp add: entry_bytes_def)

lemma entry_bytes_at:
  "byte_at (entry_bytes s e) 0 = 0x28"
  "byte_at (entry_bytes s e) 32 = s"
  "byte_at (entry_bytes s e) 33 = 0"
  "byte_at (entry_bytes s e) 34 = 0"
  "byte_at (entry_bytes s e) 35 = 0"
  "byte_at (entry_bytes s e) 36 = 0"
  "byte_at (entry_bytes s e) 37 = 0"
  "byte_at (entry_bytes s e) 38 = 0"
  "byte_at (entry_bytes s e) 39 = 0"
  "byte_at (entry_bytes s e) 40 = e"
  "byte_at (entry_bytes s e) 41 = 0"
  "byte_at (entry_bytes s e) 42 = 0"
  "byte_at (entry_bytes s e) 43 = 0"
  "byte_at (entry_bytes s e) 44 = 0"
  "byte_at (entry_bytes s e) 45 = 0"
  "byte_at (entry_bytes s e) 46 = 0"
  "byte_at (entry_bytes s e) 47 = 0"
  by (simp_all add: entry_bytes_def byte_eval)

lemma entry_used_first_byte:
  "byte_at entries (entry_offset header i) \<noteq> 0 \<Longrightarrow> entry_used header entries i"
proof -
  assume a: "byte_at entries (entry_offset header i) \<noteq> 0"
  have "entry_partition_type_guid entries (entry_offset header i) ! 0
          = byte_at entries (entry_offset header i)"
    by (simp add: entry_partition_type_guid_def)
  moreover have "replicate 16 (0::u8) ! 0 = 0"
    by simp
  ultimately show ?thesis
    using a unfolding entry_used_def by metis
qed

lemmas entry_eval = byte_at_append length_entry_bytes entry_bytes_at

section \<open>Entries of the checksum table\<close>

lemma crc32_table_nth:
  "crc32_table ! 0 = 0x00000000"
  "crc32_table ! 1 = 0x77073096"
  "crc32_table ! Suc 0 = 0x77073096"
  "crc32_table ! 2 = 0xEE0E612C"
  "crc32_table ! 3 = 0x990951BA"
  "crc32_table ! 4 = 0x076DC419"
  "crc32_table ! 5 = 0x706AF48F"
  "crc32_table ! 6 = 0xE963A535"
  "crc32_table ! 7 = 0x9E6495A3"
  "crc32_table ! 8 = 0x0EDB8832"
  "crc32_table ! 9 = 0x79DCB8A4"
  "crc32_table ! 10 = 0xE0D5E91E"
  "crc32_table ! 11 = 0x97D2D988"
  "crc32_table ! 12 = 0x09B64C2B"
  "crc32_table ! 13 = 0x7EB17CBD"
  "crc32_table ! 14 = 0xE7B82D07"
  "crc32_table ! 15 = 0x90BF1D91"
  "crc32_table ! 16 = 0x1DB71064"
  "crc32_table ! 17 = 0x6AB020F2"
  "crc32_table ! 18 = 0xF3B97148"
  "crc32_table ! 19 = 0x84BE41DE"
  "crc32_table ! 20 = 0x1ADAD47D"
  "crc32_table ! 21 = 0x6DDDE4EB"
  "crc32_table ! 22 = 0xF4D4B551"
  "crc32_table ! 23 = 0x83D385C7"
  "crc32_table ! 24 = 0x136C9856"
  "crc32_table ! 25 = 0x646BA8C0"
  "crc32_table ! 26 = 0xFD62F97A"
  "crc32_table ! 27 = 0x8A65C9EC"
  "crc32_table ! 28 = 0x14015C4F"
  "crc32_table ! 29 = 0x63066CD9"
  "crc32_table ! 30 = 0xFA0F3D63"
  "crc32_table ! 31 = 0x8D080DF5"
  "crc32_table ! 32 = 0x3B6E20C8"
  "crc32_table ! 33 = 0x4C69105E"
  "crc32_table ! 34 = 0xD56041E4"
  "crc32_table ! 35 = 0xA2677172"
  "crc32_table ! 36 = 0x3C03E4D1"
  "crc32_table ! 37 = 0x4B04D447"
  "crc32_table ! 38 = 0xD20D85FD"
  "crc32_table ! 39 = 0xA50AB56B"
  "crc32_table ! 40 = 0x35B5A8FA"
  "crc32_table ! 41 = 0x42B2986C"
  "crc32_table ! 42 = 0xDBBBC9D6"
  "crc32_table ! 43 = 0xACBCF940"
  "crc32_table ! 44 = 0x32D86CE3"
  "crc32_table ! 45 = 0x45DF5C75"
  "crc32_table ! 46 = 0xDCD60DCF"
  "crc32_table ! 47 = 0xABD13D59"
  "crc32_table ! 48 = 0x26D930AC"
  "crc32_table ! 49 = 0x51DE003A"
  "crc32_table ! 50 = 0xC8D75180"
  "crc32_table ! 51 = 0xBFD06116"
  "crc32_table ! 52 = 0x21B4F4B5"
  "crc32_table ! 53 = 0x56B3C423"
  "crc32_table ! 54 = 0xCFBA9599"
  "crc32_table ! 55 = 0xB8BDA50F"
  "crc32_table ! 56 = 0x2802B89E"
  "crc32_table ! 57 = 0x5F058808"
  "crc32_table ! 58 = 0xC60CD9B2"
  "crc32_table ! 59 = 0xB10BE924"
  "crc32_table ! 60 = 0x2F6F7C87"
  "crc32_table ! 61 = 0x58684C11"
  "crc32_table ! 62 = 0xC1611DAB"
  "crc32_table ! 63 = 0xB6662D3D"
  "crc32_table ! 64 = 0x76DC4190"
  "crc32_table ! 65 = 0x01DB7106"
  "crc32_table ! 66 = 0x98D220BC"
  "crc32_table ! 67 = 0xEFD5102A"
  "crc32_table ! 68 = 0x71B18589"
  "crc32_table ! 69 = 0x06B6B51F"
  "crc32_table ! 70 = 0x9FBFE4A5"
  "crc32_table ! 71 = 0xE8B8D433"
  "crc32_table ! 72 = 0x7807C9A2"
  "crc32_table ! 73 = 0x0F00F934"
  "crc32_table ! 74 = 0x9609A88E"
  "crc32_table ! 75 = 0xE10E9818"
  "crc32_table ! 76 = 0x7F6A0DBB"
  "crc32_table ! 77 = 0x086D3D2D"
  "crc32_table ! 78 = 0x91646C97"
  "crc32_table ! 79 = 0xE6635C01"
  "crc32_table ! 80 = 0x6B6B51F4"
  "crc32_table ! 81 = 0x1C6C6162"
  "crc32_table ! 82 = 0x856530D8"
  "crc32_table ! 83 = 0xF262004E"
  "crc32_table ! 84 = 0x6C0695ED"
  "crc32_table ! 85 = 0x1B01A57B"
  "crc32_table ! 86 = 0x8208F4C1"
  "crc32_table ! 87 = 0xF50FC457"
  "crc32_table ! 88 = 0x65B0D9C6"
  "crc32_table ! 89 = 0x12B7E950"
  "crc32_table ! 90 = 0x8BBEB8EA"
  "crc32_table ! 91 = 0xFCB9887C"
  "crc32_table ! 92 = 0x62DD1DDF"
  "crc32_table ! 93 = 0x15DA2D49"
  "crc32_table ! 94 = 0x8CD37CF3"
  "crc32_table ! 95 = 0xFBD44C65"
  "crc32_table ! 96 = 0x4DB26158"
  "crc32_table ! 97 = 0x3AB551CE"
  "crc32_table ! 98 = 0xA3BC0074"
  "crc32_table ! 99 = 0xD4BB30E2"
  "crc32_table ! 100 = 0x4ADFA541"
  "crc32_table ! 101 = 0x3DD895D7"
  "crc32_table ! 102 = 0xA4D1C46D"
  "crc32_table ! 103 = 0xD3D6F4FB"
  "crc32_table ! 104 = 0x4369E96A"
  "crc32_table ! 105 = 0x346ED9FC"
  "crc32_table ! 106 = 0xAD678846"
  "crc32_table ! 107 = 0xDA60B8D0"
  "crc32_table ! 108 = 0x44042D73"
  "crc32_table ! 109 = 0x33031DE5"
  "crc32_table ! 110 = 0xAA0A4C5F"
  "crc32_table ! 111 = 0xDD0D7CC9"
  "crc32_table ! 112 = 0x5005713C"
  "crc32_table ! 113 = 0x270241AA"
  "crc32_table ! 114 = 0xBE0B1010"
  "crc32_table ! 115 = 0xC90C2086"
  "crc32_table ! 116 = 0x5768B525"
  "crc32_table ! 117 = 0x206F85B3"
  "crc32_table ! 118 = 0xB966D409"
  "crc32_table ! 119 = 0xCE61E49F"
  "crc32_table ! 120 = 0x5EDEF90E"
  "crc32_table ! 121 = 0x29D9C998"
  "crc32_table ! 122 = 0xB0D09822"
  "crc32_table ! 123 = 0xC7D7A8B4"
  "crc32_table ! 124 = 0x59B33D17"
  "crc32_table ! 125 = 0x2EB40D81"
  "crc32_table ! 126 = 0xB7BD5C3B"
  "crc32_table ! 127 = 0xC0BA6CAD"
  "crc32_table ! 128 = 0xEDB88320"
  "crc32_table ! 129 = 0x9ABFB3B6"
  "crc32_table ! 130 = 0x03B6E20C"
  "crc32_table ! 131 = 0x74B1D29A"
  "crc32_table ! 132 = 0xEAD54739"
  "crc32_table ! 133 = 0x9DD277AF"
  "crc32_table ! 134 = 0x04DB2615"
  "crc32_table ! 135 = 0x73DC1683"
  "crc32_table ! 136 = 0xE3630B12"
  "crc32_table ! 137 = 0x94643B84"
  "crc32_table ! 138 = 0x0D6D6A3E"
  "crc32_table ! 139 = 0x7A6A5AA8"
  "crc32_table ! 140 = 0xE40ECF0B"
  "crc32_table ! 141 = 0x9309FF9D"
  "crc32_table ! 142 = 0x0A00AE27"
  "crc32_table ! 143 = 0x7D079EB1"
  "crc32_table ! 144 = 0xF00F9344"
  "crc32_table ! 145 = 0x8708A3D2"
  "crc32_table ! 146 = 0x1E01F268"
  "crc32_table ! 147 = 0x6906C2FE"
  "crc32_table ! 148 = 0xF762575D"
  "crc32_table ! 149 = 0x806567CB"
  "crc32_table ! 150 = 0x196C3671"
  "crc32_table ! 151 = 0x6E6B06E7"
  "crc32_table ! 152 = 0xFED41B76"
  "crc32_table ! 153 = 0x89D32BE0"
  "crc32_table ! 154 = 0x10DA7A5A"
  "crc32_table ! 155 = 0x67DD4ACC"
  "crc32_table ! 156 = 0xF9B9DF6F"
  "crc32_table ! 157 = 0x8EBEEFF9"
  "crc32_table ! 158 = 0x17B7BE43"
  "crc32_table ! 159 = 0x60B08ED5"
  "crc32_table ! 160 = 0xD6D6A3E8"
  "crc32_table ! 161 = 0xA1D1937E"
  "crc32_table ! 162 = 0x38D8C2C4"
  "crc32_table ! 163 = 0x4FDFF252"
  "crc32_table ! 164 = 0xD1BB67F1"
  "crc32_table ! 165 = 0xA6BC5767"
  "crc32_table ! 166 = 0x3FB506DD"
  "crc32_table ! 167 = 0x48B2364B"
  "crc32_table ! 168 = 0xD80D2BDA"
  "crc32_table ! 169 = 0xAF0A1B4C"
  "crc32_table ! 170 = 0x36034AF6"
  "crc32_table ! 171 = 0x41047A60"
  "crc32_table ! 172 = 0xDF60EFC3"
  "crc32_table ! 173 = 0xA867DF55"
  "crc32_table ! 174 = 0x316E8EEF"
  "crc32_table ! 175 = 0x4669BE79"
  "crc32_table ! 176 = 0xCB61B38C"
  "crc32_table ! 177 = 0xBC66831A"
  "crc32_table ! 178 = 0x256FD2A0"
  "crc32_table ! 179 = 0x5268E236"
  "crc32_table ! 180 = 0xCC0C7795"
  "crc32_table ! 181 = 0xBB0B4703"
  "crc32_table ! 182 = 0x220216B9"
  "crc32_table ! 183 = 0x5505262F"
  "crc32_table ! 184 = 0xC5BA3BBE"
  "crc32_table ! 185 = 0xB2BD0B28"
  "crc32_table ! 186 = 0x2BB45A92"
  "crc32_table ! 187 = 0x5CB36A04"
  "crc32_table ! 188 = 0xC2D7FFA7"
  "crc32_table ! 189 = 0xB5D0CF31"
  "crc32_table ! 190 = 0x2CD99E8B"
  "crc32_table ! 191 = 0x5BDEAE1D"
  "crc32_table ! 192 = 0x9B64C2B0"
  "crc32_table ! 193 = 0xEC63F226"
  "crc32_table ! 194 = 0x756AA39C"
  "crc32_table ! 195 = 0x026D930A"
  "crc32_table ! 196 = 0x9C0906A9"
  "crc32_table ! 197 = 0xEB0E363F"
  "crc32_table ! 198 = 0x72076785"
  "crc32_table ! 199 = 0x05005713"
  "crc32_table ! 200 = 0x95BF4A82"
  "crc32_table ! 201 = 0xE2B87A14"
  "crc32_table ! 202 = 0x7BB12BAE"
  "crc32_table ! 203 = 0x0CB61B38"
  "crc32_table ! 204 = 0x92D28E9B"
  "crc32_table ! 205 = 0xE5D5BE0D"
  "crc32_table ! 206 = 0x7CDCEFB7"
  "crc32_table ! 207 = 0x0BDBDF21"
  "crc32_table ! 208 = 0x86D3D2D4"
  "crc32_table ! 209 = 0xF1D4E242"
  "crc32_table ! 210 = 0x68DDB3F8"
  "crc32_table ! 211 = 0x1FDA836E"
  "crc32_table ! 212 = 0x81BE16CD"
  "crc32_table ! 213 = 0xF6B9265B"
  "crc32_table ! 214 = 0x6FB077E1"
  "crc32_table ! 215 = 0x18B74777"
  "crc32_table ! 216 = 0x88085AE6"
  "crc32_table ! 217 = 0xFF0F6A70"
  "crc32_table ! 218 = 0x66063BCA"
  "crc32_table ! 219 = 0x11010B5C"
  "crc32_table ! 220 = 0x8F659EFF"
  "crc32_table ! 221 = 0xF862AE69"
  "crc32_table ! 222 = 0x616BFFD3"
  "crc32_table ! 223 = 0x166CCF45"
  "crc32_table ! 224 = 0xA00AE278"
  "crc32_table ! 225 = 0xD70DD2EE"
  "crc32_table ! 226 = 0x4E048354"
  "crc32_table ! 227 = 0x3903B3C2"
  "crc32_table ! 228 = 0xA7672661"
  "crc32_table ! 229 = 0xD06016F7"
  "crc32_table ! 230 = 0x4969474D"
  "crc32_table ! 231 = 0x3E6E77DB"
  "crc32_table ! 232 = 0xAED16A4A"
  "crc32_table ! 233 = 0xD9D65ADC"
  "crc32_table ! 234 = 0x40DF0B66"
  "crc32_table ! 235 = 0x37D83BF0"
  "crc32_table ! 236 = 0xA9BCAE53"
  "crc32_table ! 237 = 0xDEBB9EC5"
  "crc32_table ! 238 = 0x47B2CF7F"
  "crc32_table ! 239 = 0x30B5FFE9"
  "crc32_table ! 240 = 0xBDBDF21C"
  "crc32_table ! 241 = 0xCABAC28A"
  "crc32_table ! 242 = 0x53B39330"
  "crc32_table ! 243 = 0x24B4A3A6"
  "crc32_table ! 244 = 0xBAD03605"
  "crc32_table ! 245 = 0xCDD70693"
  "crc32_table ! 246 = 0x54DE5729"
  "crc32_table ! 247 = 0x23D967BF"
  "crc32_table ! 248 = 0xB3667A2E"
  "crc32_table ! 249 = 0xC4614AB8"
  "crc32_table ! 250 = 0x5D681B02"
  "crc32_table ! 251 = 0x2A6F2B94"
  "crc32_table ! 252 = 0xB40BBE37"
  "crc32_table ! 253 = 0xC30C8EA1"
  "crc32_table ! 254 = 0x5A05DF1B"
  "crc32_table ! 255 = 0x2D02EF8D"
  by (simp_all add: crc32_table_def)

section \<open>The overlap flags set by the entry checker\<close>

lemma length_check_overlaps [simp]:
  "length (check_overlaps header entries i s e js st) = length st"
  by (induction js arbitrary: st) (simp_all add: Let_def)

lemma overlap_check_overlaps:
  assumes "i < length st" and "\<forall>j\<in>set js. j < length st" and "k < length st"
  shows "overlap (check_overlaps header entries i s e js st ! k) =
           (overlap (st ! k)
            \<or> (k = i \<and> (\<exists>j\<in>set js. entry_used header entries j
                    \<and> entry_ending_lba entries (entry_offset header j) \<ge> s
                    \<and> entry_starting_lba entries (entry_offset header j) \<le> e))
            \<or> (k \<in> set js \<and> entry_used header entries k
                    \<and> entry_ending_lba entries (entry_offset header k) \<ge> s
                    \<and> entry_starting_lba entries (entry_offset header k) \<le> e))"
  using assms
proof (induction js arbitrary: st)
  case Nil
  then show ?case by simp
next
  case (Cons j js)
  let ?hit = "entry_used header entries j
                \<and> entry_ending_lba entries (entry_offset header j) \<ge> s
                \<and> entry_starting_lba entries (entry_offset header j) \<le> e"
  show ?case
  proof (cases ?hit)
    case False
    then have "check_overlaps header entries i s e (j # js) st
                 = check_overlaps header entries i s e js st"
      by (auto simp add: Let_def entry_used_def compare_guid_def GUID_UNUSED_def)
    with Cons False show ?thesis by auto
  next
    case True
    let ?st1 = "st[i := (st ! i)\<lparr>overlap := True\<rparr>]"
    let ?st2 = "?st1[j := (?st1 ! j)\<lparr>overlap := True\<rparr>]"
    from True have eq: "check_overlaps header entries i s e (j # js) st
                 = check_overlaps header entries i s e js ?st2"
      by (simp add: Let_def entry_used_def compare_guid_def GUID_UNUSED_def)
    have len: "length ?st2 = length st" by simp
    have flag: "overlap (?st2 ! k) = (overlap (st ! k) \<or> k = i \<or> k = j)"
      using Cons.prems by (auto simp add: nth_list_update)
    have "overlap (check_overlaps header entries i s e js ?st2 ! k) =
           (overlap (?st2 ! k)
            \<or> (k = i \<and> (\<exists>j\<in>set js. entry_used header entries j
                    \<and> entry_ending_lba entries (entry_offset header j) \<ge> s
                    \<and> entry_starting_lba entries (entry_offset header j) \<le> e))
            \<or> (k \<in> set js \<and> entry_used header entries k
                    \<and> entry_ending_lba entries (entry_offset header k) \<ge> s
                    \<and> entry_starting_lba entries (entry_offset header k) \<le> e))"
      using Cons.prems by (intro Cons.IH) (simp_all only: len, simp_all)
    with eq flag True show ?thesis by auto
  qed
qed

lemma length_check_entries_loop [simp]:
  "length (check_entries_loop header entries n is st) = length st"
  by (induction "is" arbitrary: st) (simp_all add: Let_def)

lemma overlap_check_entries_loop:
  assumes "length st = n" and "\<forall>i\<in>set is. i < n" and "k < n"
  shows "overlap (check_entries_loop header entries n is st ! k) =
           (overlap (st ! k)
            \<or> (\<exists>i\<in>set is. entry_used header entries i \<and> entry_in_range header entries i
                  \<and> ((k = i \<and> (\<exists>j. i < j \<and> j < n \<and> entry_used header entries j
                                   \<and> entries_overlap header entries j i))
                     \<or> (i < k \<and> entry_used header entries k
                                   \<and> entries_overlap header entries k i))))"
  using assms
proof (induction "is" arbitrary: st)
  case Nil
  then show ?case by simp
next
  case (Cons i "is")
  let ?s = "entry_starting_lba entries (entry_offset header i)"
  let ?e = "entry_ending_lba entries (entry_offset header i)"
  let ?R = "\<lambda>st'. overlap (check_entries_loop header entries n is st' ! k) =
           (overlap (st' ! k)
            \<or> (\<exists>i\<in>set is. entry_used header entries i \<and> entry_in_range header entries i
                  \<and> ((k = i \<and> (\<exists>j. i < j \<and> j < n \<and> entry_used header entries j
                                   \<and> entries_overlap header entries j i))
                     \<or> (i < k \<and> entry_used header entries k
                                   \<and> entries_overlap header entries k i))))"
  have IH: "\<And>st'. length st' = n \<Longrightarrow> ?R st'"
    using Cons.prems by (intro Cons.IH) simp_all
  have i: "i < n" using Cons.prems by simp
  consider (unused) "\<not> entry_used header entries i"
    | (range) "entry_used header entries i" "\<not> entry_in_range header entries i"
    | (ok) "entry_used header entries i" "entry_in_range header entries i"
    by blast
  then show ?case
  proof cases
    case unused
    then have "check_entries_loop header entries n (i # is) st
                 = check_entries_loop header entries n is st"
      by (simp add: Let_def entry_used_def compare_guid_def GUID_UNUSED_def)
    with IH [of st] Cons.prems unused show ?thesis by auto
  next
    case range
    let ?st1 = "st[i := (st ! i)\<lparr>out_of_range := True\<rparr>]"
    from range have "check_entries_loop header entries n (i # is) st
                 = check_entries_loop header entries n is ?st1"
      by (auto simp add: Let_def entry_used_def entry_in_range_def compare_guid_def
            GUID_UNUSED_def not_le)
    moreover have "overlap (?st1 ! k) = overlap (st ! k)"
      using Cons.prems by (simp add: nth_list_update)
    ultimately show ?thesis
      using IH [of ?st1] Cons.prems range by auto
  next
    case ok
    let ?st1 = "if entry_attributes entries (entry_offset header i) AND push_bit 1 1 \<noteq> 0
                then st[i := (st ! i)\<lparr>os_specific := True\<rparr>] else st"
    let ?st2 = "check_overlaps header entries i ?s ?e [Suc i ..< n] ?st1"
    from ok have eq: "check_entries_loop header entries n (i # is) st
                 = check_entries_loop header entries n is ?st2"
      by (auto simp add: Let_def entry_used_def entry_in_range_def compare_guid_def
            GUID_UNUSED_def not_le not_less)
    have len1: "length ?st1 = n" using Cons.prems by simp
    have f1: "overlap (?st1 ! k) = overlap (st ! k)"
      using Cons.prems by (simp add: nth_list_update)
    have f2: "overlap (?st2 ! k) =
           (overlap (?st1 ! k)
            \<or> (k = i \<and> (\<exists>j\<in>set [Suc i ..< n]. entry_used header entries j
                    \<and> entry_ending_lba entries (entry_offset header j) \<ge> ?s
                    \<and> entry_starting_lba entries (entry_offset header j) \<le> ?e))
            \<or> (k \<in> set [Suc i ..< n] \<and> entry_used header entries k
                    \<and> entry_ending_lba entries (entry_offset header k) \<ge> ?s
                    \<and> entry_starting_lba entries (entry_offset header k) \<le> ?e))"
      using i Cons.prems(3) by (intro overlap_check_overlaps) (simp_all only: len1, simp_all)
    have f3: "overlap (?st2 ! k) =
           (overlap (st ! k)
            \<or> (k = i \<and> (\<exists>j. i < j \<and> j < n \<and> entry_used header entries j
                             \<and> entries_overlap header entries j i))
            \<or> (i < k \<and> entry_used header entries k \<and> entries_overlap header entries k i))"
      unfolding f2 f1 using Cons.prems(3)
      by (auto simp add: entries_overlap_def Suc_le_eq)
    have len2: "length ?st2 = n" using len1 by simp
    show ?thesis
      unfolding eq using IH [OF len2] f3 ok by auto
  qed
qed

lemma overlap_check_gpt_entries:
  assumes "n = unat (num_partition_entries header)" and "k < n"
  shows "overlap (check_gpt_entries header entries (replicate n status_clear) ! k) =
           (entry_used header entries k
            \<and> (\<exists>j<n. j \<noteq> k \<and> entry_used header entries j \<and> entries_overlap header entries k j
                   \<and> (k < j \<longrightarrow> entry_in_range header entries k)
                   \<and> (j < k \<longrightarrow> entry_in_range header entries j)))"
    (is "?lhs = ?rhs")
proof -
  have sym: "\<And>a b. entries_overlap header entries a b = entries_overlap header entries b a"
    by (auto simp add: entries_overlap_def)
  let ?mid = "\<exists>i<n. entry_used header entries i \<and> entry_in_range header entries i
                  \<and> ((k = i \<and> (\<exists>j. i < j \<and> j < n \<and> entry_used header entries j
                                   \<and> entries_overlap header entries j i))
                     \<or> (i < k \<and> entry_used header entries k
                                   \<and> entries_overlap header entries k i))"
  have "overlap (check_entries_loop header entries n [0 ..< n] (replicate n status_clear) ! k) =
           (overlap (replicate n status_clear ! k)
            \<or> (\<exists>i\<in>set [0 ..< n]. entry_used header entries i \<and> entry_in_range header entries i
                  \<and> ((k = i \<and> (\<exists>j. i < j \<and> j < n \<and> entry_used header entries j
                                   \<and> entries_overlap header entries j i))
                     \<or> (i < k \<and> entry_used header entries k
                                   \<and> entries_overlap header entries k i))))"
    using assms(2) by (intro overlap_check_entries_loop) simp_all
  then have lhs: "?lhs = ?mid"
    using assms by (simp add: check_gpt_entries_def Let_def status_clear_def Bex_def)
  have "?mid = ?rhs"
  proof
    assume ?mid
    then obtain i where i: "i < n" "entry_used header entries i" "entry_in_range header entries i"
      and d: "(k = i \<and> (\<exists>j. i < j \<and> j < n \<and> entry_used header entries j
                                   \<and> entries_overlap header entries j i))
              \<or> (i < k \<and> entry_used header entries k \<and> entries_overlap header entries k i)"
      by blast
    from d show ?rhs
    proof
      assume a: "k = i \<and> (\<exists>j. i < j \<and> j < n \<and> entry_used header entries j
                                   \<and> entries_overlap header entries j i)"
      then obtain j where j: "i < j" "j < n" "entry_used header entries j"
        "entries_overlap header entries j i" by blast
      from j(4) have "entries_overlap header entries k j" using a sym by simp
      with a i j show ?rhs by auto
    next
      assume b: "i < k \<and> entry_used header entries k \<and> entries_overlap header entries k i"
      with i show ?rhs by auto
    qed
  next
    assume r: ?rhs
    then obtain j where j: "j < n" "j \<noteq> k" "entry_used header entries j"
      "entries_overlap header entries k j" "k < j \<longrightarrow> entry_in_range header entries k"
      "j < k \<longrightarrow> entry_in_range header entries j" by blast
    from j(4) have o: "entries_overlap header entries j k" using sym by simp
    show ?mid
    proof (cases "k < j")
      case True
      with r j o assms(2) have "entry_used header entries k \<and> entry_in_range header entries k
                  \<and> ((k = k \<and> (\<exists>j. k < j \<and> j < n \<and> entry_used header entries j
                                   \<and> entries_overlap header entries j k)))"
        by blast
      with assms(2) show ?thesis by blast
    next
      case False
      with j have "j < k" by simp
      with r j have "entry_used header entries j \<and> entry_in_range header entries j
                  \<and> (j < k \<and> entry_used header entries k \<and> entries_overlap header entries k j)"
        by blast
      with j(1) show ?thesis by blast
    qed
  qed
  with lhs show ?thesis by simp
qed

section \<open>Validation only reads\<close>

lemma only_reads_refl: "only_reads dev dev"
  by (auto simp add: only_reads_def intro: exI [of _ "[]"])

lemma only_reads_trans:
  assumes "only_reads a b" and "only_reads b c"
  shows "only_reads a c"
proof -
  from assms(1) obtain e1 where 1: "b = a\<lparr>io_log := io_log a @ e1\<rparr>" "list_all (\<lambda>e. \<not> is_write e) e1"
    unfolding only_reads_def by blast
  from assms(2) obtain e2 where 2: "c = b\<lparr>io_log := io_log b @ e2\<rparr>" "list_all (\<lambda>e. \<not> is_write e) e2"
    unfolding only_reads_def by blast
  from 1 2 have "c = a\<lparr>io_log := io_log a @ (e1 @ e2)\<rparr>" "list_all (\<lambda>e. \<not> is_write e) (e1 @ e2)"
    by simp_all
  then show ?thesis
    unfolding only_reads_def by blast
qed

lemma only_reads_read_disk:
  "read_disk dev off sz = (st, data, dev') \<Longrightarrow> only_reads dev dev'"
  by (auto simp add: read_disk_def Let_def only_reads_def split: if_splits
        intro!: exI [of _ "[IO_Read off sz]"])

lemma only_reads_fields:
  assumes "only_reads dev dev'"
  shows "block_size dev' = block_size dev" and "total_sectors dev' = total_sectors dev"
    and "contents dev' = contents dev" and "pool dev' = pool dev"
    and "read_status dev' = read_status dev" and "write_status dev' = write_status dev"
  using assms by (auto simp add: only_reads_def)

lemma only_reads_entry_array:
  "validate_gpt_entry_array_crc dev header = (ok, dev') \<Longrightarrow> only_reads dev dev'"
  by (auto simp add: validate_gpt_entry_array_crc_def Let_def only_reads_refl
        split: if_splits prod.splits dest: only_reads_read_disk)

lemma only_reads_validate:
  assumes "validate_gpt_table dev lba header_out = (ok, header, dev')"
  shows "only_reads dev dev'"
proof (cases "pool dev (unat (block_size dev))")
  case False
  with assms show ?thesis
    by (simp add: validate_gpt_table_def only_reads_refl)
next
  case True
  obtain st blk dev1 where rd: "read_disk dev (lba * ucast (block_size dev)) (block_size dev) = (st, blk, dev1)"
    by (metis prod_cases3)
  then have r1: "only_reads dev dev1"
    by (rule only_reads_read_disk)
  obtain crc_ok blk' where ck: "check_header_crc (block_size dev) (header_size blk) blk = (crc_ok, blk')"
    by (metis prod.exhaust)
  obtain arr_ok dev2 where ar: "validate_gpt_entry_array_crc dev1 (take SIZEOF_gpt_header_t blk') = (arr_ok, dev2)"
    by (metis prod.exhaust)
  then have r2: "only_reads dev1 dev2"
    by (rule only_reads_entry_array)
  from assms True rd ck ar have "dev' = dev1 \<or> dev' = dev2"
    by (auto simp add: validate_gpt_table_def Let_def split: if_splits)
  with r1 r2 show ?thesis
    using only_reads_trans by blast
qed

text \<open>The verdict and the header do not depend on what the log holds.\<close>

lemma read_disk_log:
  "read_disk (dev\<lparr>io_log := l\<rparr>) off sz =
     (case read_disk dev off sz of (st, data, dev') \<Rightarrow> (st, data, dev'\<lparr>io_log := l @ [IO_Read off sz]\<rparr>))"
  by (simp add: read_disk_def Let_def)

lemma entry_array_log:
  "fst (validate_gpt_entry_array_crc (dev\<lparr>io_log := l\<rparr>) header)
     = fst (validate_gpt_entry_array_crc dev header)"
  by (simp add: validate_gpt_entry_array_crc_def Let_def read_disk_def)

lemma validate_log:
  "fst (validate_gpt_table (dev\<lparr>io_log := l\<rparr>) lba header_out)
     = fst (validate_gpt_table dev lba header_out)
   \<and> fst (snd (validate_gpt_table (dev\<lparr>io_log := l\<rparr>) lba header_out))
     = fst (snd (validate_gpt_table dev lba header_out))"
proof -
  have rd: "read_disk (dev\<lparr>io_log := l\<rparr>) off sz
              = (fst (read_disk dev off sz), fst (snd (read_disk dev off sz)),
                 (snd (snd (read_disk dev off sz)))\<lparr>io_log := l @ [IO_Read off sz]\<rparr>)" for off sz
    by (simp add: read_disk_def Let_def)
  have dev1: "snd (snd (read_disk dev off sz)) = dev\<lparr>io_log := io_log dev @ [IO_Read off sz]\<rparr>" for off sz
    by (simp add: read_disk_def Let_def)
  have ea: "fst (validate_gpt_entry_array_crc (d\<lparr>io_log := l'\<rparr>) h)
              = fst (validate_gpt_entry_array_crc (d\<lparr>io_log := l''\<rparr>) h)" for d l' l'' h
    using entry_array_log [where dev = d and l = l' and header = h]
      entry_array_log [where dev = d and l = l'' and header = h] by simp
  show ?thesis
    unfolding validate_gpt_table_def Let_def rd
    by (simp add: split_beta dev1 ea [where d = dev and l' = "l @ _" and l'' = "io_log dev @ _"])
qed

lemma validate_only_reads_verdict:
  assumes "only_reads dev dev'"
  shows "fst (validate_gpt_table dev' lba header_out) = fst (validate_gpt_table dev lba header_out)"
    and "fst (snd (validate_gpt_table dev' lba header_out))
           = fst (snd (validate_gpt_table dev lba header_out))"
  using assms validate_log by (auto simp add: only_reads_def)

section \<open>The concrete GPT disk\<close>

lemma put_u32_split:
  assumes "off + 4 \<le> length h"
  shows "put_u32 off v h =
           take off h @ [ucast v, ucast (drop_bit 8 v), ucast (drop_bit 16 v), ucast (drop_bit 24 v)]
             @ drop (off + 4) h"
proof (rule nth_equalityI)
  show "length (put_u32 off v h) =
          length (take off h @ [ucast v, ucast (drop_bit 8 v), ucast (drop_bit 16 v), ucast (drop_bit 24 v)]
             @ drop (off + 4) h)"
    using assms by simp
next
  fix i
  assume "i < length (put_u32 off v h)"
  then have i: "i < length h" by simp
  have c: "i < off \<or> i = off \<or> i = off + 1 \<or> i = off + 2 \<or> i = off + 3 \<or> off + 4 \<le> i"
    by arith
  show "put_u32 off v h ! i =
          (take off h @ [ucast v, ucast (drop_bit 8 v), ucast (drop_bit 16 v), ucast (drop_bit 24 v)]
             @ drop (off + 4) h) ! i"
    using c i assms
    by (elim disjE) (auto simp add: put_u32_def nth_append nth_list_update min_def nth_Cons')
qed

lemma zeroed_crc_take:
  assumes "20 \<le> n"
  shows "calculate_crc32 (set_header_crc32 0 blk) n = calculate_crc32 (set_header_crc32 0 (take n blk)) n"
  by (simp add: calculate_crc32_def set_header_crc32_def put_u32_def take_update_swap)

lemma primary_crc:
  "calculate_crc32 (set_header_crc32 0 gpt_primary_header) 92 = 0x271643E8"
  by (simp add: calculate_crc32_def set_header_crc32_def put_u32_split gpt_primary_header_def
        crc32_table_nth)

lemma backup_crc:
  "calculate_crc32 (set_header_crc32 0 gpt_backup_header) 92 = 0x3F7DD3DD"
  by (simp add: calculate_crc32_def set_header_crc32_def put_u32_split gpt_backup_header_def
        crc32_table_nth)

lemma overflow_crc:
  "calculate_crc32 (set_header_crc32 0 overflow_header) 92 = 0x09E06B6E"
  by (simp add: calculate_crc32_def set_header_crc32_def put_u32_split overflow_header_def
        crc32_table_nth)

lemma entry_array_crc:
  "calculate_crc32 gpt_entry_array 128 = 0x1F604B4F"
  by (simp add: calculate_crc32_def gpt_entry_array_def crc32_table_nth)

lemma gpt_blocks:
  "map gpt_contents [512 ..< 604] = gpt_primary_header"
  "map gpt_contents [3584 ..< 3676] = gpt_backup_header"
  "map overflow_contents [512 ..< 604] = overflow_header"
  by (simp_all add: gpt_contents_def overflow_contents_def gpt_primary_header_def
        gpt_backup_header_def overflow_header_def byte_at_def)

lemma gpt_arrays:
  "map gpt_contents [1024 ..< 1152] = gpt_entry_array"
  "map gpt_contents [3072 ..< 3200] = gpt_entry_array"
  "map overflow_contents [1024 ..< 1152] = gpt_entry_array"
  by (simp_all add: gpt_contents_def overflow_contents_def gpt_entry_array_def byte_at_def)

lemmas header_field_defs =
  signature_def header_size_def header_crc32_def my_lba_def alternate_lba_def
  first_usable_lba_def last_usable_lba_def partition_entry_lba_def num_partition_entries_def
  partition_entry_size_def partition_array_crc32_def

lemma gpt_primary_fields:
  "signature gpt_primary_header = GPT_HEADER_SIGNATURE"
  "header_size gpt_primary_header = 92"
  "header_crc32 gpt_primary_header = 0x271643E8"
  "my_lba gpt_primary_header = 1"
  "alternate_lba gpt_primary_header = 7"
  "first_usable_lba gpt_primary_header = 3"
  "last_usable_lba gpt_primary_header = 5"
  "partition_entry_lba gpt_primary_header = 2"
  "num_partition_entries gpt_primary_header = 1"
  "partition_entry_size gpt_primary_header = 128"
  "partition_array_crc32 gpt_primary_header = 0x1F604B4F"
  "length gpt_primary_header = 92"
  by (simp_all add: header_field_defs gpt_primary_header_def GPT_HEADER_SIGNATURE_def
        get_u64_def get_u32_def byte_at_def)

lemma gpt_backup_fields:
  "signature gpt_backup_header = GPT_HEADER_SIGNATURE"
  "header_size gpt_backup_header = 92"
  "header_crc32 gpt_backup_header = 0x3F7DD3DD"
  "my_lba gpt_backup_header = 7"
  "alternate_lba gpt_backup_header = 1"
  "first_usable_lba gpt_backup_header = 3"
  "last_usable_lba gpt_backup_header = 5"
  "partition_entry_lba gpt_backup_header = 6"
  "num_partition_entries gpt_backup_header = 1"
  "partition_entry_size gpt_backup_header = 128"
  "partition_array_crc32 gpt_backup_header = 0x1F604B4F"
  "length gpt_backup_header = 92"
  by (simp_all add: header_field_defs gpt_backup_header_def GPT_HEADER_SIGNATURE_def
        get_u64_def get_u32_def byte_at_def)

lemma overflow_fields:
  "signature overflow_header = GPT_HEADER_SIGNATURE"
  "header_size overflow_header = 92"
  "header_crc32 overflow_header = 0x09E06B6E"
  "my_lba overflow_header = 1"
  "partition_entry_lba overflow_header = 2"
  "num_partition_entries overflow_header = 0x02000001"
  "partition_entry_size overflow_header = 128"
  "partition_array_crc32 overflow_header = 0x1F604B4F"
  "length overflow_header = 92"
  by (simp_all add: header_field_defs overflow_header_def GPT_HEADER_SIGNATURE_def
        get_u64_def get_u32_def byte_at_def)

lemma gpt_device_fields:
  "block_size gpt_device = 512"
  "total_sectors gpt_device = 8"
  "contents gpt_device = gpt_contents"
  "pool gpt_device n"
  "read_status gpt_device off sz = STATUS_SUCCESS"
  "write_status gpt_device off sz = STATUS_SUCCESS"
  "io_log gpt_device = []"
  "block_size overflow_device = 512"
  "contents overflow_device = overflow_contents"
  "pool overflow_device n"
  "read_status overflow_device off sz = STATUS_SUCCESS"
  "io_log overflow_device = []"
  by (simp_all add: gpt_device_def overflow_device_def blank_device_def)

text \<open>A block whose first 92 bytes are a known header validates as that header does.\<close>

lemma validate_gpt_table_known_block:
  assumes blk: "blk = map (contents dev)
                  [unat (lba * ucast (block_size dev)) ..<
                   unat (lba * ucast (block_size dev)) + unat (block_size dev)]"
    and hdr: "take SIZEOF_gpt_header_t blk = hdr"
    and esz: "esz = num_partition_entries hdr * partition_entry_size hdr"
    and eoff: "eoff = partition_entry_lba hdr * ucast (block_size dev)"
    and "pool dev (unat (block_size dev))"
    and "read_status dev (lba * ucast (block_size dev)) (block_size dev) = STATUS_SUCCESS"
    and bs: "SIZEOF_gpt_header_t \<le> unat (block_size dev)"
    and "signature hdr = GPT_HEADER_SIGNATURE"
    and "header_size hdr = 92"
    and "header_crc32 hdr = calculate_crc32 (set_header_crc32 0 hdr) 92"
    and "my_lba hdr = lba"
    and "SIZEOF_gpt_partition_entry_t \<le> unat (partition_entry_size hdr)"
    and "pool dev (unat esz)"
    and "read_status dev eoff esz = STATUS_SUCCESS"
    and "partition_array_crc32 hdr =
           calculate_crc32 (map (contents dev) [unat eoff ..< unat eoff + unat esz]) (unat esz)"
  shows "validate_gpt_table dev lba header_out =
           (True, hdr,
            dev\<lparr>io_log := io_log dev @ [IO_Read (lba * ucast (block_size dev)) (block_size dev),
                                         IO_Read eoff esz]\<rparr>)"
proof -
  have f: "signature blk = signature hdr" "header_size blk = header_size hdr"
    "header_crc32 blk = header_crc32 hdr" "my_lba blk = my_lba hdr"
    "partition_entry_lba blk = partition_entry_lba hdr"
    "num_partition_entries blk = num_partition_entries hdr"
    "partition_entry_size blk = partition_entry_size hdr"
    "partition_array_crc32 blk = partition_array_crc32 hdr"
    using header_fields_take [of SIZEOF_gpt_header_t blk] hdr by simp_all
  have crc: "calculate_crc32 (set_header_crc32 0 blk) 92 = calculate_crc32 (set_header_crc32 0 hdr) 92"
    using zeroed_crc_take [of 92 blk] hdr by (simp add: SIZEOF_gpt_header_t_def)
  have le: "header_size blk \<le> block_size dev"
    using bs assms(9) f(2) by (simp add: SIZEOF_gpt_header_t_def word_le_nat_alt)
  have "validate_gpt_table dev lba header_out =
           (True, take SIZEOF_gpt_header_t blk,
            dev\<lparr>io_log := io_log dev @ [IO_Read (lba * ucast (block_size dev)) (block_size dev),
                                         IO_Read eoff esz]\<rparr>)"
    using assms(5-15) le
    by (intro validate_gpt_table_accepts [OF blk])
       (simp_all add: f crc esz eoff)
  with hdr show ?thesis by simp
qed

lemma gpt_primary_valid:
  "validate_gpt_table (gpt_device\<lparr>io_log := l\<rparr>) 1 header_out =
     (True, gpt_primary_header, gpt_device\<lparr>io_log := l @ [IO_Read 512 512, IO_Read 1024 128]\<rparr>)"
proof -
  let ?d = "gpt_device\<lparr>io_log := l\<rparr>"
  have "validate_gpt_table ?d 1 header_out =
           (True, gpt_primary_header,
            ?d\<lparr>io_log := io_log ?d @ [IO_Read (1 * ucast (block_size ?d)) (block_size ?d),
                                       IO_Read 1024 128]\<rparr>)"
    by (rule validate_gpt_table_known_block [where blk = "map gpt_contents [512 ..< 1024]"])
       (simp_all add: gpt_device_fields gpt_primary_fields gpt_blocks gpt_arrays primary_crc
          entry_array_crc take_map SIZEOF_gpt_header_t_def SIZEOF_gpt_partition_entry_t_def
          del: upt_rec_numeral)
  then show ?thesis
    by (simp add: gpt_device_fields)
qed

lemma gpt_backup_valid:
  "validate_gpt_table (gpt_device\<lparr>io_log := l\<rparr>) 7 header_out =
     (True, gpt_backup_header, gpt_device\<lparr>io_log := l @ [IO_Read 3584 512, IO_Read 3072 128]\<rparr>)"
proof -
  let ?d = "gpt_device\<lparr>io_log := l\<rparr>"
  have "validate_gpt_table ?d 7 header_out =
           (True, gpt_backup_header,
            ?d\<lparr>io_log := io_log ?d @ [IO_Read (7 * ucast (block_size ?d)) (block_size ?d),
                                       IO_Read 3072 128]\<rparr>)"
    by (rule validate_gpt_table_known_block [where blk = "map gpt_contents [3584 ..< 4096]"])
       (simp_all add: gpt_device_fields gpt_backup_fields gpt_blocks gpt_arrays backup_crc
          entry_array_crc take_map SIZEOF_gpt_header_t_def SIZEOF_gpt_partition_entry_t_def
          del: upt_rec_numeral)
  then show ?thesis
    by (simp add: gpt_device_fields)
qed

lemma gpt_device_log: "gpt_device\<lparr>io_log := []\<rparr> = gpt_device"
  by (simp add: gpt_device_def blank_device_def)

lemma overflow_valid:
  "validate_gpt_table overflow_device 1 header_out =
     (True, overflow_header, overflow_device\<lparr>io_log := [IO_Read 512 512, IO_Read 1024 128]\<rparr>)"
proof -
  let ?d = "overflow_device"
  have "validate_gpt_table ?d 1 header_out =
           (True, overflow_header,
            ?d\<lparr>io_log := io_log ?d @ [IO_Read (1 * ucast (block_size ?d)) (block_size ?d),
                                       IO_Read 1024 128]\<rparr>)"
    by (rule validate_gpt_table_known_block [where blk = "map overflow_contents [512 ..< 1024]"])
       (simp_all add: gpt_device_fields overflow_fields gpt_blocks gpt_arrays overflow_crc
          entry_array_crc take_map SIZEOF_gpt_header_t_def SIZEOF_gpt_partition_entry_t_def
          del: upt_rec_numeral)
  then show ?thesis
    by (simp add: gpt_device_fields)
qed

section \<open>The header built by the restoration\<close>

lemma byte_at_padded_copy:
  assumes "length header = SIZEOF_gpt_header_t" and "SIZEOF_gpt_header_t \<le> bs"
  shows "byte_at (store_bytes 0 (take SIZEOF_gpt_header_t header) (replicate bs 0)) i = byte_at header i"
  using assms by (auto simp add: byte_at_def nth_store_bytes)

lemma get_padded_copy:
  assumes "length header = SIZEOF_gpt_header_t" and "SIZEOF_gpt_header_t \<le> bs"
  shows "get_u32 (store_bytes 0 (take SIZEOF_gpt_header_t header) (replicate bs 0)) off = get_u32 header off"
    and "get_u64 (store_bytes 0 (take SIZEOF_gpt_header_t header) (replicate bs 0)) off = get_u64 header off"
  by (simp_all add: get_u64_def get_u32_def byte_at_padded_copy [OF assms])

lemma new_header_fields:
  assumes "length header = SIZEOF_gpt_header_t" and "SIZEOF_gpt_header_t \<le> bs"
  shows "length (new_header bs header) = bs"
    and "my_lba (new_header bs header) = alternate_lba header"
    and "alternate_lba (new_header bs header) = my_lba header"
    and "partition_entry_lba (new_header bs header) = new_entry_lba header"
    and "header_size (new_header bs header) = header_size header"
    and "header_crc32 (new_header bs header) =
           calculate_crc32 (set_header_crc32 0 (new_header bs header)) (unat (header_size header))"
    and "i \<notin> {16 ..< 20} \<union> {24 ..< 40} \<union> {72 ..< 80} \<Longrightarrow>
           byte_at (new_header bs header) i = byte_at header i"
proof -
  let ?h0 = "store_bytes 0 (take SIZEOF_gpt_header_t header) (replicate bs 0)"
  let ?h3 = "put_u64 72 (new_entry_lba header) (put_u64 32 (my_lba header)
               (put_u64 24 (alternate_lba header) ?h0))"
  have bs: "92 \<le> bs"
    using assms(2) by (simp add: SIZEOF_gpt_header_t_def)
  have len3: "length ?h3 = bs" by simp
  have hs: "header_size ?h3 = header_size header"
    using bs by (simp add: header_size_def get_u32_put_u64_other get_padded_copy [OF assms])
  have nh: "new_header bs header =
              put_u32 16 (calculate_crc32 (put_u32 16 0 ?h3) (unat (header_size header)))
                (put_u32 16 0 ?h3)"
    unfolding new_header_def Let_def set_header_crc_def
    using hs
    by (simp add: set_my_lba_def set_alternate_lba_def set_partition_entry_lba_def
          set_header_crc32_def header_size_def)
  show "length (new_header bs header) = bs"
    unfolding nh by simp
  show "my_lba (new_header bs header) = alternate_lba header"
    unfolding nh using bs
    by (simp add: my_lba_def get_u64_put_u32_other get_u64_put_u64_other get_u64_put_u64_same)
  show "alternate_lba (new_header bs header) = my_lba header"
    unfolding nh using bs
    by (simp add: alternate_lba_def get_u64_put_u32_other get_u64_put_u64_other get_u64_put_u64_same)
  show "partition_entry_lba (new_header bs header) = new_entry_lba header"
    unfolding nh using bs
    by (simp add: partition_entry_lba_def get_u64_put_u32_other get_u64_put_u64_same)
  show "header_size (new_header bs header) = header_size header"
    unfolding nh using bs hs
    by (simp add: header_size_def get_u32_put_u32_other)
  show "header_crc32 (new_header bs header) =
           calculate_crc32 (set_header_crc32 0 (new_header bs header)) (unat (header_size header))"
    unfolding nh using bs
    by (simp add: header_crc32_def set_header_crc32_def get_u32_put_u32_same put_u32_put_u32)
  show "byte_at (new_header bs header) i = byte_at header i"
    if "i \<notin> {16 ..< 20} \<union> {24 ..< 40} \<union> {72 ..< 80}"
    unfolding nh using that
    by (auto simp add: byte_at_put_u32 byte_at_put_u64_other byte_at_padded_copy [OF assms])
qed

lemma restore_gpt_table_run:
  assumes "length header = SIZEOF_gpt_header_t"
    and "SIZEOF_gpt_header_t \<le> unat (block_size dev)"
    and "pool dev (unat (block_size dev))"
    and "write_status dev (alternate_lba header * ucast (block_size dev)) (block_size dev)
           = STATUS_SUCCESS"
    and "pool dev (unat (num_partition_entries header * partition_entry_size header))"
    and "read_status dev (partition_entry_lba header * ucast (block_size dev))
           (num_partition_entries header * partition_entry_size header) = STATUS_SUCCESS"
    and "write_status dev (new_entry_lba header * ucast (block_size dev))
           (num_partition_entries header * partition_entry_size header) = STATUS_SUCCESS"
  shows "fst (restore_gpt_table dev header)"
    and "io_log (snd (restore_gpt_table dev header)) =
           io_log dev @
             [IO_Write (alternate_lba header * ucast (block_size dev)) (block_size dev)
                (new_header (unat (block_size dev)) header),
              IO_Read (partition_entry_lba header * ucast (block_size dev))
                (num_partition_entries header * partition_entry_size header),
              IO_Write (new_entry_lba header * ucast (block_size dev))
                (num_partition_entries header * partition_entry_size header)
                (map (contents (snd (write_disk dev
                        (alternate_lba header * ucast (block_size dev)) (block_size dev)
                        (new_header (unat (block_size dev)) header))))
                   [unat (partition_entry_lba header * ucast (block_size dev)) ..<
                    unat (partition_entry_lba header * ucast (block_size dev))
                      + unat (num_partition_entries header * partition_entry_size header)])]"
  using assms new_header_fields(1,2) [OF assms(1,2)]
  by (simp_all add: restore_gpt_table_def Let_def write_disk_def read_disk_def)

section \<open>One iteration of the EBR walk\<close>

lemma chain_notions_log:
  "ebr_block (dev\<lparr>io_log := l\<rparr>) = ebr_block dev"
  "ebr_valid (dev\<lparr>io_log := l\<rparr>) = ebr_valid dev"
  "ebr_link (dev\<lparr>io_log := l\<rparr>) = ebr_link dev"
  "partition_info (dev\<lparr>io_log := l\<rparr>) = partition_info dev"
proof -
  show b: "ebr_block (dev\<lparr>io_log := l\<rparr>) = ebr_block dev"
    by (rule ext) (simp add: ebr_block_def)
  show v: "ebr_valid (dev\<lparr>io_log := l\<rparr>) = ebr_valid dev"
    by (rule ext) (simp add: ebr_valid_def b)
  show "ebr_link (dev\<lparr>io_log := l\<rparr>) = ebr_link dev"
    by (rule ext, rule ext) (simp add: ebr_link_def b v)
  show "partition_info (dev\<lparr>io_log := l\<rparr>) = partition_info dev"
    by (rule ext, rule ext, rule ext) (simp add: partition_info_def)
qed

lemma logical_count_log:
  "logical_count (dev\<lparr>io_log := l\<rparr>) base n cur = logical_count dev base n cur"
  by (induction n arbitrary: cur) (simp_all add: chain_notions_log)

lemma read_ebr:
  "read_disk dev (cur * ucast (block_size dev)) (block_size dev) =
     (read_status dev (cur * ucast (block_size dev)) (block_size dev),
      (if read_status dev (cur * ucast (block_size dev)) (block_size dev) = STATUS_SUCCESS
       then ebr_block dev cur else []),
      dev\<lparr>io_log := io_log dev @ [IO_Read (cur * ucast (block_size dev)) (block_size dev)]\<rparr>)"
  by (simp add: read_disk_def Let_def ebr_block_def)

lemma ebr_link_zero [simp]: "ebr_link dev base 0 = 0"
  by (simp add: ebr_link_def ebr_valid_def)

lemma ebr_link_invalid: "\<not> ebr_valid dev cur \<Longrightarrow> ebr_link dev base cur = 0"
  by (simp add: ebr_link_def)




lemma upt_0_4: "[0 ..< 4] = [0, Suc 0, 2, 3]"
proof -
  have "[0 ..< 4] = [0 ..< Suc (Suc (Suc (Suc 0)))]"
    by (simp add: numeral_eq_Suc)
  also have "\<dots> = [0, Suc 0, Suc (Suc 0), Suc (Suc (Suc 0))]"
    by (simp only: upt_Suc_append upt_0 le0 append_Nil append_Cons if_True)
  also have "\<dots> = [0, Suc 0, 2, 3]"
    by (simp add: numeral_eq_Suc)
  finally show ?thesis .
qed

text \<open>One iteration of the loop, in the notions of the specification.\<close>

lemma ebr_chain_loop_exit:
  "current_ebr_lba = 0 \<or> \<not> length partitions < max_partitions \<Longrightarrow>
     ebr_chain_loop extended_base_lba max_partitions dev current_ebr_lba num partitions
       = Some (STATUS_SUCCESS, partitions, dev)"
  by (subst ebr_chain_loop.simps) auto

lemma ebr_chain_loop_stop:
  assumes "current_ebr_lba \<noteq> 0" and "length partitions < max_partitions"
    and "\<not> ebr_valid dev current_ebr_lba"
  shows "ebr_chain_loop extended_base_lba max_partitions dev current_ebr_lba num partitions
           = Some (if read_status dev (current_ebr_lba * ucast (block_size dev)) (block_size dev)
                      = STATUS_SUCCESS
                   then STATUS_SUCCESS
                   else read_status dev (current_ebr_lba * ucast (block_size dev)) (block_size dev),
                   partitions,
                   dev\<lparr>io_log := io_log dev @
                     [IO_Read (current_ebr_lba * ucast (block_size dev)) (block_size dev)]\<rparr>)"
  using assms
  by (subst ebr_chain_loop.simps) (auto simp add: read_ebr ebr_valid_def MBR_SIGNATURE_def)

lemma ebr_chain_loop_step:
  assumes "current_ebr_lba \<noteq> 0" and "length partitions < max_partitions"
    and "ebr_valid dev current_ebr_lba"
  shows "ebr_chain_loop extended_base_lba max_partitions dev current_ebr_lba num partitions
           = ebr_chain_loop extended_base_lba max_partitions
               (dev\<lparr>io_log := io_log dev @
                  [IO_Read (current_ebr_lba * ucast (block_size dev)) (block_size dev)]\<rparr>)
               (ebr_link dev extended_base_lba current_ebr_lba)
               (if slot_used (mbr_partition (ebr_block dev current_ebr_lba) 0) then num + 1 else num)
               (if slot_used (mbr_partition (ebr_block dev current_ebr_lba) 0)
                then partitions @ [partition_info dev current_ebr_lba
                                     (mbr_partition (ebr_block dev current_ebr_lba) 0) num]
                else partitions)"
  using assms
  by (subst ebr_chain_loop.simps)
     (simp add: read_ebr ebr_valid_def MBR_SIGNATURE_def ebr_link_def slot_used_def Let_def
        PARTITION_TYPE_EMPTY_def word_neq_0_conv)

section \<open>When the EBR walk returns\<close>

text \<open>
  The loop returns as soon as, after some number of EBRs, the chain has ended or the
  descriptors have reached the maximum.
\<close>

lemma ebr_chain_loop_returns:
  assumes "(ebr_link dev base ^^ n) cur = 0 \<or> maxp \<le> length parts + logical_count dev base n cur"
  shows "\<exists>r. ebr_chain_loop base maxp dev cur num parts = Some r"
  using assms
proof (induction n arbitrary: dev cur num parts)
  case 0
  then have "cur = 0 \<or> \<not> length parts < maxp" by auto
  then show ?case
    by (simp add: ebr_chain_loop_exit)
next
  case (Suc n)
  show ?case
  proof (cases "cur = 0 \<or> \<not> length parts < maxp")
    case True
    then show ?thesis
      by (simp add: ebr_chain_loop_exit)
  next
    case False
    then have c: "cur \<noteq> 0" "length parts < maxp" by simp_all
    show ?thesis
    proof (cases "ebr_valid dev cur")
      case False
      then show ?thesis
        using ebr_chain_loop_stop [OF c False, of base num] by simp
    next
      case True
      let ?dev1 = "dev\<lparr>io_log := io_log dev @
                     [IO_Read (cur * ucast (block_size dev)) (block_size dev)]\<rparr>"
      let ?used = "slot_used (mbr_partition (ebr_block dev cur) 0)"
      let ?parts1 = "if ?used
                     then parts @ [partition_info dev cur (mbr_partition (ebr_block dev cur) 0) num]
                     else parts"
      have step: "ebr_chain_loop base maxp dev cur num parts =
                    ebr_chain_loop base maxp ?dev1 (ebr_link dev base cur)
                      (if ?used then num + 1 else num) ?parts1"
        using ebr_chain_loop_step [OF c True, of base num] by simp
      have "(ebr_link ?dev1 base ^^ n) (ebr_link dev base cur) = 0
            \<or> maxp \<le> length ?parts1 + logical_count ?dev1 base n (ebr_link dev base cur)"
        using Suc.prems True
        by (auto simp add: chain_notions_log logical_count_log funpow_swap1)
      then show ?thesis
        unfolding step by (rule Suc.IH)
    qed
  qed
qed

text \<open>Conversely, a loop that returns has got there.\<close>

lemma ebr_chain_loop_returned:
  assumes "ebr_chain_loop base maxp dev cur num parts = Some r"
  shows "\<exists>n. (ebr_link dev base ^^ n) cur = 0
              \<or> maxp \<le> length parts + logical_count dev base n cur"
proof (rule ebr_chain_loop.raw_induct
         [where P = "\<lambda>base maxp dev cur num parts r.
                       \<exists>n. (ebr_link dev base ^^ n) cur = 0
                            \<or> maxp \<le> length parts + logical_count dev base n cur",
          OF _ assms], goal_cases)
  case (1 f base maxp dev cur num parts r)
  show ?case
  proof (cases "cur = 0 \<or> \<not> length parts < maxp")
    case True
    then show ?thesis
      by (intro exI [of _ 0]) auto
  next
    case False
    then have c: "cur \<noteq> 0" "length parts < maxp" by simp_all
    show ?thesis
    proof (cases "ebr_valid dev cur")
      case False
      then have "(ebr_link dev base ^^ Suc 0) cur = 0"
        by (simp add: ebr_link_invalid)
      then show ?thesis by blast
    next
      case True
      let ?dev1 = "dev\<lparr>io_log := io_log dev @
                     [IO_Read (cur * ucast (block_size dev)) (block_size dev)]\<rparr>"
      let ?used = "slot_used (mbr_partition (ebr_block dev cur) 0)"
      let ?parts1 = "if ?used
                     then parts @ [partition_info dev cur (mbr_partition (ebr_block dev cur) 0) num]
                     else parts"
      have "f base maxp ?dev1 (ebr_link dev base cur) (if ?used then num + 1 else num) ?parts1
              = Some r"
        using 1(2) c True
        by (auto simp add: read_ebr ebr_valid_def MBR_SIGNATURE_def ebr_link_def slot_used_def
              Let_def PARTITION_TYPE_EMPTY_def word_neq_0_conv split: if_splits)
      from 1(1) [OF this] obtain n where
        "(ebr_link ?dev1 base ^^ n) (ebr_link dev base cur) = 0
         \<or> maxp \<le> length ?parts1 + logical_count ?dev1 base n (ebr_link dev base cur)"
        by blast
      then have "(ebr_link dev base ^^ Suc n) cur = 0
                 \<or> maxp \<le> length parts + logical_count dev base (Suc n) cur"
        using True
        by (auto simp add: chain_notions_log logical_count_log funpow_swap1 split: if_splits)
      then show ?thesis by blast
    qed
  qed
qed

section \<open>The example MBR disks, block by block\<close>

lemma extended_codes:
  "is_extended_partition 0x05" "\<not> is_extended_partition 0x83"
  by (simp_all add: is_extended_partition_def PARTITION_TYPE_EXTENDED_def
        PARTITION_TYPE_EXTENDED_LBA_def PARTITION_TYPE_LINUX_EXTENDED_def)


lemma chain_device_ebrs:
  "mbr_partition (map chain_contents [5120 ..< 5632]) 0
     = \<lparr>boot_indicator = 0x00, os_indicator = 0x83, starting_lba = 1, size_in_lba = 5\<rparr>"
  "mbr_partition (map chain_contents [5120 ..< 5632]) (Suc 0)
     = \<lparr>boot_indicator = 0x00, os_indicator = 0x05, starting_lba = 10, size_in_lba = 10\<rparr>"
  "mbr_signature (map chain_contents [5120 ..< 5632]) = 0xAA55"
  "mbr_partition (map chain_contents [10240 ..< 10752]) 0
     = \<lparr>boot_indicator = 0x00, os_indicator = 0x82, starting_lba = 1, size_in_lba = 5\<rparr>"
  "mbr_partition (map chain_contents [10240 ..< 10752]) (Suc 0)
     = \<lparr>boot_indicator = 0x00, os_indicator = 0x05, starting_lba = 20, size_in_lba = 10\<rparr>"
  "mbr_signature (map chain_contents [10240 ..< 10752]) = 0xAA55"
  "mbr_partition (map chain_contents [15360 ..< 15872]) 0
     = \<lparr>boot_indicator = 0x00, os_indicator = 0x0C, starting_lba = 1, size_in_lba = 5\<rparr>"
  "mbr_partition (map chain_contents [15360 ..< 15872]) (Suc 0)
     = \<lparr>boot_indicator = 0x00, os_indicator = 0x00, starting_lba = 0, size_in_lba = 0\<rparr>"
  "mbr_signature (map chain_contents [15360 ..< 15872]) = 0xAA55"
  by (simp_all add: mbr_partition_map_upt mbr_signature_def get_u32_def get_u16_def
        byte_at_map_upt chain_contents_def boot_record_byte_def del: upt_rec_numeral)

lemma chain_device_fields:
  "block_size chain_device = 512"
  "contents chain_device = chain_contents"
  "pool chain_device k"
  "read_status chain_device off sz = STATUS_SUCCESS"
  "io_log chain_device = []"
  by (simp_all add: chain_device_def blank_device_def)

lemma chain_device_blocks:
  "ebr_block chain_device 10 = map chain_contents [5120 ..< 5632]"
  "ebr_block chain_device 20 = map chain_contents [10240 ..< 10752]"
  "ebr_block chain_device 30 = map chain_contents [15360 ..< 15872]"
  by (simp_all add: ebr_block_def chain_device_fields del: upt_rec_numeral)

lemma chain_device_links:
  "ebr_valid chain_device 10" "ebr_valid chain_device 20" "ebr_valid chain_device 30"
  "ebr_link chain_device 10 10 = 20"
  "ebr_link chain_device 10 20 = 30"
  "ebr_link chain_device 10 30 = 0"
  by (simp_all add: ebr_link_def ebr_valid_def chain_device_blocks chain_device_ebrs
        chain_device_fields slot_used_def extended_codes del: upt_rec_numeral)


lemma twin_device_ebrs:
  "mbr_partition (map twin_contents [5120 ..< 5632]) 0
     = \<lparr>boot_indicator = 0x00, os_indicator = 0x83, starting_lba = 2, size_in_lba = 5\<rparr>"
  "mbr_partition (map twin_contents [5120 ..< 5632]) (Suc 0)
     = \<lparr>boot_indicator = 0x00, os_indicator = 0x05, starting_lba = 10, size_in_lba = 10\<rparr>"
  "mbr_signature (map twin_contents [5120 ..< 5632]) = 0xAA55"
  "mbr_partition (map twin_contents [10240 ..< 10752]) 0
     = \<lparr>boot_indicator = 0x00, os_indicator = 0x82, starting_lba = 3, size_in_lba = 4\<rparr>"
  "mbr_partition (map twin_contents [10240 ..< 10752]) (Suc 0)
     = \<lparr>boot_indicator = 0x00, os_indicator = 0x00, starting_lba = 0, size_in_lba = 0\<rparr>"
  "mbr_signature (map twin_contents [10240 ..< 10752]) = 0xAA55"
  "mbr_partition (map twin_contents [20480 ..< 20992]) 0
     = \<lparr>boot_indicator = 0x00, os_indicator = 0x83, starting_lba = 1, size_in_lba = 5\<rparr>"
  "mbr_partition (map twin_contents [20480 ..< 20992]) (Suc 0)
     = \<lparr>boot_indicator = 0x00, os_indicator = 0x00, starting_lba = 0, size_in_lba = 0\<rparr>"
  "mbr_signature (map twin_contents [20480 ..< 20992]) = 0xAA55"
  by (simp_all add: mbr_partition_map_upt mbr_signature_def get_u32_def get_u16_def
        byte_at_map_upt twin_contents_def boot_record_byte_def del: upt_rec_numeral)

lemma twin_device_fields:
  "block_size twin_device = 512"
  "contents twin_device = twin_contents"
  "pool twin_device k"
  "read_status twin_device off sz = STATUS_SUCCESS"
  "io_log twin_device = []"
  by (simp_all add: twin_device_def blank_device_def)

lemma twin_device_blocks:
  "ebr_block twin_device 10 = map twin_contents [5120 ..< 5632]"
  "ebr_block twin_device 20 = map twin_contents [10240 ..< 10752]"
  "ebr_block twin_device 40 = map twin_contents [20480 ..< 20992]"
  by (simp_all add: ebr_block_def twin_device_fields del: upt_rec_numeral)

lemma twin_device_links:
  "ebr_valid twin_device 10" "ebr_valid twin_device 20" "ebr_valid twin_device 40"
  "ebr_link twin_device 10 10 = 20"
  "ebr_link twin_device 10 20 = 0"
  "ebr_link twin_device 40 40 = 0"
  by (simp_all add: ebr_link_def ebr_valid_def twin_device_blocks twin_device_ebrs
        twin_device_fields slot_used_def extended_codes del: upt_rec_numeral)


lemma ring_device_ebrs:
  "mbr_partition (map ring_contents [512 ..< 1024]) 0
     = \<lparr>boot_indicator = 0x00, os_indicator = 0x83, starting_lba = 1, size_in_lba = 5\<rparr>"
  "mbr_partition (map ring_contents [512 ..< 1024]) (Suc 0)
     = \<lparr>boot_indicator = 0x00, os_indicator = 0x05, starting_lba = 0, size_in_lba = 1\<rparr>"
  "mbr_signature (map ring_contents [512 ..< 1024]) = 0xAA55"
  by (simp_all add: mbr_partition_map_upt mbr_signature_def get_u32_def get_u16_def
        byte_at_map_upt ring_contents_def boot_record_byte_def del: upt_rec_numeral)

lemma ring_device_fields:
  "block_size ring_device = 512"
  "contents ring_device = ring_contents"
  "pool ring_device k"
  "read_status ring_device off sz = STATUS_SUCCESS"
  "io_log ring_device = []"
  by (simp_all add: ring_device_def blank_device_def)

lemma ring_device_blocks:
  "ebr_block ring_device 1 = map ring_contents [512 ..< 1024]"
  by (simp add: ebr_block_def ring_device_fields del: upt_rec_numeral)

lemma ring_device_links:
  "ebr_valid ring_device 1"
  "ebr_link ring_device 1 1 = 1"
  by (simp_all add: ebr_link_def ebr_valid_def ring_device_blocks ring_device_ebrs
        ring_device_fields slot_used_def extended_codes del: upt_rec_numeral)

lemma example_chains_ended:
  "(ebr_link chain_device 10 ^^ 3) 10 = 0"
  "(ebr_link twin_device 10 ^^ 2) 10 = 0"
  "(ebr_link twin_device 40 ^^ 2) 40 = 0"
  unfolding numeral_2_eq_2 numeral_3_eq_3
  by (simp_all add: chain_device_links twin_device_links)


section \<open>The header checksum check\<close>

text \<open>
  C8 (as amended). When the size passes the two guards of \<^verbatim>\<open>check_header_crc\<close> (it
  is not 0, and not above \<open>max_size\<close> unless \<open>max_size\<close> is 0), the checksum field
  of the header holds, after the routine returns, the checksum recomputed over the header
  with the field zeroed, whether the comparison succeeded or not; when a guard rejects the
  size the routine answers false and the field still holds the stored value. In every case
  the length of the buffer and every byte outside the checksum field (bytes 16 to 19) are
  as before.
\<close>

theorem check_header_crc_effect:
  assumes "20 \<le> length header"
  shows "let r = check_header_crc max_size sz header;
             crc = calculate_crc32 (set_header_crc32 0 header) (unat sz);
             rejected = (sz = 0 \<or> (max_size \<noteq> 0 \<and> max_size < sz))
         in header_crc32 (snd r) = (if rejected then header_crc32 header else crc)
            \<and> fst r = (\<not> rejected \<and> header_crc32 header = crc)
            \<and> length (snd r) = length header
            \<and> (\<forall>i. i < 16 \<or> 20 \<le> i \<longrightarrow> byte_at (snd r) i = byte_at header i)"
  using assms
  by (auto simp add: check_header_crc_def Let_def header_crc32_def set_header_crc32_def
        get_u32_put_u32_same byte_at_put_u32)

theorem check_header_crc_effect_witness:
  "20 \<le> length stale_header
   \<and> header_crc32 (snd (check_header_crc 512 92 stale_header))
       = calculate_crc32 (set_header_crc32 0 stale_header) 92
   \<and> length (snd (check_header_crc 512 92 stale_header)) = 92"
  using check_header_crc_effect [of stale_header 512 92]
  by (simp add: Let_def stale_header_def)

text \<open>
  The claim as stated fails where a guard rejects the size: the header declares size 0,
  the check fails, and the field keeps the stored 0x12345678, which is not the checksum
  of the zero bytes the size covers.
\<close>

theorem check_header_crc_counterexample:
  "header_size stale_header = 0
   \<and> check_header_crc 512 (header_size stale_header) stale_header = (False, stale_header)
   \<and> header_crc32 stale_header = 0x12345678
   \<and> calculate_crc32 (set_header_crc32 0 stale_header) (unat (header_size stale_header)) = 0"
  by (simp add: stale_header_def header_size_def header_crc32_def get_u32_def byte_at_def
        check_header_crc_def calculate_crc32_def)

section \<open>Protective MBR\<close>

text \<open>
  C6. When \<^verbatim>\<open>discover_mbr_partitions\<close> has read block 0 (a non-zero maximum, a
  block size of at least 512, the buffer allocated, the read successful) and one of the four
  slots has boot flag 0, type 0xEE and starting address 1, the parser returns not-found and
  no descriptor.
\<close>

theorem protective_mbr_not_found:
  assumes "max_partitions \<noteq> 0"
    and "SIZEOF_master_boot_record_t \<le> unat (block_size dev)"
    and "pool dev (unat (block_size dev))"
    and "read_disk dev 0 (block_size dev) = (STATUS_SUCCESS, mbr, dev1)"
    and "i < 4"
    and "boot_indicator (mbr_partition mbr i) = 0x00"
    and "os_indicator (mbr_partition mbr i) = 0xEE"
    and "starting_lba (mbr_partition mbr i) = 1"
  shows "discover_mbr_partitions dev max_partitions = Some (STATUS_NOT_FOUND, [], dev1)"
proof -
  have "i = 0 \<or> i = 1 \<or> i = 2 \<or> i = 3"
    using assms(5) by arith
  then have "is_protective_mbr mbr"
    using assms(6-8) by (auto simp add: is_protective_mbr_def list_ex_slots PMBR_GPT_PARTITION_def)
  then show ?thesis
    using assms(1-4) by (simp add: discover_mbr_partitions_def)
qed

theorem protective_mbr_not_found_witness:
  "discover_mbr_partitions protective_mbr_device 4 =
     Some (STATUS_NOT_FOUND, [], protective_mbr_device\<lparr>io_log := [IO_Read 0 512]\<rparr>)"
proof -
  let ?mbr = "map protective_mbr_contents [0 ..< 512]"
  have rd: "read_disk protective_mbr_device 0 (block_size protective_mbr_device) =
              (STATUS_SUCCESS, ?mbr, protective_mbr_device\<lparr>io_log := [IO_Read 0 512]\<rparr>)"
    by (simp add: read_disk_result protective_mbr_device_def blank_device_def del: upt_rec_numeral)
  have slot: "boot_indicator (mbr_partition ?mbr 0) = 0x00"
    "os_indicator (mbr_partition ?mbr 0) = 0xEE"
    "starting_lba (mbr_partition ?mbr 0) = 1"
    by (simp_all add: mbr_partition_map_upt get_u32_def byte_at_map_upt protective_mbr_contents_def
          del: upt_rec_numeral)
  show ?thesis
    using protective_mbr_not_found [of 4 protective_mbr_device ?mbr _ 0, OF _ _ _ rd _ slot]
    by (simp add: protective_mbr_device_def blank_device_def SIZEOF_master_boot_record_t_def)
qed

section \<open>Parameter validation\<close>

text \<open>
  C7 (as amended). For every device whose block size is smaller than the 512 bytes of an
  MBR record, \<^verbatim>\<open>discover_gpt_partitions\<close> and \<^verbatim>\<open>discover_mbr_partitions\<close> return
  invalid-parameter with no descriptor and leave the device, hence its log of reads and
  writes, as it was.
\<close>

theorem small_block_size_invalid_param:
  assumes "unat (block_size dev) < SIZEOF_master_boot_record_t"
  shows "discover_gpt_partitions dev max_partitions = (STATUS_INVALID_PARAM, [], dev)
         \<and> discover_mbr_partitions dev max_partitions = Some (STATUS_INVALID_PARAM, [], dev)"
  using assms by (simp add: discover_gpt_partitions_def discover_mbr_partitions_def Let_def)

theorem small_block_size_invalid_param_witness:
  "unat (block_size small_block_device) < SIZEOF_master_boot_record_t
   \<and> discover_gpt_partitions small_block_device 4 = (STATUS_INVALID_PARAM, [], small_block_device)
   \<and> discover_mbr_partitions small_block_device 4
       = Some (STATUS_INVALID_PARAM, [], small_block_device)
   \<and> io_log small_block_device = []"
  using small_block_size_invalid_param [of small_block_device 4]
  by (simp add: small_block_device_def blank_device_def SIZEOF_master_boot_record_t_def)

text \<open>
  The claim as stated fails for a device of zero blocks: no path tests the block count.
  With 512-byte blocks both parsers read block 0 and answer not-found.
\<close>

theorem zero_blocks_counterexample:
  "total_sectors blank_device = 0
   \<and> discover_gpt_partitions blank_device 4
       = (STATUS_NOT_FOUND, [], blank_device\<lparr>io_log := [IO_Read 0 512]\<rparr>)
   \<and> discover_mbr_partitions blank_device 4
       = Some (STATUS_NOT_FOUND, [], blank_device\<lparr>io_log := [IO_Read 0 512]\<rparr>)"
proof -
  have rd: "read_disk blank_device 0 512 =
              (STATUS_SUCCESS, map (\<lambda>a. 0) [0 ..< 512], blank_device\<lparr>io_log := [IO_Read 0 512]\<rparr>)"
    by (simp add: read_disk_result blank_device_def del: upt_rec_numeral)
  have no_gpt: "\<not> has_gpt_partition (map (\<lambda>a. 0) [0 ..< 512])"
    by (simp add: has_gpt_partition_def list_ex_slots mbr_partition_map_upt byte_at_map_upt
          PMBR_GPT_PARTITION_def del: upt_rec_numeral)
  have no_mbr: "\<not> validate_mbr (map (\<lambda>a. 0) [0 ..< 512])"
    by (simp add: validate_mbr_def mbr_signature_def get_u16_def byte_at_map_upt MBR_SIGNATURE_def
          del: upt_rec_numeral)
  have bs: "block_size blank_device = 512" "pool blank_device 512" "total_sectors blank_device = 0"
    by (simp_all add: blank_device_def)
  show ?thesis
    using rd no_gpt no_mbr bs
    by (simp add: discover_gpt_partitions_def discover_mbr_partitions_def Let_def
          SIZEOF_master_boot_record_t_def del: upt_rec_numeral)
qed

section \<open>Overlap flags\<close>

text \<open>
  C4 (as amended). For every pair of non-empty in-range entries \<open>a\<close> and \<open>b\<close> at
  distinct indices of the entry array: if \<open>a.end \<ge> b.start\<close> and \<open>a.start \<le> b.end\<close>
  the checker flags both as overlapping; the flag of \<open>a\<close> is set exactly when \<open>a\<close>
  overlaps, in this boundary-inclusive sense, some other non-empty entry of the array (one
  that is in range, if it comes before \<open>a\<close>); and when \<open>a\<close> and \<open>b\<close> are the only
  non-empty entries, both are flagged if and only if they overlap.
\<close>

theorem overlapping_entries_flagged:
  assumes "n = unat (num_partition_entries header)"
    and "a < n" and "b < n" and "a \<noteq> b"
    and "entry_used header entries a" and "entry_used header entries b"
    and "entry_in_range header entries a" and "entry_in_range header entries b"
  shows "let st = check_gpt_entries header entries (replicate n status_clear)
         in (entries_overlap header entries a b \<longrightarrow> overlap (st ! a) \<and> overlap (st ! b))
            \<and> (overlap (st ! a) \<longleftrightarrow>
                  (\<exists>j<n. j \<noteq> a \<and> entry_used header entries j \<and> entries_overlap header entries a j
                         \<and> (j < a \<longrightarrow> entry_in_range header entries j)))
            \<and> ((\<forall>j<n. j \<noteq> a \<and> j \<noteq> b \<longrightarrow> \<not> entry_used header entries j) \<longrightarrow>
                  (overlap (st ! a) \<and> overlap (st ! b) \<longleftrightarrow> entries_overlap header entries a b))"
proof -
  let ?st = "check_gpt_entries header entries (replicate n status_clear)"
  have sym: "\<And>x y. entries_overlap header entries x y = entries_overlap header entries y x"
    by (auto simp add: entries_overlap_def)
  have fa: "overlap (?st ! a) \<longleftrightarrow>
              (\<exists>j<n. j \<noteq> a \<and> entry_used header entries j \<and> entries_overlap header entries a j
                     \<and> (j < a \<longrightarrow> entry_in_range header entries j))"
    using overlap_check_gpt_entries [OF assms(1) assms(2), of entries] assms(5,7) by auto
  have fb: "overlap (?st ! b) \<longleftrightarrow>
              (\<exists>j<n. j \<noteq> b \<and> entry_used header entries j \<and> entries_overlap header entries b j
                     \<and> (j < b \<longrightarrow> entry_in_range header entries j))"
    using overlap_check_gpt_entries [OF assms(1) assms(3), of entries] assms(6,8) by auto
  have c1: "entries_overlap header entries a b \<longrightarrow> overlap (?st ! a) \<and> overlap (?st ! b)"
  proof
    assume o: "entries_overlap header entries a b"
    then have o': "entries_overlap header entries b a" using sym by simp
    from o assms have "overlap (?st ! a)" unfolding fa by blast
    moreover from o' assms have "overlap (?st ! b)" unfolding fb by blast
    ultimately show "overlap (?st ! a) \<and> overlap (?st ! b)" by simp
  qed
  have c3: "(\<forall>j<n. j \<noteq> a \<and> j \<noteq> b \<longrightarrow> \<not> entry_used header entries j) \<longrightarrow>
              (overlap (?st ! a) \<and> overlap (?st ! b) \<longleftrightarrow> entries_overlap header entries a b)"
  proof
    assume only: "\<forall>j<n. j \<noteq> a \<and> j \<noteq> b \<longrightarrow> \<not> entry_used header entries j"
    show "overlap (?st ! a) \<and> overlap (?st ! b) \<longleftrightarrow> entries_overlap header entries a b"
    proof
      assume "overlap (?st ! a) \<and> overlap (?st ! b)"
      then obtain j where "j < n" "j \<noteq> a" "entry_used header entries j"
        "entries_overlap header entries a j" unfolding fa by blast
      with only show "entries_overlap header entries a b" by blast
    next
      assume "entries_overlap header entries a b"
      with c1 show "overlap (?st ! a) \<and> overlap (?st ! b)" by simp
    qed
  qed
  from c1 fa c3 show ?thesis unfolding Let_def by blast
qed

text \<open>
  The two tables of the specification: \<open>[10,20]\<close> and \<open>[20,30]\<close> are both flagged,
  \<open>[10,19]\<close> and \<open>[20,30]\<close> are not.
\<close>

theorem overlapping_entries_flagged_witness:
  "overlap (check_gpt_entries two_entry_header touching_entries (replicate 2 status_clear) ! 0)
   \<and> overlap (check_gpt_entries two_entry_header touching_entries (replicate 2 status_clear) ! 1)
   \<and> \<not> overlap (check_gpt_entries two_entry_header adjacent_entries (replicate 2 status_clear) ! 0)
   \<and> \<not> overlap (check_gpt_entries two_entry_header adjacent_entries (replicate 2 status_clear) ! 1)"
proof -
  have h: "unat (num_partition_entries two_entry_header) = 2"
    "partition_entry_size two_entry_header = 128"
    "first_usable_lba two_entry_header = 2"
    "last_usable_lba two_entry_header = 100"
    by (simp_all add: two_entry_header_def num_partition_entries_def partition_entry_size_def
          first_usable_lba_def last_usable_lba_def get_u64_def get_u32_def byte_at_def)
  have off: "entry_offset two_entry_header 0 = 0" "entry_offset two_entry_header (Suc 0) = 128"
    by (simp_all add: entry_offset_def h)
  have used: "entry_used two_entry_header touching_entries 0"
    "entry_used two_entry_header touching_entries 1"
    "entry_used two_entry_header adjacent_entries 0"
    "entry_used two_entry_header adjacent_entries 1"
    by (rule entry_used_first_byte,
        simp add: off touching_entries_def adjacent_entries_def entry_eval)+
  have fields: "entry_starting_lba touching_entries 0 = 10" "entry_ending_lba touching_entries 0 = 20"
    "entry_starting_lba touching_entries 128 = 20" "entry_ending_lba touching_entries 128 = 30"
    "entry_starting_lba adjacent_entries 0 = 10" "entry_ending_lba adjacent_entries 0 = 19"
    "entry_starting_lba adjacent_entries 128 = 20" "entry_ending_lba adjacent_entries 128 = 30"
    by (simp_all add: touching_entries_def adjacent_entries_def entry_starting_lba_def
          entry_ending_lba_def get_u64_def get_u32_def entry_eval)
  have range: "entry_in_range two_entry_header touching_entries 0"
    "entry_in_range two_entry_header touching_entries 1"
    "entry_in_range two_entry_header adjacent_entries 0"
    "entry_in_range two_entry_header adjacent_entries 1"
    by (simp_all add: entry_in_range_def off fields h)
  have ov: "entries_overlap two_entry_header touching_entries 0 1"
    "\<not> entries_overlap two_entry_header adjacent_entries 0 1"
    "\<not> entries_overlap two_entry_header adjacent_entries 1 0"
    by (simp_all add: entries_overlap_def off fields)
  have two: "\<And>j P. (\<exists>j<2::nat. P j) = (P 0 \<or> P 1)"
    by (auto simp add: less_2_cases_iff)
  have t: "overlap (check_gpt_entries two_entry_header touching_entries (replicate 2 status_clear) ! 0)
           \<and> overlap (check_gpt_entries two_entry_header touching_entries (replicate 2 status_clear) ! 1)"
    using overlapping_entries_flagged [of 2 two_entry_header 0 1 touching_entries]
      h(1) used(1,2) range(1,2) ov(1)
    by (simp add: Let_def)
  have a0: "\<not> overlap (check_gpt_entries two_entry_header adjacent_entries (replicate 2 status_clear) ! 0)"
    using overlapping_entries_flagged [of 2 two_entry_header 0 1 adjacent_entries]
      h(1) used(3,4) range(3,4) ov(2)
    by (simp add: Let_def two)
  have a1: "\<not> overlap (check_gpt_entries two_entry_header adjacent_entries (replicate 2 status_clear) ! 1)"
    using overlapping_entries_flagged [of 2 two_entry_header 1 0 adjacent_entries]
      h(1) used(3,4) range(3,4) ov(3)
    by (simp add: Let_def two)
  from t a0 a1 show ?thesis by simp
qed

text \<open>
  The claim as stated fails in its only-if direction: in the table \<open>[10,19]\<close>,
  \<open>[20,30]\<close>, \<open>[15,25]\<close> the first two entries are non-empty, in range and do not
  overlap each other, and both are flagged, each for its overlap with the third.
\<close>

theorem overlap_iff_counterexample:
  "entry_used three_entry_header bridged_entries 0
   \<and> entry_used three_entry_header bridged_entries 1
   \<and> entry_in_range three_entry_header bridged_entries 0
   \<and> entry_in_range three_entry_header bridged_entries 1
   \<and> \<not> entries_overlap three_entry_header bridged_entries 0 1
   \<and> overlap (check_gpt_entries three_entry_header bridged_entries (replicate 3 status_clear) ! 0)
   \<and> overlap (check_gpt_entries three_entry_header bridged_entries (replicate 3 status_clear) ! 1)"
proof -
  have h: "unat (num_partition_entries three_entry_header) = 3"
    "partition_entry_size three_entry_header = 128"
    "first_usable_lba three_entry_header = 2"
    "last_usable_lba three_entry_header = 100"
    by (simp_all add: three_entry_header_def num_partition_entries_def partition_entry_size_def
          first_usable_lba_def last_usable_lba_def get_u64_def get_u32_def byte_at_def)
  have off: "entry_offset three_entry_header 0 = 0" "entry_offset three_entry_header (Suc 0) = 128"
    "entry_offset three_entry_header 2 = 256"
    by (simp_all add: entry_offset_def h)
  have used: "entry_used three_entry_header bridged_entries 0"
    "entry_used three_entry_header bridged_entries 1"
    "entry_used three_entry_header bridged_entries 2"
    by (rule entry_used_first_byte, simp add: off bridged_entries_def entry_eval)+
  have fields: "entry_starting_lba bridged_entries 0 = 10" "entry_ending_lba bridged_entries 0 = 19"
    "entry_starting_lba bridged_entries 128 = 20" "entry_ending_lba bridged_entries 128 = 30"
    "entry_starting_lba bridged_entries 256 = 15" "entry_ending_lba bridged_entries 256 = 25"
    by (simp_all add: bridged_entries_def entry_starting_lba_def entry_ending_lba_def
          get_u64_def get_u32_def entry_eval)
  have range: "entry_in_range three_entry_header bridged_entries 0"
    "entry_in_range three_entry_header bridged_entries 1"
    by (simp_all add: entry_in_range_def off fields h)
  have ov: "\<not> entries_overlap three_entry_header bridged_entries 0 1"
    "entries_overlap three_entry_header bridged_entries 0 2"
    "entries_overlap three_entry_header bridged_entries 1 2"
    by (simp_all add: entries_overlap_def off fields)
  have flag: "\<And>k. k < 3 \<Longrightarrow>
      overlap (check_gpt_entries three_entry_header bridged_entries (replicate 3 status_clear) ! k) =
        (entry_used three_entry_header bridged_entries k
         \<and> (\<exists>j<3. j \<noteq> k \<and> entry_used three_entry_header bridged_entries j
                \<and> entries_overlap three_entry_header bridged_entries k j
                \<and> (k < j \<longrightarrow> entry_in_range three_entry_header bridged_entries k)
                \<and> (j < k \<longrightarrow> entry_in_range three_entry_header bridged_entries j)))"
    using h(1) by (intro overlap_check_gpt_entries) simp_all
  have "\<exists>j<3. j \<noteq> 0 \<and> entry_used three_entry_header bridged_entries j
                \<and> entries_overlap three_entry_header bridged_entries 0 j
                \<and> (0 < j \<longrightarrow> entry_in_range three_entry_header bridged_entries 0)
                \<and> (j < 0 \<longrightarrow> entry_in_range three_entry_header bridged_entries j)"
    using used range ov by (intro exI [of _ 2]) simp
  then have f0: "overlap (check_gpt_entries three_entry_header bridged_entries (replicate 3 status_clear) ! 0)"
    using flag [of 0] used by simp
  have "\<exists>j<3. j \<noteq> 1 \<and> entry_used three_entry_header bridged_entries j
                \<and> entries_overlap three_entry_header bridged_entries 1 j
                \<and> (1 < j \<longrightarrow> entry_in_range three_entry_header bridged_entries 1)
                \<and> (j < 1 \<longrightarrow> entry_in_range three_entry_header bridged_entries j)"
    using used range ov by (intro exI [of _ 2]) simp
  then have f1: "overlap (check_gpt_entries three_entry_header bridged_entries (replicate 3 status_clear) ! 1)"
    using flag [of 1] used by simp
  from used range ov f0 f1 show ?thesis by simp
qed

section \<open>Discovery writes only when it restores\<close>

lemma cross_validation_only_reads:
  assumes r: "only_reads dev dev1"
    and v: "(fst (validate_gpt_table dev PRIMARY_PART_HEADER_LBA (replicate SIZEOF_gpt_header_t 0))
             \<and> fst (validate_gpt_table dev
                     (alternate_lba (fst (snd (validate_gpt_table dev PRIMARY_PART_HEADER_LBA
                        (replicate SIZEOF_gpt_header_t 0)))))
                     (replicate SIZEOF_gpt_header_t 0)))
            \<or> (\<not> fst (validate_gpt_table dev PRIMARY_PART_HEADER_LBA (replicate SIZEOF_gpt_header_t 0))
                \<and> \<not> fst (validate_gpt_table dev last_block (replicate SIZEOF_gpt_header_t 0)))"
  shows "only_reads dev1 (snd (snd (snd (snd (validate_primary_and_backup dev1 last_block)))))"
proof -
  let ?z = "replicate SIZEOF_gpt_header_t (0::u8)"
  obtain pv ph d1 where p: "validate_gpt_table dev1 PRIMARY_PART_HEADER_LBA ?z = (pv, ph, d1)"
    by (metis prod_cases3)
  have pv: "pv = fst (validate_gpt_table dev PRIMARY_PART_HEADER_LBA ?z)"
    and ph: "ph = fst (snd (validate_gpt_table dev PRIMARY_PART_HEADER_LBA ?z))"
    using validate_only_reads_verdict [OF r, of PRIMARY_PART_HEADER_LBA ?z] p by simp_all
  have r1: "only_reads dev1 d1"
    using p by (rule only_reads_validate)
  have r01: "only_reads dev d1"
    using r r1 by (rule only_reads_trans)
  show ?thesis
  proof (cases pv)
    case True
    obtain bv bh d2 where b: "validate_gpt_table d1 (alternate_lba ph) ?z = (bv, bh, d2)"
      by (metis prod_cases3)
    have "bv = fst (validate_gpt_table dev (alternate_lba ph) ?z)"
      using validate_only_reads_verdict(1) [OF r01, of "alternate_lba ph" ?z] b by simp
    with v True pv ph have bv: bv by simp
    have "only_reads d1 d2"
      using b by (rule only_reads_validate)
    with r1 have "only_reads dev1 d2"
      by (rule only_reads_trans)
    moreover have "validate_primary_and_backup dev1 last_block = (True, True, ph, bh, d2)"
      using p b True bv by (simp add: validate_primary_and_backup_def Let_def)
    ultimately show ?thesis by simp
  next
    case False
    obtain bv bh d2 where b: "validate_gpt_table d1 last_block ?z = (bv, bh, d2)"
      by (metis prod_cases3)
    have "bv = fst (validate_gpt_table dev last_block ?z)"
      using validate_only_reads_verdict(1) [OF r01, of last_block ?z] b by simp
    with v False pv have bv: "\<not> bv" by simp
    have "only_reads d1 d2"
      using b by (rule only_reads_validate)
    with r1 have "only_reads dev1 d2"
      by (rule only_reads_trans)
    moreover have "validate_primary_and_backup dev1 last_block = (False, False, ph, bh, d2)"
      using p b False bv by (simp add: validate_primary_and_backup_def Let_def)
    ultimately show ?thesis by simp
  qed
qed

text \<open>
  C9. When the primary header at block 1 and the backup header at the primary's declared
  alternate address both validate (or when neither the primary nor the header at the last
  block validates, so that no copy is restored), \<^verbatim>\<open>discover_gpt_partitions\<close> leaves
  the device as it was but for its log, and every event it adds to the log is a read:
  writes occur only when exactly one copy is invalid.
\<close>

theorem both_valid_no_write:
  assumes "(fst (validate_gpt_table dev PRIMARY_PART_HEADER_LBA (replicate SIZEOF_gpt_header_t 0))
             \<and> fst (validate_gpt_table dev
                     (alternate_lba (fst (snd (validate_gpt_table dev PRIMARY_PART_HEADER_LBA
                        (replicate SIZEOF_gpt_header_t 0)))))
                     (replicate SIZEOF_gpt_header_t 0)))
            \<or> (\<not> fst (validate_gpt_table dev PRIMARY_PART_HEADER_LBA (replicate SIZEOF_gpt_header_t 0))
                \<and> \<not> fst (validate_gpt_table dev (total_sectors dev - 1)
                           (replicate SIZEOF_gpt_header_t 0)))"
  shows "\<exists>evs. snd (snd (discover_gpt_partitions dev max_partitions))
                 = dev\<lparr>io_log := io_log dev @ evs\<rparr>
               \<and> list_all (\<lambda>e. \<not> is_write e) evs"
proof -
  let ?bs = "block_size dev"
  obtain st mbr dev1 where rd: "read_disk dev 0 ?bs = (st, mbr, dev1)"
    by (metis prod_cases3)
  have r1: "only_reads dev dev1"
    using rd by (rule only_reads_read_disk)
  obtain pv bv ph bh dev2 where
    cv: "validate_primary_and_backup dev1 (total_sectors dev - 1) = (pv, bv, ph, bh, dev2)"
    by (metis prod_cases5)
  have "only_reads dev1 dev2"
    using cross_validation_only_reads [OF r1 assms] cv by simp
  with r1 have r2: "only_reads dev dev2"
    by (rule only_reads_trans)
  let ?h = "if pv then ph else bh"
  obtain st1 entries dev3 where
    rd2: "read_disk dev2 (partition_entry_lba ?h * ucast ?bs)
            (num_partition_entries ?h * partition_entry_size ?h) = (st1, entries, dev3)"
    by (metis prod_cases3)
  have "only_reads dev2 dev3"
    using rd2 by (rule only_reads_read_disk)
  with r2 have r3: "only_reads dev dev3"
    by (rule only_reads_trans)
  have "snd (snd (discover_gpt_partitions dev max_partitions)) \<in> {dev, dev1, dev2, dev3}"
    using rd cv rd2 by (auto simp add: discover_gpt_partitions_def Let_def split: if_splits)
  with r1 r2 r3 have "only_reads dev (snd (snd (discover_gpt_partitions dev max_partitions)))"
    using only_reads_refl [of dev] by auto
  then show ?thesis
    by (simp add: only_reads_def)
qed

theorem both_valid_no_write_witness:
  "fst (validate_gpt_table gpt_device PRIMARY_PART_HEADER_LBA (replicate SIZEOF_gpt_header_t 0))
   \<and> alternate_lba (fst (snd (validate_gpt_table gpt_device PRIMARY_PART_HEADER_LBA
         (replicate SIZEOF_gpt_header_t 0)))) = 7
   \<and> fst (validate_gpt_table gpt_device 7 (replicate SIZEOF_gpt_header_t 0))
   \<and> (\<exists>evs. snd (snd (discover_gpt_partitions gpt_device 4))
                 = gpt_device\<lparr>io_log := io_log gpt_device @ evs\<rparr>
               \<and> list_all (\<lambda>e. \<not> is_write e) evs)"
proof -
  have p: "validate_gpt_table gpt_device PRIMARY_PART_HEADER_LBA (replicate SIZEOF_gpt_header_t 0)
             = (True, gpt_primary_header,
                gpt_device\<lparr>io_log := [IO_Read 512 512, IO_Read 1024 128]\<rparr>)"
    using gpt_primary_valid [of "[]" "replicate SIZEOF_gpt_header_t 0"]
    by (simp add: gpt_device_log PRIMARY_PART_HEADER_LBA_def)
  have b: "validate_gpt_table gpt_device 7 (replicate SIZEOF_gpt_header_t 0)
             = (True, gpt_backup_header,
                gpt_device\<lparr>io_log := [IO_Read 3584 512, IO_Read 3072 128]\<rparr>)"
    using gpt_backup_valid [of "[]" "replicate SIZEOF_gpt_header_t 0"]
    by (simp add: gpt_device_log)
  show ?thesis
    using both_valid_no_write [of gpt_device 4] p b
    by (simp add: gpt_primary_fields)
qed

section \<open>A valid table with no usable partition\<close>

lemma gpt_protective: "has_gpt_partition (map gpt_contents [0 ..< 512])"
  by (simp add: has_gpt_partition_def list_ex_slots mbr_partition_map_upt byte_at_map_upt
        get_u32_def gpt_contents_def protective_mbr_contents_def PMBR_GPT_PARTITION_def
        del: upt_rec_numeral)

lemma gpt_cross_validation:
  "validate_primary_and_backup (gpt_device\<lparr>io_log := l\<rparr>) 7 =
     (True, True, gpt_primary_header, gpt_backup_header,
      gpt_device\<lparr>io_log := l @ [IO_Read 512 512, IO_Read 1024 128, IO_Read 3584 512, IO_Read 3072 128]\<rparr>)"
  by (simp add: validate_primary_and_backup_def Let_def PRIMARY_PART_HEADER_LBA_def
        gpt_primary_valid gpt_backup_valid gpt_primary_fields)

lemma gpt_entry_array_fields:
  "byte_at gpt_entry_array 0 = 0x28"
  "entry_starting_lba gpt_entry_array 0 = 3"
  "entry_ending_lba gpt_entry_array 0 = 5"
  "entry_attributes gpt_entry_array 0 = 2"
  by (simp_all add: gpt_entry_array_def entry_starting_lba_def entry_ending_lba_def
        entry_attributes_def get_u64_def get_u32_def byte_at_def)

lemma gpt_entry_used:
  "entry_partition_type_guid gpt_entry_array 0 \<noteq> replicate 16 0"
  using entry_used_first_byte [of gpt_entry_array gpt_primary_header 0]
  by (simp add: entry_used_def entry_offset_def gpt_entry_array_fields)

lemma gpt_entry_status:
  "check_gpt_entries gpt_primary_header gpt_entry_array [status_clear] =
     [\<lparr>out_of_range = False, overlap = False, os_specific = True\<rparr>]"
  using gpt_entry_used
  by (simp add: check_gpt_entries_def Let_def gpt_primary_fields entry_offset_def
        compare_guid_def GUID_UNUSED_def gpt_entry_array_fields status_clear_def)

lemma mbr_success_nonempty:
  assumes "discover_mbr_partitions dev max_partitions = Some (STATUS_SUCCESS, partitions, dev')"
  shows "partitions \<noteq> []"
  using assms
  by (auto simp add: discover_mbr_partitions_def split: if_splits prod.splits option.splits)

text \<open>
  C3 on the GPT path, at a disk whose two table copies are valid and whose only entry is
  non-empty, in range and marked by attribute bit 1: \<^verbatim>\<open>discover_gpt_partitions\<close>
  returns success with no descriptor, where the MBR path returns not-found.
\<close>

theorem gpt_no_usable_partition_success:
  "discover_gpt_partitions gpt_device 4 =
     (STATUS_SUCCESS, [],
      gpt_device\<lparr>io_log := [IO_Read 0 512, IO_Read 512 512, IO_Read 1024 128,
                              IO_Read 3584 512, IO_Read 3072 128, IO_Read 1024 128]\<rparr>)"
proof -
  have rd: "read_disk gpt_device 0 512 =
              (STATUS_SUCCESS, map gpt_contents [0 ..< 512], gpt_device\<lparr>io_log := [IO_Read 0 512]\<rparr>)"
    by (simp add: read_disk_result gpt_device_fields del: upt_rec_numeral)
  have rd2: "read_disk (gpt_device\<lparr>io_log := l\<rparr>) 1024 128 =
              (STATUS_SUCCESS, gpt_entry_array, gpt_device\<lparr>io_log := l @ [IO_Read 1024 128]\<rparr>)" for l
    by (simp add: read_disk_result gpt_device_fields gpt_arrays del: upt_rec_numeral)
  have st: "process_gpt_entries gpt_primary_header gpt_entry_array
              [\<lparr>out_of_range = False, overlap = False, os_specific = True\<rparr>] 4 [0] [] = []"
    by simp
  show ?thesis
    using gpt_protective
    by (simp add: discover_gpt_partitions_def Let_def gpt_device_fields rd rd2
          gpt_cross_validation gpt_primary_fields gpt_entry_status st
          SIZEOF_master_boot_record_t_def SIZEOF_gpt_header_t_def del: upt_rec_numeral)
qed

section \<open>The size of the entry array\<close>

text \<open>
  The test that \<^verbatim>\<open>validate_gpt_table\<close> makes on the two 32-bit fields, against
  \<open>2 ^ 64 - 1\<close>, rejects no header.
\<close>

lemma overflow_test_vacuous:
  "partition_entry_size header \<noteq> 0 \<Longrightarrow>
     \<not> (ucast (num_partition_entries header) :: u64)
         > 0xFFFFFFFFFFFFFFFF div ucast (partition_entry_size header)"
  by (rule overflow_check_never)

text \<open>
  C2, at a header that declares 0x02000001 entries of 128 bytes: the product,
  \<open>2 ^ 32 + 128\<close>, does not fit the 32 bits it is computed in, and
  \<^verbatim>\<open>validate_gpt_table\<close> accepts the header after reading and checksumming 128 bytes.
\<close>

theorem entry_array_size_wraps:
  "validate_gpt_table overflow_device 1 (replicate SIZEOF_gpt_header_t 0) =
     (True, overflow_header, overflow_device\<lparr>io_log := [IO_Read 512 512, IO_Read 1024 128]\<rparr>)
   \<and> unat (num_partition_entries overflow_header) * unat (partition_entry_size overflow_header)
       = 2 ^ 32 + 128
   \<and> unat (num_partition_entries overflow_header * partition_entry_size overflow_header) = 128"
  by (simp add: overflow_valid overflow_fields)

section \<open>GPT restoration\<close>

lemma map_outside_written:
  assumes "y \<le> lo \<or> hi \<le> x"
  shows "map (\<lambda>a. if lo \<le> a \<and> a < hi then f a else g a) [x ..< y] = map g [x ..< y]"
  using assms by (intro map_cong) auto

text \<open>
  C1 (as amended). For a source header struct and a device with room for it in a block, when
  the two allocations, the read and the two writes succeed, \<^verbatim>\<open>restore_gpt_table\<close> returns
  true after exactly three requests, in this order: it writes one block at the source's
  alternate address; it reads the source's entry array from the source's declared location;
  it writes that array at the new location. The block written is the source header with the
  self and alternate addresses swapped, zero beyond the struct, with the entry location set to
  the block after the usable range when the source is the primary header (its self address is
  1, so the copy goes into the backup slot) and to block 2 otherwise (the copy goes into the
  primary slot), and with the checksum of the declared header size computed with the
  checksum field zeroed.
\<close>

theorem restore_gpt_table_effect:
  assumes "length header = SIZEOF_gpt_header_t"
    and "SIZEOF_gpt_header_t \<le> unat (block_size dev)"
    and "pool dev (unat (block_size dev))"
    and "write_status dev (alternate_lba header * ucast (block_size dev)) (block_size dev)
           = STATUS_SUCCESS"
    and "pool dev (unat (num_partition_entries header * partition_entry_size header))"
    and "read_status dev (partition_entry_lba header * ucast (block_size dev))
           (num_partition_entries header * partition_entry_size header) = STATUS_SUCCESS"
    and "write_status dev (new_entry_lba header * ucast (block_size dev))
           (num_partition_entries header * partition_entry_size header) = STATUS_SUCCESS"
  shows "fst (restore_gpt_table dev header)
         \<and> (\<exists>nh entries.
               io_log (snd (restore_gpt_table dev header)) =
                 io_log dev @
                   [IO_Write (alternate_lba header * ucast (block_size dev)) (block_size dev) nh,
                    IO_Read (partition_entry_lba header * ucast (block_size dev))
                      (num_partition_entries header * partition_entry_size header),
                    IO_Write ((if my_lba header = 1 then last_usable_lba header + 1 else 2)
                                * ucast (block_size dev))
                      (num_partition_entries header * partition_entry_size header) entries]
               \<and> length nh = unat (block_size dev)
               \<and> my_lba nh = alternate_lba header
               \<and> alternate_lba nh = my_lba header
               \<and> partition_entry_lba nh
                   = (if my_lba header = 1 then last_usable_lba header + 1 else 2)
               \<and> (\<forall>i. i \<notin> {16 ..< 20} \<union> {24 ..< 40} \<union> {72 ..< 80}
                        \<longrightarrow> byte_at nh i = byte_at header i)
               \<and> header_crc32 nh = calculate_crc32 (set_header_crc32 0 nh) (unat (header_size nh))
               \<and> entries =
                   map (\<lambda>a. if unat (alternate_lba header * ucast (block_size dev)) \<le> a
                              \<and> a < unat (alternate_lba header * ucast (block_size dev))
                                    + unat (block_size dev)
                            then byte_at nh (a - unat (alternate_lba header * ucast (block_size dev)))
                            else contents dev a)
                     [unat (partition_entry_lba header * ucast (block_size dev)) ..<
                      unat (partition_entry_lba header * ucast (block_size dev))
                        + unat (num_partition_entries header * partition_entry_size header)])"
proof -
  let ?nh = "new_header (unat (block_size dev)) header"
  have nel: "new_entry_lba header = (if my_lba header = 1 then last_usable_lba header + 1 else 2)"
    by (simp add: new_entry_lba_def PRIMARY_PART_HEADER_LBA_def)
  have w: "contents (snd (write_disk dev (alternate_lba header * ucast (block_size dev))
                      (block_size dev) ?nh)) =
             (\<lambda>a. if unat (alternate_lba header * ucast (block_size dev)) \<le> a
                      \<and> a < unat (alternate_lba header * ucast (block_size dev))
                            + unat (block_size dev)
                   then byte_at ?nh (a - unat (alternate_lba header * ucast (block_size dev)))
                   else contents dev a)"
    using assms(4) by (simp add: write_disk_def Let_def)
  show ?thesis
    using restore_gpt_table_run [OF assms] new_header_fields [OF assms(1,2)]
    unfolding w nel
    by (intro conjI exI [of _ ?nh]
          exI [of _ "map (\<lambda>a. if unat (alternate_lba header * ucast (block_size dev)) \<le> a
                      \<and> a < unat (alternate_lba header * ucast (block_size dev))
                            + unat (block_size dev)
                   then byte_at ?nh (a - unat (alternate_lba header * ucast (block_size dev)))
                   else contents dev a)
                     [unat (partition_entry_lba header * ucast (block_size dev)) ..<
                      unat (partition_entry_lba header * ucast (block_size dev))
                        + unat (num_partition_entries header * partition_entry_size header)]"])
       simp_all
qed

theorem restore_gpt_table_effect_witness:
  "fst (restore_gpt_table gpt_device gpt_primary_header)
   \<and> (\<exists>nh entries.
         io_log (snd (restore_gpt_table gpt_device gpt_primary_header)) =
           [IO_Write 3584 512 nh, IO_Read 1024 128, IO_Write 3072 128 entries]
         \<and> length nh = 512
         \<and> my_lba nh = 7 \<and> alternate_lba nh = 1 \<and> partition_entry_lba nh = 6
         \<and> header_crc32 nh = calculate_crc32 (set_header_crc32 0 nh) (unat (header_size nh)))"
  using restore_gpt_table_effect [of gpt_primary_header gpt_device]
  apply (simp add: gpt_primary_fields gpt_device_fields SIZEOF_gpt_header_t_def new_entry_lba_def
          PRIMARY_PART_HEADER_LBA_def del: upt_rec_numeral)
  apply (elim conjE exE)
  apply (intro exI conjI)
       apply assumption+
  done

text \<open>
  The claim as stated has the two locations the other way round. Restoring from the primary
  header writes the new header into the backup slot, block 7, and the new entry location is
  6, the block after the usable range \<open>[3, 5]\<close>, not block 2; restoring from the backup
  header writes into the primary slot, block 1, and the new entry location is block 2.
\<close>

theorem restore_entry_location_counterexample:
  "my_lba (new_header 512 gpt_primary_header) = 7
   \<and> last_usable_lba gpt_primary_header = 5
   \<and> partition_entry_lba (new_header 512 gpt_primary_header) = 6
   \<and> io_log (snd (restore_gpt_table gpt_device gpt_primary_header)) =
       [IO_Write 3584 512 (new_header 512 gpt_primary_header), IO_Read 1024 128,
        IO_Write 3072 128 gpt_entry_array]
   \<and> my_lba (new_header 512 gpt_backup_header) = 1
   \<and> last_usable_lba gpt_backup_header = 5
   \<and> partition_entry_lba (new_header 512 gpt_backup_header) = 2
   \<and> io_log (snd (restore_gpt_table gpt_device gpt_backup_header)) =
       [IO_Write 512 512 (new_header 512 gpt_backup_header), IO_Read 3072 128,
        IO_Write 1024 128 gpt_entry_array]"
proof -
  have p: "my_lba (new_header 512 gpt_primary_header) = 7"
    "partition_entry_lba (new_header 512 gpt_primary_header) = 6"
    using new_header_fields(2,4) [of gpt_primary_header 512]
    by (simp_all add: gpt_primary_fields SIZEOF_gpt_header_t_def new_entry_lba_def
          PRIMARY_PART_HEADER_LBA_def)
  have b: "my_lba (new_header 512 gpt_backup_header) = 1"
    "partition_entry_lba (new_header 512 gpt_backup_header) = 2"
    using new_header_fields(2,4) [of gpt_backup_header 512]
    by (simp_all add: gpt_backup_fields SIZEOF_gpt_header_t_def new_entry_lba_def
          PRIMARY_PART_HEADER_LBA_def)
  have lp: "io_log (snd (restore_gpt_table gpt_device gpt_primary_header)) =
       [IO_Write 3584 512 (new_header 512 gpt_primary_header), IO_Read 1024 128,
        IO_Write 3072 128 gpt_entry_array]"
    using restore_gpt_table_run(2) [of gpt_primary_header gpt_device]
    by (simp add: gpt_primary_fields gpt_device_fields SIZEOF_gpt_header_t_def new_entry_lba_def
          PRIMARY_PART_HEADER_LBA_def write_disk_def Let_def map_outside_written gpt_arrays
          del: upt_rec_numeral)
  have lb: "io_log (snd (restore_gpt_table gpt_device gpt_backup_header)) =
       [IO_Write 512 512 (new_header 512 gpt_backup_header), IO_Read 3072 128,
        IO_Write 1024 128 gpt_entry_array]"
    using restore_gpt_table_run(2) [of gpt_backup_header gpt_device]
    by (simp add: gpt_backup_fields gpt_device_fields SIZEOF_gpt_header_t_def new_entry_lba_def
          PRIMARY_PART_HEADER_LBA_def write_disk_def Let_def map_outside_written gpt_arrays
          del: upt_rec_numeral)
  from p b lp lb show ?thesis
    by (simp add: gpt_primary_fields gpt_backup_fields)
qed

section \<open>MBR discovery and the EBR chain\<close>


























section \<open>Termination of the EBR walk\<close>

text \<open>The cyclic disk: the EBR in block 1 links to block 1 and adds no partition.\<close>

lemma cyclic_ebr:
  "block_size cyclic_device = 512"
  "read_disk (cyclic_device\<lparr>io_log := l\<rparr>) 512 512
     = (STATUS_SUCCESS, map cyclic_contents [512 ..< 1024],
        cyclic_device\<lparr>io_log := l @ [IO_Read 512 512]\<rparr>)"
  "mbr_signature (map cyclic_contents [512 ..< 1024]) = 0xAA55"
  "os_indicator (mbr_partition (map cyclic_contents [512 ..< 1024]) 0) = 0"
  "os_indicator (mbr_partition (map cyclic_contents [512 ..< 1024]) (Suc 0)) = 0x05"
  "starting_lba (mbr_partition (map cyclic_contents [512 ..< 1024]) (Suc 0)) = 0"
  "size_in_lba (mbr_partition (map cyclic_contents [512 ..< 1024]) (Suc 0)) = 1"
  by (simp_all add: read_disk_def Let_def cyclic_device_def blank_device_def
        mbr_partition_map_upt mbr_signature_def get_u32_def get_u16_def
        byte_at_map_upt cyclic_contents_def boot_record_byte_def del: upt_rec_numeral)

lemma cyclic_walk_no_result:
  assumes "ebr_chain_loop base maxp dev cur num parts = Some y"
  shows "\<not> (base = 1 \<and> maxp = 4 \<and> (\<exists>l. dev = cyclic_device\<lparr>io_log := l\<rparr>) \<and> cur = 1 \<and> parts = [])"
proof (rule ebr_chain_loop.raw_induct
         [where P = "\<lambda>base maxp dev cur num parts y.
                       \<not> (base = 1 \<and> maxp = 4 \<and> (\<exists>l. dev = cyclic_device\<lparr>io_log := l\<rparr>)
                          \<and> cur = 1 \<and> parts = [])",
          OF _ assms], goal_cases)
  case (1 f base maxp dev cur num parts y)
  show ?case
  proof
    assume inv: "base = 1 \<and> maxp = 4 \<and> (\<exists>l. dev = cyclic_device\<lparr>io_log := l\<rparr>) \<and> cur = 1 \<and> parts = []"
    then obtain l where l: "dev = cyclic_device\<lparr>io_log := l\<rparr>" by blast
    from inv have v: "base = 1" "maxp = 4" "cur = 1" "parts = []" by simp_all
    have step: "f 1 4 (cyclic_device\<lparr>io_log := l @ [IO_Read 512 512]\<rparr>) 1 num [] = Some y"
      using 1(2) unfolding v l
      by (simp add: cyclic_ebr MBR_SIGNATURE_def Let_def PARTITION_TYPE_EMPTY_def
            is_extended_partition_def PARTITION_TYPE_EXTENDED_def del: upt_rec_numeral)
    have ex: "\<exists>la. cyclic_device\<lparr>io_log := l @ [IO_Read 512 512]\<rparr> = cyclic_device\<lparr>io_log := la\<rparr>"
      by (rule exI) (rule refl)
    from 1(1) [OF step] ex show False by simp
  qed
qed

lemma cyclic_mbr:
  "mbr_signature (map cyclic_contents [0 ..< 512]) = 0xAA55"
  "mbr_partition (map cyclic_contents [0 ..< 512]) 0
     = \<lparr>boot_indicator = 0x00, os_indicator = 0x05, starting_lba = 1, size_in_lba = 8\<rparr>"
  "mbr_partition (map cyclic_contents [0 ..< 512]) (Suc 0)
     = \<lparr>boot_indicator = 0x00, os_indicator = 0x00, starting_lba = 0, size_in_lba = 0\<rparr>"
  "mbr_partition (map cyclic_contents [0 ..< 512]) 2
     = \<lparr>boot_indicator = 0x00, os_indicator = 0x00, starting_lba = 0, size_in_lba = 0\<rparr>"
  "mbr_partition (map cyclic_contents [0 ..< 512]) 3
     = \<lparr>boot_indicator = 0x00, os_indicator = 0x00, starting_lba = 0, size_in_lba = 0\<rparr>"
  by (simp_all add: mbr_partition_map_upt mbr_signature_def get_u32_def get_u16_def
        byte_at_map_upt cyclic_contents_def boot_record_byte_def del: upt_rec_numeral)

lemma ring_device_count: "logical_count ring_device 1 3 1 = 3"
  unfolding numeral_3_eq_3
  by (simp add: ring_device_links ring_device_blocks ring_device_ebrs slot_used_def
        del: upt_rec_numeral)

text \<open>
  C10 (as amended). \<^verbatim>\<open>process_extended_partition\<close> returns exactly in these cases:
  its buffer cannot be allocated, or there is a number \<open>n\<close> of EBRs after which the
  walk is over, because the chain of next-EBR links from the starting EBR has ended within
  \<open>n\<close> links (a link is 0 when the second slot is empty, of zero size or not of an
  extended type, when the block lacks the signature or cannot be read), or because the
  descriptors present at the start together with the used first slots of the first
  \<open>n\<close> EBRs reach the caller's maximum. In every other case the walk does not return.
\<close>

theorem ebr_walk_terminates:
  "(\<exists>r. process_extended_partition dev base ebr_lba parts maxp = Some r)
     \<longleftrightarrow>
   (\<not> pool dev (unat (block_size dev))
    \<or> (\<exists>n. (ebr_link dev base ^^ n) ebr_lba = 0
            \<or> maxp \<le> length parts + logical_count dev base n ebr_lba))"
proof (cases "pool dev (unat (block_size dev))")
  case False
  then show ?thesis
    by (simp add: process_extended_partition_def)
next
  case True
  then have walk: "process_extended_partition dev base ebr_lba parts maxp
                     = ebr_chain_loop base maxp dev ebr_lba 5 parts"
    by (simp add: process_extended_partition_def)
  show ?thesis
  proof
    assume "\<exists>r. process_extended_partition dev base ebr_lba parts maxp = Some r"
    then obtain r where "ebr_chain_loop base maxp dev ebr_lba 5 parts = Some r"
      unfolding walk by blast
    then have "\<exists>n. (ebr_link dev base ^^ n) ebr_lba = 0
                    \<or> maxp \<le> length parts + logical_count dev base n ebr_lba"
      by (rule ebr_chain_loop_returned)
    then show "\<not> pool dev (unat (block_size dev))
               \<or> (\<exists>n. (ebr_link dev base ^^ n) ebr_lba = 0
                       \<or> maxp \<le> length parts + logical_count dev base n ebr_lba)"
      by simp
  next
    assume "\<not> pool dev (unat (block_size dev))
            \<or> (\<exists>n. (ebr_link dev base ^^ n) ebr_lba = 0
                    \<or> maxp \<le> length parts + logical_count dev base n ebr_lba)"
    with True obtain n where "(ebr_link dev base ^^ n) ebr_lba = 0
                    \<or> maxp \<le> length parts + logical_count dev base n ebr_lba"
      by blast
    then show "\<exists>r. process_extended_partition dev base ebr_lba parts maxp = Some r"
      unfolding walk by (rule ebr_chain_loop_returns)
  qed
qed

text \<open>
  Three walks that return: over the chain of three EBRs, which ends; over the EBR that
  links to itself and has a used first slot, with a maximum of three, where the chain never
  ends and the third descriptor fills the array; and over the EBR that links to itself and
  has an empty first slot, with a maximum of zero, where the loop is not entered.
\<close>

theorem ebr_walk_terminates_witness:
  "(\<exists>r. process_extended_partition chain_device 10 10 [] 16 = Some r)
   \<and> (\<exists>r. process_extended_partition ring_device 1 1 [] 3 = Some r)
   \<and> (\<exists>r. process_extended_partition cyclic_device 1 1 [] 0 = Some r)"
proof -
  have "(ebr_link chain_device 10 ^^ 3) 10 = 0
        \<or> 16 \<le> length ([] :: mbr_partition_info_t list) + logical_count chain_device 10 3 10"
    by (simp add: example_chains_ended)
  then have 1: "\<exists>r. process_extended_partition chain_device 10 10 [] 16 = Some r"
    using ebr_walk_terminates [of chain_device 10 10 "[]" 16] by blast
  have "(ebr_link ring_device 1 ^^ 3) 1 = 0
        \<or> 3 \<le> length ([] :: mbr_partition_info_t list) + logical_count ring_device 1 3 1"
    by (simp add: ring_device_count)
  then have 2: "\<exists>r. process_extended_partition ring_device 1 1 [] 3 = Some r"
    using ebr_walk_terminates [of ring_device 1 1 "[]" 3] by blast
  have "(ebr_link cyclic_device 1 ^^ 0) 1 = 0
        \<or> 0 \<le> length ([] :: mbr_partition_info_t list) + logical_count cyclic_device 1 0 1"
    by simp
  then have 3: "\<exists>r. process_extended_partition cyclic_device 1 1 [] 0 = Some r"
    using ebr_walk_terminates [of cyclic_device 1 1 "[]" 0] by blast
  from 1 2 3 show ?thesis by blast
qed

text \<open>
  The claim as stated fails on the cyclic disk: with a maximum of four, the walk over the
  extended partition at block 1 reads the EBR in block 1, whose first slot is empty and
  whose second slot links to block 1 again, and never returns; neither does the discovery
  that starts it.
\<close>

theorem ebr_walk_counterexample:
  "process_extended_partition cyclic_device 1 1 [] 4 = None
   \<and> ebr_link cyclic_device 1 1 = 1
   \<and> \<not> slot_used (mbr_partition (ebr_block cyclic_device 1) 0)
   \<and> discover_mbr_partitions cyclic_device 4 = None"
proof -
  have none: "ebr_chain_loop 1 4 (cyclic_device\<lparr>io_log := l\<rparr>) 1 5 [] = None" for l
    using cyclic_walk_no_result [of 1 4 "cyclic_device\<lparr>io_log := l\<rparr>" 1 5 "[]"]
    by (cases "ebr_chain_loop 1 4 (cyclic_device\<lparr>io_log := l\<rparr>) 1 5 []") auto
  have log: "cyclic_device\<lparr>io_log := []\<rparr> = cyclic_device"
    by (simp add: cyclic_device_def blank_device_def)
  have dev: "pool cyclic_device k" "read_status cyclic_device off sz = STATUS_SUCCESS"
    "contents cyclic_device = cyclic_contents" "io_log cyclic_device = []" for k off sz
    by (simp_all add: cyclic_device_def blank_device_def)
  have blk: "ebr_block cyclic_device 1 = map cyclic_contents [512 ..< 1024]"
    by (simp add: ebr_block_def cyclic_ebr dev del: upt_rec_numeral)
  have walk: "process_extended_partition (cyclic_device\<lparr>io_log := l\<rparr>) 1 1 [] 4 = None" for l
    using none [of l] by (simp add: process_extended_partition_def dev)
  have ext: "is_extended_partition 0x05"
    by (simp add: is_extended_partition_def PARTITION_TYPE_EXTENDED_def)
  have valid: "validate_mbr (map cyclic_contents [0 ..< 512])"
    unfolding validate_mbr_def MAX_MBR_PARTITIONS_def upt_0_4
    by (simp add: MBR_SIGNATURE_def cyclic_mbr PARTITION_TYPE_EMPTY_def del: upt_rec_numeral)
  have prot: "\<not> is_protective_mbr (map cyclic_contents [0 ..< 512])"
    by (simp add: is_protective_mbr_def list_ex_slots cyclic_mbr PMBR_GPT_PARTITION_def
          del: upt_rec_numeral)
  have prim: "process_primary_partitions (cyclic_device\<lparr>io_log := l\<rparr>)
                (map cyclic_contents [0 ..< 512]) 4 [0, Suc 0, 2, 3] [] = None" for l
    by (simp add: cyclic_mbr PARTITION_TYPE_EMPTY_def ext walk del: upt_rec_numeral)
  have disc: "discover_mbr_partitions cyclic_device 4 = None"
    using valid prot prim
    by (simp add: discover_mbr_partitions_def cyclic_ebr dev read_disk_def Let_def
          SIZEOF_master_boot_record_t_def MAX_MBR_PARTITIONS_def upt_0_4 del: upt_rec_numeral)
  from walk [of "[]"] disc show ?thesis
    unfolding log
    by (simp add: ebr_link_def ebr_valid_def slot_used_def blk dev
          cyclic_ebr is_extended_partition_def PARTITION_TYPE_EXTENDED_def
          del: upt_rec_numeral)
qed

end
